theory Spec2Isabelle
  imports Main
begin

section \<open>Data model\<close>

text \<open>
  The objects of \<^verbatim>\<open>cmd/machine.go\<close> and of the recovery command, as records. Go strings and
  byte slices are byte lists (\<^typ>\<open>string\<close>); a Go pointer field that may be nil is an
  \<^typ>\<open>'a option\<close>. The Go types come from the cluster API and from the SSH provider; the
  records hold the fields that the two command files read or write. Object timestamps
  (\<^verbatim>\<open>metav1.Now()\<close>) are left out: nothing below reads them.
\<close>

type_synonym bytes = string

type_synonym MachineRole = string

definition MasterRole :: MachineRole where
  "MasterRole = ''Master''"

definition NodeRole :: MachineRole where
  "NodeRole = ''Node''"

record TypeMeta =
  Kind :: string
  APIVersion :: string

record EtcdMember =
  ID :: nat
  MemberName :: string
  PeerURLs :: "string list"
  ClientURLs :: "string list"

record SSHConfig =
  Host :: string
  Port :: int
  PublicKeys :: "string list"
  CredentialSecret :: string

text \<open>
  \<open>pmMachineRef\<close> is modelled from the spec: the provisioned machine's side of the
  bidirectional bind (4.3), written by the binder of the SSH provider, whose Go type is not
  among the sources.
\<close>

record ProvisionedMachine =
  pmTypeMeta :: TypeMeta
  pmName :: string
  pmNamespace :: string
  pmSSHConfig :: "SSHConfig option"
  pmVIPNetworkInterface :: string
  pmMachineRef :: "string option"

record Machine =
  mTypeMeta :: TypeMeta
  mName :: string
  mNamespace :: string
  mRoles :: "MachineRole list"
  mProviderSpec :: "bytes option"
  mProviderStatus :: "bytes option"

record Cluster =
  cName :: string
  cNamespace :: string
  cProviderSpec :: "bytes option"
  cProviderStatus :: "bytes option"

record Secret =
  sTypeMeta :: TypeMeta
  sName :: string
  sNamespace :: string
  sData :: "(string \<times> bytes) list"

text \<open>The typed provider payloads that travel inside the raw provider fields.\<close>

record MachineSpec =
  msTypeMeta :: TypeMeta
  ProvisionedMachineName :: string
  msRoles :: "string list"

record MachineStatus =
  mstTypeMeta :: TypeMeta
  mstSSHConfig :: "SSHConfig option"
  mstEtcdMember :: "EtcdMember option"

record ClusterStatus =
  cstTypeMeta :: TypeMeta
  EtcdMembers :: "EtcdMember list"

text \<open>
  A remote session (\<^verbatim>\<open>sshmachine.Client\<close>) is identified by the arguments of
  \<^verbatim>\<open>sshmachine.NewClient\<close>.
\<close>

record Client =
  clHost :: string
  clPort :: int
  clUsername :: string
  clPrivateKey :: bytes
  clPublicKeys :: "string list"
  clInsecureIgnoreHostKey :: bool

text \<open>
  Go errors: the store's distinguishable "not found" (\<^verbatim>\<open>apierrors.IsNotFound\<close>), any other
  error of a collaborator, and \<^verbatim>\<open>fmt.Errorf\<close> with its format string and arguments.
\<close>

datatype error =
    NotFound string
  | External string
  | Errorf string "fmtarg list"
and fmtarg =
    ArgS string
  | ArgE error
  | ArgN int
  | ArgM EtcdMember

fun IsNotFound :: "error \<Rightarrow> bool" where
  "IsNotFound (NotFound _) = True"
| "IsNotFound _ = False"

section \<open>Collaborators\<close>

text \<open>
  Every call that leaves the process: the object store (first argument: the namespace), the
  machine actuator, the remote command and file transport, the local file system and the
  log. A run of a command is described by the calls it makes, in order.
\<close>

datatype call =
    GetCluster string string
  | GetSecret string string
  | GetMachine string string
  | GetProvisionedMachine string string
  | ListMachines string
  | CreateProvisionedMachine string "ProvisionedMachine option"
  | CreateMachine string "Machine option"
  | CreateSecret string Secret
  | UpdateSecret string Secret
  | UpdateClusterStatus string Cluster
  | UpdateMachineStatus string Machine
  | DeleteMachine string string
  | DeleteProvisionedMachine string string
  | PullFromAPIs
  | ActuatorCreate bool Cluster Machine
  | ActuatorDelete bool Cluster Machine
  | NewClient Client
  | RunCommand Client string
  | ReadFile Client string
  | WriteFile Client string nat bytes
  | MkdirAll Client string nat
  | MoveFile Client string string
  | ReadLocalFile string
  | PublicKeyFromFile string
  | Log string "fmtarg list"

text \<open>
  The answers of the collaborators are not fixed by the program: each answer is a function
  of the calls made so far and of the call itself, one function for each shape of answer.
  The actuator works on the cluster and the machine through pointers, so its answer holds
  both objects as it leaves them.
\<close>

record world =
  onErr :: "call list \<Rightarrow> call \<Rightarrow> error option"
  onBytes :: "call list \<Rightarrow> call \<Rightarrow> error + bytes"
  onCommand :: "call list \<Rightarrow> call \<Rightarrow> bytes \<times> bytes \<times> error option"
  onCluster :: "call list \<Rightarrow> call \<Rightarrow> error + Cluster"
  onMachine :: "call list \<Rightarrow> call \<Rightarrow> error + Machine"
  onMachineList :: "call list \<Rightarrow> call \<Rightarrow> error + Machine list"
  onProvisionedMachine :: "call list \<Rightarrow> call \<Rightarrow> error + ProvisionedMachine"
  onSecret :: "call list \<Rightarrow> call \<Rightarrow> error + Secret"
  onActuator :: "call list \<Rightarrow> call \<Rightarrow> error + Cluster \<times> Machine"

text \<open>
  The pure functions of the SSH provider (\<^verbatim>\<open>sputil\<close>) and of the Go library that the
  commands call and that are not among the sources are parameters. A \<^verbatim>\<open>Put\<close> function
  writes through its pointer argument; here it returns the object written.
\<close>

record lib =
  GetMachineSpec :: "Machine \<Rightarrow> error + MachineSpec"
  GetMachineStatus :: "Machine \<Rightarrow> error + MachineStatus"
  GetClusterStatus :: "Cluster \<Rightarrow> error + ClusterStatus"
  PutMachineSpec :: "MachineSpec \<Rightarrow> Machine \<Rightarrow> error + Machine"
  PutMachineStatus :: "MachineStatus \<Rightarrow> Machine \<Rightarrow> error + Machine"
  PutClusterStatus :: "ClusterStatus \<Rightarrow> Cluster \<Rightarrow> error + Cluster"
  BindMachineAndProvisionedMachine ::
    "Machine \<Rightarrow> ProvisionedMachine \<Rightarrow> error + Machine \<times> ProvisionedMachine"
  UsernameAndKeyFromSecret :: "Secret \<Rightarrow> error + string \<times> bytes"
  UnmarshalEtcdMember :: "bytes \<Rightarrow> error + EtcdMember"
  filepathDir :: "string \<Rightarrow> string"
  TrimSpace :: "string \<Rightarrow> string"
  showDuration :: "int \<Rightarrow> string"
  showInt :: "int \<Rightarrow> string"

text \<open>The constants of package \<^verbatim>\<open>common\<close> and the two drain flags of the delete command.\<close>

record common =
  DefaultNamespace :: string
  DefaultClusterName :: string
  DefaultSSHCredentialSecretName :: string
  DefaultBootstrapTokenSecretName :: string
  drainTimeout :: int
  drainGracePeriodSeconds :: int

record env =
  common :: common
  sputil :: lib
  state :: world

section \<open>Runs\<close>

text \<open>
  A Go function that talks to the collaborators is a function from the calls made before it
  starts to its result and the calls it makes. It returns a value (\<open>Done\<close>), returns an
  error (\<open>Failed\<close>), ends the process with \<^verbatim>\<open>log.Fatalf\<close> (\<open>Fatal\<close>), or panics on a nil
  pointer or an index out of range (\<open>Panic\<close>).
\<close>

datatype 'a res = Done 'a | Failed error | Fatal string "fmtarg list" | Panic

type_synonym 'a prog = "call list \<Rightarrow> 'a res \<times> call list"

definition ret :: "'a \<Rightarrow> 'a prog" where
  "ret x = (\<lambda>h. (Done x, []))"

definition failWith :: "error \<Rightarrow> 'a prog" where
  "failWith e = (\<lambda>h. (Failed e, []))"

definition fatalf :: "string \<Rightarrow> fmtarg list \<Rightarrow> 'a prog" where
  "fatalf f args = (\<lambda>h. (Fatal f args, []))"

definition panic :: "'a prog" where
  "panic = (\<lambda>h. (Panic, []))"

definition bnd :: "'a prog \<Rightarrow> ('a \<Rightarrow> 'b prog) \<Rightarrow> 'b prog" where
  "bnd m f = (\<lambda>h.
     case m h of
       (Done x, out) \<Rightarrow> (case f x (h @ out) of (r, out') \<Rightarrow> (r, out @ out'))
     | (Failed e, out) \<Rightarrow> (Failed e, out)
     | (Fatal s args, out) \<Rightarrow> (Fatal s args, out)
     | (Panic, out) \<Rightarrow> (Panic, out))"

text \<open>\<open>ask c answer\<close> makes the call \<open>c\<close> and returns the collaborator's answer.\<close>

definition ask :: "call \<Rightarrow> (call list \<Rightarrow> call \<Rightarrow> 'r) \<Rightarrow> 'r prog" where
  "ask c answer = (\<lambda>h. (Done (answer h c), [c]))"

definition liftE :: "error + 'a \<Rightarrow> 'a prog" where
  "liftE r = (case r of Inl e \<Rightarrow> failWith e | Inr x \<Rightarrow> ret x)"

definition askV :: "call \<Rightarrow> (call list \<Rightarrow> call \<Rightarrow> error + 'a) \<Rightarrow> 'a prog" where
  "askV c answer = bnd (ask c answer) liftE"

definition askE :: "call \<Rightarrow> (call list \<Rightarrow> call \<Rightarrow> error option) \<Rightarrow> unit prog" where
  "askE c answer = bnd (ask c answer) (\<lambda>r. case r of None \<Rightarrow> ret () | Some e \<Rightarrow> failWith e)"

definition logp :: "string \<Rightarrow> fmtarg list \<Rightarrow> unit prog" where
  "logp f args = (\<lambda>h. (Done (), [Log f args]))"

text \<open>
  \<^verbatim>\<open>if err != nil { return fmt.Errorf(...) }\<close> is \<open>wrapE\<close>;
  \<^verbatim>\<open>if err != nil { log.Fatalf(...) }\<close> is \<open>orFatal\<close>.
\<close>

definition wrapE :: "'a prog \<Rightarrow> (error \<Rightarrow> error) \<Rightarrow> 'a prog" where
  "wrapE m w = (\<lambda>h.
     case m h of (Failed e, out) \<Rightarrow> (Failed (w e), out) | (r, out) \<Rightarrow> (r, out))"

definition orFatal :: "'a prog \<Rightarrow> (error \<Rightarrow> string \<times> fmtarg list) \<Rightarrow> 'a prog" where
  "orFatal m w = (\<lambda>h.
     case m h of
       (Failed e, out) \<Rightarrow> (Fatal (fst (w e)) (snd (w e)), out)
     | (r, out) \<Rightarrow> (r, out))"

text \<open>
  \<^verbatim>\<open>if err != nil { ... }\<close> with a body that neither returns nor exits is \<open>catchE\<close>:
  the run goes on after the handler.
\<close>

definition catchE :: "unit prog \<Rightarrow> (error \<Rightarrow> unit prog) \<Rightarrow> unit prog" where
  "catchE m handler = (\<lambda>h.
     case m h of
       (Failed e, out) \<Rightarrow> (case handler e (h @ out) of (r, out') \<Rightarrow> (r, out @ out'))
     | (r, out) \<Rightarrow> (r, out))"

section \<open>Parsing the join command printed by kubeadm\<close>

text \<open>
  \<^verbatim>\<open>strings.Fields\<close> splits around runs of white space as \<^verbatim>\<open>unicode.IsSpace\<close> defines it:
  the six ASCII characters tab, newline, vertical tab, form feed, carriage return and space,
  and the code points U+0085, U+00A0, U+1680, U+2000..U+200A, U+2028, U+2029, U+202F, U+205F
  and U+3000. A Go string is a byte sequence read as UTF-8, so \<open>spaceWidth\<close> gives the
  number of bytes of the white space character that starts the string, or 0 when none does.
\<close>

definition asciiSpace :: "char \<Rightarrow> bool" where
  "asciiSpace c \<longleftrightarrow> c \<in> set [CHR 0x09, CHR 0x0A, CHR 0x0B, CHR 0x0C, CHR 0x0D, CHR '' '']"

fun spaceWidth :: "string \<Rightarrow> nat" where
  "spaceWidth [] = 0"
| "spaceWidth (c # cs) =
     (if asciiSpace c then 1
      else if c = CHR 0xC2 \<and> (take 1 cs = [CHR 0x85] \<or> take 1 cs = [CHR 0xA0]) then 2
      else if c = CHR 0xE1 \<and> take 2 cs = [CHR 0x9A, CHR 0x80] then 3
      else if c = CHR 0xE2 \<and> take 1 cs = [CHR 0x80] \<and>
              (case drop 1 cs of
                 [] \<Rightarrow> False
               | d # _ \<Rightarrow> (0x80 \<le> (of_char d :: nat) \<and> (of_char d :: nat) \<le> 0x8A)
                    \<or> d = CHR 0xA8 \<or> d = CHR 0xA9 \<or> d = CHR 0xAF) then 3
      else if c = CHR 0xE2 \<and> take 2 cs = [CHR 0x81, CHR 0x9F] then 3
      else if c = CHR 0xE3 \<and> take 2 cs = [CHR 0x80, CHR 0x80] then 3
      else 0)"

text \<open>
  \<open>fieldsFrom cur s\<close> scans \<open>s\<close> with the field read so far in \<open>cur\<close>; a white space
  character closes a non-empty field and is dropped.
\<close>

function fieldsFrom :: "string \<Rightarrow> string \<Rightarrow> string list" where
  "fieldsFrom cur [] = (if cur = [] then [] else [cur])"
| "fieldsFrom cur (c # cs) =
     (if spaceWidth (c # cs) = 0 then fieldsFrom (cur @ [c]) cs
      else (if cur = [] then [] else [cur])
             @ fieldsFrom [] (drop (spaceWidth (c # cs) - 1) cs))"
  by pat_completeness auto
termination
  by (relation "measure (\<lambda>(cur, s). length s)") auto

definition Fields :: "string \<Rightarrow> string list" where
  "Fields s = fieldsFrom [] s"

text \<open>
  \<^verbatim>\<open>tokenAndCAHashFromKubeadmJoinCommand\<close>: the Go function returns two empty strings beside
  the error; the model returns the error alone.
\<close>

definition tokenAndCAHashFromKubeadmJoinCommand :: "string \<Rightarrow> error + (string \<times> string)" where
  "tokenAndCAHashFromKubeadmJoinCommand cmdStdout =
     (let fields = Fields cmdStdout in
      if length fields \<noteq> 7
      then Inl (Errorf ''expected 7 fields, found %v'' [ArgN (int (length fields))])
      else Inr (fields ! 4, fields ! 6))"

section \<open>The membership set\<close>

text \<open>
  Modelled from the spec: the membership set \<^verbatim>\<open>setsutil.EtcdMemberSet\<close> of the SSH provider
  is not among the sources. The spec (3, 4.2) gives a collection of membership records
  keyed by id, where an insert of an id already present replaces the record, a delete
  matches by id only and does nothing when the id is absent, and the listing has a stable
  order. The model keeps the records in a list ordered by id, one record for each id.
\<close>

type_synonym EtcdMemberSet = "EtcdMember list"

fun EtcdMemberSet_Insert :: "EtcdMember \<Rightarrow> EtcdMemberSet \<Rightarrow> EtcdMemberSet" where
  "EtcdMemberSet_Insert m [] = [m]"
| "EtcdMemberSet_Insert m (x # xs) =
     (if ID m < ID x then m # x # xs
      else if ID m = ID x then m # xs
      else x # EtcdMemberSet_Insert m xs)"

definition EtcdMemberSet_Delete :: "EtcdMember \<Rightarrow> EtcdMemberSet \<Rightarrow> EtcdMemberSet" where
  "EtcdMemberSet_Delete m s = filter (\<lambda>x. ID x \<noteq> ID m) s"

definition NewEtcdMemberSet :: "EtcdMember list \<Rightarrow> EtcdMemberSet" where
  "NewEtcdMemberSet items = foldl (\<lambda>s m. EtcdMemberSet_Insert m s) [] items"

definition EtcdMemberSet_List :: "EtcdMemberSet \<Rightarrow> EtcdMember list" where
  "EtcdMemberSet_List s = s"

text \<open>A sequence of operations on a set, for stating what a listing holds after it.\<close>

datatype setOp = Ins EtcdMember | Del EtcdMember

fun opID :: "setOp \<Rightarrow> nat" where
  "opID (Ins m) = ID m"
| "opID (Del m) = ID m"

fun applyOp :: "EtcdMemberSet \<Rightarrow> setOp \<Rightarrow> EtcdMemberSet" where
  "applyOp s (Ins m) = EtcdMemberSet_Insert m s"
| "applyOp s (Del m) = EtcdMemberSet_Delete m s"

definition applyOps :: "setOp list \<Rightarrow> EtcdMemberSet" where
  "applyOps ops = foldl applyOp (NewEtcdMemberSet []) ops"

text \<open>The invariant of the representation: ordered by id, so no id occurs twice.\<close>

definition byID :: "EtcdMemberSet \<Rightarrow> bool" where
  "byID s \<longleftrightarrow> sorted_wrt (\<lambda>a b. ID a < ID b) s"

text \<open>Four records for trying the set: \<open>memberA'\<close> has the id of \<open>memberA\<close> and other
  endpoints, \<open>memberB'\<close> has the id of \<open>memberB\<close> and another name.\<close>

definition memberA :: EtcdMember where
  "memberA = \<lparr>ID = 1, MemberName = ''m1'', PeerURLs = [], ClientURLs = [''https://10.0.0.1:2379'']\<rparr>"

definition memberA' :: EtcdMember where
  "memberA' = \<lparr>ID = 1, MemberName = ''m1'', PeerURLs = [], ClientURLs = [''https://10.0.9.1:2379'']\<rparr>"

definition memberB :: EtcdMember where
  "memberB = \<lparr>ID = 2, MemberName = ''m2'', PeerURLs = [], ClientURLs = [''https://10.0.0.2:2379'']\<rparr>"

definition memberB' :: EtcdMember where
  "memberB' = \<lparr>ID = 2, MemberName = ''renamed'', PeerURLs = [], ClientURLs = []\<rparr>"

section \<open>Remote sessions and cluster status\<close>

definition sshMachineClientFromSSHConfig :: "env \<Rightarrow> SSHConfig option \<Rightarrow> Client prog" where
  "sshMachineClientFromSSHConfig env sshConfig =
     (case sshConfig of
        None \<Rightarrow> panic
      | Some cfg \<Rightarrow>
          bnd (ask (GetSecret (DefaultNamespace (common env)) (CredentialSecret cfg))
                 (onSecret (state env)))
            (\<lambda>r. case r of
               Inl err \<Rightarrow>
                 if IsNotFound err
                 then failWith (Errorf ''unable to find SSH credential %q''
                                  [ArgS (CredentialSecret cfg)])
                 else failWith (Errorf ''unable to get SSH credential secret: %v'' [ArgE err])
             | Inr sshCredentialSecret \<Rightarrow>
                 bnd (wrapE (liftE (UsernameAndKeyFromSecret (sputil env) sshCredentialSecret))
                        (\<lambda>err. Errorf ''unable to read SSH credential from secret: %v''
                                  [ArgE err]))
                   (\<lambda>(username, privateKey).
                      bnd (if length (PublicKeys cfg) = 0
                           then logp ''Not able to verify machine SSH identity: No public keys given. Continuing...'' []
                           else ret ())
                        (\<lambda>_. let client = \<lparr>clHost = Host cfg, clPort = Port cfg,
                                            clUsername = username, clPrivateKey = privateKey,
                                            clPublicKeys = PublicKeys cfg,
                                            clInsecureIgnoreHostKey = (length (PublicKeys cfg) = 0)\<rparr>
                              in bnd (askE (NewClient client) (onErr (state env)))
                                   (\<lambda>_. ret client)))))"

text \<open>
  \<^verbatim>\<open>updateMachineEtcdMember\<close> writes the machine behind its pointer and returns an error or
  nil; the model returns the machine as the call leaves it together with the error.
\<close>

definition updateMachineEtcdMember ::
    "env \<Rightarrow> EtcdMember \<Rightarrow> Machine \<Rightarrow> (Machine \<times> error option) prog" where
  "updateMachineEtcdMember env etcdMember machine =
     (case GetMachineStatus (sputil env) machine of
        Inl err \<Rightarrow> ret (machine, Some (Errorf ''unable to decode machine status: %v'' [ArgE err]))
      | Inr machineStatus \<Rightarrow>
          (case PutMachineStatus (sputil env)
                  (machineStatus\<lparr>mstEtcdMember := Some etcdMember\<rparr>) machine of
             Inl err \<Rightarrow>
               ret (machine, Some (Errorf ''unable to encode machine status: %v'' [ArgE err]))
           | Inr machine' \<Rightarrow>
               bnd (ask (UpdateMachineStatus (mNamespace machine') machine')
                      (onErr (state env)))
                 (\<lambda>r. case r of
                    Some err \<Rightarrow>
                      ret (machine', Some (Errorf ''error updating machine %q: %v''
                                             [ArgS (mName machine'), ArgE err]))
                  | None \<Rightarrow> ret (machine', None))))"

definition insertClusterEtcdMember :: "env \<Rightarrow> EtcdMember \<Rightarrow> Cluster \<Rightarrow> Cluster prog" where
  "insertClusterEtcdMember env etcdMember cluster =
     bnd (wrapE (liftE (GetClusterStatus (sputil env) cluster))
            (\<lambda>err. Errorf ''unable to decode cluster status: %v'' [ArgE err]))
       (\<lambda>clusterStatus.
          let etcdMemberSet = NewEtcdMemberSet (EtcdMembers clusterStatus);
              etcdMemberSet' = EtcdMemberSet_Insert etcdMember etcdMemberSet;
              clusterStatus' = clusterStatus\<lparr>EtcdMembers := EtcdMemberSet_List etcdMemberSet'\<rparr>
          in bnd (wrapE (liftE (PutClusterStatus (sputil env) clusterStatus' cluster))
                    (\<lambda>err. Errorf ''unable to encode cluster status: %v'' [ArgE err]))
               (\<lambda>cluster'.
                  bnd (wrapE (askE (UpdateClusterStatus (DefaultNamespace (common env)) cluster')
                                (onErr (state env)))
                         (\<lambda>err. Errorf ''unable to update cluster: %v'' [ArgE err]))
                    (\<lambda>_. ret cluster')))"

definition removeClusterEtcdMember :: "env \<Rightarrow> EtcdMember \<Rightarrow> Cluster \<Rightarrow> Cluster prog" where
  "removeClusterEtcdMember env etcdMember cluster =
     bnd (wrapE (liftE (GetClusterStatus (sputil env) cluster))
            (\<lambda>err. Errorf ''unable to decode cluster status: %v'' [ArgE err]))
       (\<lambda>clusterStatus.
          let etcdMemberSet = NewEtcdMemberSet (EtcdMembers clusterStatus);
              etcdMemberSet' = EtcdMemberSet_Delete etcdMember etcdMemberSet;
              clusterStatus' = clusterStatus\<lparr>EtcdMembers := EtcdMemberSet_List etcdMemberSet'\<rparr>
          in bnd (wrapE (liftE (PutClusterStatus (sputil env) clusterStatus' cluster))
                    (\<lambda>err. Errorf ''unable to encode cluster status: %v'' [ArgE err]))
               (\<lambda>cluster'.
                  bnd (wrapE (askE (UpdateClusterStatus (DefaultNamespace (common env)) cluster')
                                (onErr (state env)))
                         (\<lambda>err. Errorf ''unable to update cluster: %v'' [ArgE err]))
                    (\<lambda>_. ret cluster')))"

section \<open>Recovery of the consensus store\<close>

text \<open>
  The four functions that run one remote command share their shape: run the command, and
  on an error return it with the command and both outputs.
\<close>

definition runCommandOrError :: "env \<Rightarrow> Client \<Rightarrow> string \<Rightarrow> bytes prog" where
  "runCommandOrError env client cmd =
     bnd (ask (RunCommand client cmd) (onCommand (state env)))
       (\<lambda>(stdOut, stdErr, err). case err of
          Some e \<Rightarrow> failWith (Errorf ''error running %q: %v (stdout: %q, stderr: %q)''
                                [ArgS cmd, ArgE e, ArgS stdOut, ArgS stdErr])
        | None \<Rightarrow> ret stdOut)"

definition resetCmd :: string where
  "resetCmd = ''/opt/bin/etcdadm'' @ '' reset --skip-remove-member''"

definition initCmd :: "string \<Rightarrow> string" where
  "initCmd remotePath = ''/opt/bin/etcdadm'' @ '' init --snapshot '' @ remotePath"

definition joinCmd :: "string \<Rightarrow> string" where
  "joinCmd endpoint = ''/opt/bin/etcdadm'' @ '' join '' @ endpoint"

definition infoCmd :: string where
  "infoCmd = ''/opt/bin/etcdadm'' @ '' info''"

definition restartCmd :: string where
  "restartCmd = ''systemctl restart kubelet''"

definition resetEtcdSkipRemoveMember :: "env \<Rightarrow> Client \<Rightarrow> unit prog" where
  "resetEtcdSkipRemoveMember env client =
     bnd (runCommandOrError env client resetCmd) (\<lambda>_. ret ())"

definition etcdadmInitFromSnapshot :: "env \<Rightarrow> string \<Rightarrow> Client \<Rightarrow> unit prog" where
  "etcdadmInitFromSnapshot env remotePath client =
     bnd (runCommandOrError env client (initCmd remotePath)) (\<lambda>_. ret ())"

definition etcdadmJoin :: "env \<Rightarrow> string \<Rightarrow> Client \<Rightarrow> unit prog" where
  "etcdadmJoin env endpoint client =
     bnd (runCommandOrError env client (joinCmd endpoint)) (\<lambda>_. ret ())"

definition restartKubelet :: "env \<Rightarrow> Client \<Rightarrow> unit prog" where
  "restartKubelet env client =
     bnd (runCommandOrError env client restartCmd) (\<lambda>_. ret ())"

definition etcdMemberFromMachine :: "env \<Rightarrow> Client \<Rightarrow> EtcdMember prog" where
  "etcdMemberFromMachine env machineClient =
     bnd (runCommandOrError env machineClient infoCmd)
       (\<lambda>stdOut. wrapE (liftE (UnmarshalEtcdMember (sputil env) stdOut))
                   (\<lambda>err. Errorf ''error unmarshalling etcdadm info output: %v'' [ArgE err]))"

definition writeEtcdSnapshot :: "env \<Rightarrow> string \<Rightarrow> string \<Rightarrow> Client \<Rightarrow> unit prog" where
  "writeEtcdSnapshot env localPath remotePath client =
     bnd (wrapE (askV (ReadLocalFile localPath) (onBytes (state env)))
            (\<lambda>err. Errorf ''unable to read etcd snapshot %q: %v'' [ArgS localPath, ArgE err]))
       (\<lambda>b. askE (WriteFile client remotePath 384 b) (onErr (state env)))"

text \<open>File modes: 0755 is 493, 0644 is 420, 0600 is 384.\<close>

definition writeSecretToMachine ::
    "env \<Rightarrow> Client \<Rightarrow> Secret option \<Rightarrow> string \<Rightarrow> string \<Rightarrow> string \<Rightarrow> string \<Rightarrow> unit prog" where
  "writeSecretToMachine env machineClient secret certKey keyKey certPath keyPath =
     (case secret of
        None \<Rightarrow> panic
      | Some sec \<Rightarrow>
     (case map_of (sData sec) certKey of
        None \<Rightarrow> failWith (Errorf ''did not find key %q in secret %q'' [ArgS certKey, ArgS (sName sec)])
      | Some cert \<Rightarrow>
     (case map_of (sData sec) keyKey of
        None \<Rightarrow> failWith (Errorf ''did not find key %q in secret %q'' [ArgS keyKey, ArgS (sName sec)])
      | Some key \<Rightarrow>
          let certDir = filepathDir (sputil env) certPath;
              keyDir = filepathDir (sputil env) keyPath;
              tmpCertPath = ''/tmp/'' @ certKey;
              tmpKeyPath = ''/tmp/'' @ keyKey
          in
          bnd (wrapE (askE (MkdirAll machineClient certDir 493) (onErr (state env)))
                 (\<lambda>err. Errorf ''unable to create cert dir %q on machine: %v''
                           [ArgS certDir, ArgE err]))
            (\<lambda>_.
          bnd (wrapE (askE (MkdirAll machineClient keyDir 493) (onErr (state env)))
                 (\<lambda>err. Errorf ''unable to create key dir %q on machine: %v''
                           [ArgS keyDir, ArgE err]))
            (\<lambda>_.
          bnd (wrapE (askE (WriteFile machineClient tmpCertPath 420 cert) (onErr (state env)))
                 (\<lambda>err. Errorf ''unable to write cert to %q on machine: %v''
                           [ArgS tmpCertPath, ArgE err]))
            (\<lambda>_.
          bnd (wrapE (askE (WriteFile machineClient tmpKeyPath 384 key) (onErr (state env)))
                 (\<lambda>err. Errorf ''unable to write key to %q on machine: %v''
                           [ArgS tmpKeyPath, ArgE err]))
            (\<lambda>_.
          bnd (askE (MoveFile machineClient tmpCertPath certPath) (onErr (state env)))
            (\<lambda>_. askE (MoveFile machineClient tmpKeyPath keyPath) (onErr (state env))))))))))"

text \<open>
  The loops of \<^verbatim>\<open>recoverEtcd\<close>, one function each. \<open>mastersWithClient\<close> pairs every
  master with its session; the machines are held through pointers, so the loops that write
  a machine return it for the loops that follow.
\<close>

fun mastersWithClient :: "env \<Rightarrow> Machine list \<Rightarrow> (Machine \<times> Client) list prog" where
  "mastersWithClient env [] = ret []"
| "mastersWithClient env (master # rest) =
     bnd (wrapE (liftE (GetMachineStatus (sputil env) master))
            (\<lambda>err. Errorf ''unable to decode machine %q spec: %v'' [ArgS (mName master), ArgE err]))
       (\<lambda>machineStatus.
     bnd (wrapE (sshMachineClientFromSSHConfig env (mstSSHConfig machineStatus))
            (\<lambda>err. Errorf ''unable to create machine client for machine %q: %v''
                      [ArgS (mName master), ArgE err]))
       (\<lambda>client.
     bnd (mastersWithClient env rest)
       (\<lambda>mwcs. ret ((master, client) # mwcs))))"

fun resetLoop :: "env \<Rightarrow> (Machine \<times> Client) list \<Rightarrow> Cluster \<Rightarrow> Cluster prog" where
  "resetLoop env [] cluster = ret cluster"
| "resetLoop env (mwc # rest) cluster =
     bnd (wrapE (resetEtcdSkipRemoveMember env (snd mwc))
            (\<lambda>err. Errorf ''unable to reset etcd on machine %q: %v''
                      [ArgS (mName (fst mwc)), ArgE err]))
       (\<lambda>_.
     bnd (wrapE (liftE (GetMachineStatus (sputil env) (fst mwc)))
            (\<lambda>err. Errorf ''unable to decode machine status: %v'' [ArgE err]))
       (\<lambda>machineStatus.
          case mstEtcdMember machineStatus of
            None \<Rightarrow> panic
          | Some etcdMember \<Rightarrow>
              bnd (wrapE (removeClusterEtcdMember env etcdMember cluster)
                     (\<lambda>err. Errorf ''unable to remove etcd member information for machine %q from cluster status: %v''
                               [ArgS (mName (fst mwc)), ArgE err]))
                (\<lambda>cluster'. resetLoop env rest cluster')))"

fun writeCALoop :: "env \<Rightarrow> Secret option \<Rightarrow> (Machine \<times> Client) list \<Rightarrow> unit prog" where
  "writeCALoop env etcdCASecret [] = ret ()"
| "writeCALoop env etcdCASecret (mwc # rest) =
     bnd (wrapE (writeSecretToMachine env (snd mwc) etcdCASecret ''tls.crt'' ''tls.key''
                   ''/etc/etcd/pki/ca.crt'' ''/etc/etcd/pki/ca.key'')
            (\<lambda>err. Errorf ''unable to write etcd CA cert and key to machine %q: %v''
                      [ArgS (mName (fst mwc)), ArgE err]))
       (\<lambda>_. writeCALoop env etcdCASecret rest)"

fun joinLoop ::
    "env \<Rightarrow> string \<Rightarrow> (Machine \<times> Client) list \<Rightarrow> Cluster
      \<Rightarrow> (Cluster \<times> (Machine \<times> Client) list) prog" where
  "joinLoop env endpoint [] cluster = ret (cluster, [])"
| "joinLoop env endpoint (mwc # rest) cluster =
     bnd (logp ''[recover etcd] Joining master %q to new etcd cluster'' [ArgS (mName (fst mwc))])
       (\<lambda>_.
     bnd (wrapE (etcdadmJoin env endpoint (snd mwc))
            (\<lambda>err. Errorf ''error running etcdadm join on machine %q: %v''
                      [ArgS (mName (fst mwc)), ArgE err]))
       (\<lambda>_.
     bnd (wrapE (etcdMemberFromMachine env (snd mwc))
            (\<lambda>err. Errorf ''error reading etcd member data from machine %q: %v''
                      [ArgS (mName (fst mwc)), ArgE err]))
       (\<lambda>etcdMember.
     bnd (updateMachineEtcdMember env etcdMember (fst mwc))
       (\<lambda>(machine', err). case err of
          Some e \<Rightarrow> failWith (Errorf ''unable to update machine %q status with etcd member %q: %v''
                                [ArgS (mName machine'), ArgM etcdMember, ArgE e])
        | None \<Rightarrow>
     bnd (wrapE (insertClusterEtcdMember env etcdMember cluster)
            (\<lambda>err. Errorf ''unable to update cluster status with etcd member %q: %v''
                      [ArgM etcdMember, ArgE err]))
       (\<lambda>cluster'.
     bnd (joinLoop env endpoint rest cluster')
       (\<lambda>(cluster'', rest'). ret (cluster'', (machine', snd mwc) # rest')))))))"

fun restartLoop :: "env \<Rightarrow> (Machine \<times> Client) list \<Rightarrow> unit prog" where
  "restartLoop env [] = ret ()"
| "restartLoop env (mwc # rest) =
     bnd (logp ''[recover etcd] Restarting kubelet on master %q to trigger immediate API server restart''
            [ArgS (mName (fst mwc))])
       (\<lambda>_.
     bnd (catchE (restartKubelet env (snd mwc))
            (\<lambda>err. logp ''Warning: Unable to restart kubelet on machine %q: %v''
                      [ArgS (mName (fst mwc)), ArgE err]))
       (\<lambda>_. restartLoop env rest))"

text \<open>
  The block "Recover the first master" of \<^verbatim>\<open>recoverEtcd\<close>: it returns the member that
  the seed reports, the seed's machine as written and the cluster as written.
\<close>

definition recoverFirst ::
    "env \<Rightarrow> string \<Rightarrow> string \<Rightarrow> Machine \<times> Client \<Rightarrow> Cluster
      \<Rightarrow> (EtcdMember \<times> Machine \<times> Cluster) prog" where
  "recoverFirst env localPath remotePath firstMWC cluster =
     bnd (logp ''[recover etcd] Initializing new etcd cluster from snapshot on master %q''
            [ArgS (mName (fst firstMWC))])
       (\<lambda>_.
     bnd (wrapE (writeEtcdSnapshot env localPath remotePath (snd firstMWC))
            (\<lambda>err. Errorf ''unable to write etcd snapshot to machine %q: %v''
                      [ArgS (mName (fst firstMWC)), ArgE err]))
       (\<lambda>_.
     bnd (wrapE (etcdadmInitFromSnapshot env remotePath (snd firstMWC))
            (\<lambda>err. Errorf ''error running etcdadm init on machine %q: %v''
                      [ArgS (mName (fst firstMWC)), ArgE err]))
       (\<lambda>_.
     bnd (wrapE (etcdMemberFromMachine env (snd firstMWC))
            (\<lambda>err. Errorf ''error reading etcd member data from machine %q: %v''
                      [ArgS (mName (fst firstMWC)), ArgE err]))
       (\<lambda>firstEtcdMember.
     bnd (updateMachineEtcdMember env firstEtcdMember (fst firstMWC))
       (\<lambda>(firstMachine, err). case err of
          Some e \<Rightarrow> failWith (Errorf ''unable to update machine %q status with etcd member %q: %v''
                                [ArgS (mName firstMachine), ArgM firstEtcdMember, ArgE e])
        | None \<Rightarrow>
     bnd (wrapE (insertClusterEtcdMember env firstEtcdMember cluster)
            (\<lambda>err. Errorf ''unable to update cluster status with etcd member %q: %v''
                      [ArgM firstEtcdMember, ArgE err]))
       (\<lambda>cluster'. ret (firstEtcdMember, firstMachine, cluster')))))))"

definition recoverEtcd ::
    "env \<Rightarrow> string \<Rightarrow> string \<Rightarrow> Secret option \<Rightarrow> Cluster \<Rightarrow> Machine list \<Rightarrow> unit prog" where
  "recoverEtcd env localPath remotePath etcdCASecret cluster masters =
     (if length masters = 0 then ret ()
      else
     bnd (mastersWithClient env masters)
       (\<lambda>mwcs.
     bnd (logp ''[recover etcd] Cleaning up degraded etcd cluster on all masters'' [])
       (\<lambda>_.
     bnd (resetLoop env mwcs cluster)
       (\<lambda>cluster1.
     bnd (logp ''[recover etcd] Writing etcd CA to all masters'' [])
       (\<lambda>_.
     bnd (writeCALoop env etcdCASecret mwcs)
       (\<lambda>_.
          case mwcs of
            [] \<Rightarrow> panic
          | firstMWC # otherMWCs \<Rightarrow>
     bnd (recoverFirst env localPath remotePath firstMWC cluster1)
       (\<lambda>(firstEtcdMember, firstMachine, cluster2).
          if length (ClientURLs firstEtcdMember) = 0
          then failWith (Errorf ''unable to proceed: etcd member for machine %q has no client URLs''
                           [ArgS (mName firstMachine)])
          else
     bnd (joinLoop env (hd (ClientURLs firstEtcdMember)) otherMWCs cluster2)
       (\<lambda>(cluster3, otherMWCs').
          restartLoop env ((firstMachine, snd firstMWC) # otherMWCs')))))))))"

section \<open>Deleting a machine\<close>

text \<open>\<^verbatim>\<open>clusterutil.RoleContains\<close> of the cluster API: whether the role occurs in the list.\<close>

definition RoleContains :: "MachineRole \<Rightarrow> MachineRole list \<Rightarrow> bool" where
  "RoleContains a l \<longleftrightarrow> a \<in> set l"

text \<open>
  The two nested loops of \<^verbatim>\<open>deleteMustNotOrphanNodes\<close>: one step for every role entry of
  every machine. The counters are Go ints, here unbounded.
\<close>

fun countRoles :: "MachineRole list \<Rightarrow> int \<times> int \<Rightarrow> int \<times> int" where
  "countRoles [] (countMasters, countNodes) = (countMasters, countNodes)"
| "countRoles (role # roles) (countMasters, countNodes) =
     countRoles roles
       (if role = MasterRole then (countMasters + 1, countNodes)
        else if role = NodeRole then (countMasters, countNodes + 1)
        else (countMasters, countNodes))"

fun countMachines :: "Machine list \<Rightarrow> int \<times> int \<Rightarrow> int \<times> int" where
  "countMachines [] counts = counts"
| "countMachines (machine # items) counts =
     countMachines items (countRoles (mRoles machine) counts)"

definition deleteMustNotOrphanNodes :: "env \<Rightarrow> Machine \<Rightarrow> unit prog" where
  "deleteMustNotOrphanNodes env targetMachine =
     (if RoleContains MasterRole (mRoles targetMachine)
      then
        bnd (orFatal (askV (ListMachines (DefaultNamespace (common env)))
                        (onMachineList (state env)))
               (\<lambda>err. (''Unable to list machines: %v'', [ArgE err])))
          (\<lambda>items. case countMachines items (0, 0) of
             (countMasters, countNodes) \<Rightarrow>
               if countMasters = 1 \<and> countNodes > 0
               then fatalf ''Not deleting last master while %v nodes are in the cluster. Delete the nodes first.''
                      [ArgN countNodes]
               else ret ())
      else ret ())"

definition kubectl :: string where
  "kubectl = ''/opt/bin/kubectl --kubeconfig=/etc/kubernetes/admin.conf''"

definition drainAndDeleteNodeForMachine ::
    "env \<Rightarrow> Machine \<Rightarrow> ProvisionedMachine \<Rightarrow> unit prog" where
  "drainAndDeleteNodeForMachine env targetMachine targetProvisionedMachine =
     bnd (wrapE (sshMachineClientFromSSHConfig env (pmSSHConfig targetProvisionedMachine))
            (\<lambda>err. Errorf ''unable to create machine client for machine %q: %v''
                      [ArgS (mName targetMachine), ArgE err]))
       (\<lambda>targetMachineClient.
     bnd (ask (RunCommand targetMachineClient
                 (kubectl @ '' get node --selector kubernetes.io/hostname=$(hostname -f) -oname''))
            (onCommand (state env)))
       (\<lambda>(stdOut, stdErr, err). case err of
          Some e \<Rightarrow> failWith (Errorf ''unable to identify the cluster node: %v (%s) (%s)''
                                [ArgE e, ArgS stdOut, ArgS stdErr])
        | None \<Rightarrow>
            let nodeName = TrimSpace (sputil env) stdOut in
            if length nodeName \<noteq> 0
            then
     bnd (logp ''Draining cluster node %q for machine %q'' [ArgS nodeName, ArgS (mName targetMachine)])
       (\<lambda>_.
     bnd (ask (RunCommand targetMachineClient
                 (kubectl @ '' drain --timeout='' @ showDuration (sputil env) (drainTimeout (common env))
                    @ '' --grace-period='' @ showInt (sputil env) (drainGracePeriodSeconds (common env))
                    @ '' --ignore-daemonsets '' @ nodeName))
            (onCommand (state env)))
       (\<lambda>(stdOut, stdErr, err). case err of
          Some e \<Rightarrow> failWith (Errorf ''unable to drain cluster node %q: %v (%s) (%s)''
                                [ArgS nodeName, ArgE e, ArgS stdOut, ArgS stdErr])
        | None \<Rightarrow>
     bnd (logp stdOut [])
       (\<lambda>_.
     bnd (logp ''Deleting cluster node %q for machine %q'' [ArgS nodeName, ArgS (mName targetMachine)])
       (\<lambda>_.
     bnd (ask (RunCommand targetMachineClient (kubectl @ '' delete '' @ nodeName))
            (onCommand (state env)))
       (\<lambda>(stdOut, stdErr, err). case err of
          Some e \<Rightarrow> failWith (Errorf ''unable to delete cluster node %q: %v (%s) (%s)''
                                [ArgS nodeName, ArgE e, ArgS stdOut, ArgS stdErr])
        | None \<Rightarrow> logp stdOut [])))))
            else ret ()))"

text \<open>
  The block \<^verbatim>\<open>if machineStatus.EtcdMember != nil { ... }\<close> of the create and the delete
  command: with a membership record, the cluster status is decoded, changed by \<open>change\<close>
  (insert or delete), encoded and written to the store; without one the block is skipped.
\<close>

definition updateClusterStatusIfMember ::
    "env \<Rightarrow> (EtcdMember \<Rightarrow> EtcdMemberSet \<Rightarrow> EtcdMemberSet) \<Rightarrow> MachineStatus \<Rightarrow> Cluster
      \<Rightarrow> Cluster prog" where
  "updateClusterStatusIfMember env change machineStatus cluster =
     (case mstEtcdMember machineStatus of
        None \<Rightarrow> ret cluster
      | Some etcdMember \<Rightarrow>
          bnd (orFatal (liftE (GetClusterStatus (sputil env) cluster))
                 (\<lambda>err. (''Unable to get cluster status: %v'', [ArgE err])))
            (\<lambda>clusterStatus.
               let etcdMemberSet = NewEtcdMemberSet (EtcdMembers clusterStatus);
                   etcdMemberSet' = change etcdMember etcdMemberSet;
                   clusterStatus' = clusterStatus\<lparr>EtcdMembers := EtcdMemberSet_List etcdMemberSet'\<rparr>
               in bnd (orFatal (liftE (PutClusterStatus (sputil env) clusterStatus' cluster))
                         (\<lambda>err. (''Unable to update cluster status: %v'', [ArgE err])))
                    (\<lambda>cluster'.
                       bnd (orFatal (askE (UpdateClusterStatus (DefaultNamespace (common env)) cluster')
                                       (onErr (state env)))
                              (\<lambda>err. (''Unable to update cluster: %v'', [ArgE err])))
                         (\<lambda>_. ret cluster'))))"

definition machineCmdDelete :: "env \<Rightarrow> string \<Rightarrow> unit prog" where
  "machineCmdDelete env ip =
     bnd (orFatal (askV (GetMachine (DefaultNamespace (common env)) ip) (onMachine (state env)))
            (\<lambda>err. (''Unable to get machine %q: %v'', [ArgS ip, ArgE err])))
       (\<lambda>targetMachine.
     bnd (orFatal (liftE (GetMachineSpec (sputil env) targetMachine))
            (\<lambda>err. (''Unable to decode machine %q spec: %v'', [ArgS (mName targetMachine), ArgE err])))
       (\<lambda>targetMachineSpec.
     bnd (orFatal (askV (GetProvisionedMachine (DefaultNamespace (common env))
                           (ProvisionedMachineName targetMachineSpec))
                     (onProvisionedMachine (state env)))
            (\<lambda>err. (''Unable to get provisioned machine %q: %v'',
                      [ArgS (ProvisionedMachineName targetMachineSpec), ArgE err])))
       (\<lambda>targetProvisionedMachine.
     bnd (orFatal (askV (GetCluster (DefaultNamespace (common env)) (DefaultClusterName (common env)))
                     (onCluster (state env)))
            (\<lambda>err. (''Unable to get cluster: %v'', [ArgE err])))
       (\<lambda>cluster.
     bnd (deleteMustNotOrphanNodes env targetMachine)
       (\<lambda>_.
     bnd (orFatal (drainAndDeleteNodeForMachine env targetMachine targetProvisionedMachine)
            (\<lambda>err. (''Unable to drain and delete cluster node for machine %q: %v'',
                      [ArgS (mName targetMachine), ArgE err])))
       (\<lambda>_.
          case pmSSHConfig targetProvisionedMachine of
            None \<Rightarrow> panic
          | Some sshConfig \<Rightarrow>
     bnd (if length (PublicKeys sshConfig) = 0
          then logp ''Not able to verify machine SSH identity: No public keys given. Continuing...'' []
          else ret ())
       (\<lambda>_.
     bnd (logp ''Deleting machine'' [])
       (\<lambda>_.
     bnd (orFatal (askV (ActuatorDelete (length (PublicKeys sshConfig) = 0) cluster targetMachine)
                     (onActuator (state env)))
            (\<lambda>err. (''Unable to delete machine: %v'', [ArgE err])))
       (\<lambda>(cluster', targetMachine').
     bnd (logp ''Updating cluster status'' [])
       (\<lambda>_.
     bnd (orFatal (liftE (GetMachineStatus (sputil env) targetMachine'))
            (\<lambda>err. (''Unable to get machine %q status: %v'', [ArgS (mName targetMachine'), ArgE err])))
       (\<lambda>machineStatus.
     bnd (updateClusterStatusIfMember env EtcdMemberSet_Delete machineStatus cluster')
       (\<lambda>_.
     bnd (orFatal (askE (DeleteMachine (DefaultNamespace (common env)) (mName targetMachine'))
                     (onErr (state env)))
            (\<lambda>err. (''unable to delete machine %q: %v'', [ArgS (mName targetMachine'), ArgE err])))
       (\<lambda>_.
     bnd (orFatal (askE (DeleteProvisionedMachine (DefaultNamespace (common env))
                           (pmName targetProvisionedMachine))
                     (onErr (state env)))
            (\<lambda>err. (''unable to delete provisioned machine %q: %v'',
                      [ArgS (pmName targetProvisionedMachine), ArgE err])))
       (\<lambda>_.
     bnd (orFatal (askE PullFromAPIs (onErr (state env)))
            (\<lambda>err. (''Unable to sync on-disk state: %v'', [ArgE err])))
       (\<lambda>_. logp ''Machine deleted successfully.'' [])))))))))))))))"

section \<open>Creating a machine\<close>

definition newProvisionedMachineAndMachine ::
    "env \<Rightarrow> string \<Rightarrow> MachineRole \<Rightarrow> string \<Rightarrow> SSHConfig
      \<Rightarrow> error + ProvisionedMachine \<times> Machine" where
  "newProvisionedMachineAndMachine env name role vipNetworkInterface sshConfig =
     (let newProvisionedMachine =
            \<lparr>pmTypeMeta = \<lparr>Kind = ''ProvisionedMachine'',
                            APIVersion = ''sshprovider.platform9.com/v1alpha1''\<rparr>,
             pmName = name, pmNamespace = DefaultNamespace (common env),
             pmSSHConfig = Some sshConfig,
             pmVIPNetworkInterface = vipNetworkInterface,
             pmMachineRef = None\<rparr>;
          newMachine =
            \<lparr>mTypeMeta = \<lparr>Kind = ''Machine'', APIVersion = ''cluster.k8s.io/v1alpha1''\<rparr>,
             mName = name, mNamespace = DefaultNamespace (common env),
             mRoles = [role], mProviderSpec = None, mProviderStatus = None\<rparr>;
          machineProviderSpec =
            \<lparr>msTypeMeta = \<lparr>Kind = ''MachineSpec'',
                            APIVersion = ''sshprovider.platform9.com/v1alpha1''\<rparr>,
             ProvisionedMachineName = pmName newProvisionedMachine,
             msRoles = [role]\<rparr>
      in case PutMachineSpec (sputil env) machineProviderSpec newMachine of
           Inl err \<Rightarrow> Inl (Errorf ''unable to encode machine provider spec: %v'' [ArgE err])
         | Inr newMachine1 \<Rightarrow>
             let machineProviderStatus =
                   \<lparr>mstTypeMeta = \<lparr>Kind = ''MachineStatus'',
                                   APIVersion = ''sshprovider.platform9.com/v1alpha1''\<rparr>,
                    mstSSHConfig = None, mstEtcdMember = None\<rparr>
             in case PutMachineStatus (sputil env) machineProviderStatus newMachine1 of
                  Inl err \<Rightarrow> Inl (Errorf ''unable to encode machine provider status: %v'' [ArgE err])
                | Inr newMachine2 \<Rightarrow>
                    (case BindMachineAndProvisionedMachine (sputil env) newMachine2 newProvisionedMachine of
                       Inl err \<Rightarrow>
                         Inl (Errorf ''unable to create bi-directional bind between machine and provisioned machine: %v''
                                [ArgE err])
                     | Inr (newMachine3, newProvisionedMachine') \<Rightarrow>
                         Inr (newProvisionedMachine', newMachine3)))"

definition firstMaster :: "Machine list \<Rightarrow> Machine option" where
  "firstMaster items = find (\<lambda>machine. RoleContains MasterRole (mRoles machine)) items"

definition masterMachineAndProvisionedMachine :: "env \<Rightarrow> (Machine \<times> ProvisionedMachine) prog" where
  "masterMachineAndProvisionedMachine env =
     bnd (wrapE (askV (ListMachines (DefaultNamespace (common env))) (onMachineList (state env)))
            (\<lambda>err. Errorf ''unable to list machines: %v'' [ArgE err]))
       (\<lambda>items. case firstMaster items of
          None \<Rightarrow> failWith (Errorf ''unable to find any machine with Master role, cannot obtain bootstrap token'' [])
        | Some masterMachine \<Rightarrow>
     bnd (wrapE (liftE (GetMachineSpec (sputil env) masterMachine))
            (\<lambda>err. Errorf ''unable to decode machine spec: %v'' [ArgE err]))
       (\<lambda>masterMachineSpec.
     bnd (wrapE (askV (GetProvisionedMachine (DefaultNamespace (common env))
                         (ProvisionedMachineName masterMachineSpec))
                   (onProvisionedMachine (state env)))
            (\<lambda>err. Errorf ''unable to get provisioned machine: %v'' [ArgE err]))
       (\<lambda>masterProvisionedMachine. ret (masterMachine, masterProvisionedMachine))))"

definition bootstrapTokenSecretFromMachine ::
    "env \<Rightarrow> Machine \<Rightarrow> ProvisionedMachine \<Rightarrow> Secret prog" where
  "bootstrapTokenSecretFromMachine env machine provisionedMachine =
     bnd (wrapE (sshMachineClientFromSSHConfig env (pmSSHConfig provisionedMachine))
            (\<lambda>err. Errorf ''unable to create machine client for machine %q: %v''
                      [ArgS (mName machine), ArgE err]))
       (\<lambda>machineClient.
          let cmd = ''/opt/bin/kubeadm token create --print-join-command'' in
     bnd (ask (RunCommand machineClient cmd) (onCommand (state env)))
       (\<lambda>(stdOut, stdErr, err). case err of
          Some e \<Rightarrow> failWith (Errorf ''error running %q: %v (%s) (%s)''
                                [ArgS cmd, ArgE e, ArgS stdOut, ArgS stdErr])
        | None \<Rightarrow>
            (case tokenAndCAHashFromKubeadmJoinCommand stdOut of
               Inl _ \<Rightarrow> failWith (Errorf ''unable to parse bootstrap token from stdout of %q: %q''
                                    [ArgS cmd, ArgS stdOut])
             | Inr (token, caHash) \<Rightarrow>
                 ret \<lparr>sTypeMeta = \<lparr>Kind = ''Secret'', APIVersion = ''v1''\<rparr>,
                      sName = DefaultBootstrapTokenSecretName (common env),
                      sNamespace = DefaultNamespace (common env),
                      sData = [(''token'', token), (''cahash'', caHash)]\<rparr>)))"

definition adminKubeconfigFromMachine ::
    "env \<Rightarrow> Machine \<Rightarrow> ProvisionedMachine \<Rightarrow> bytes prog" where
  "adminKubeconfigFromMachine env machine provisionedMachine =
     bnd (wrapE (sshMachineClientFromSSHConfig env (pmSSHConfig provisionedMachine))
            (\<lambda>err. Errorf ''unable to create machine client for machine %q: %v''
                      [ArgS (mName machine), ArgE err]))
       (\<lambda>machineClient.
          askV (ReadFile machineClient ''/etc/kubernetes/admin.conf'') (onBytes (state env)))"

definition writeAdminKubeconfigToMachine ::
    "env \<Rightarrow> bytes \<Rightarrow> Machine \<Rightarrow> ProvisionedMachine \<Rightarrow> unit prog" where
  "writeAdminKubeconfigToMachine env kubeconfig machine provisionedMachine =
     bnd (wrapE (sshMachineClientFromSSHConfig env (pmSSHConfig provisionedMachine))
            (\<lambda>err. Errorf ''unable to create machine client for machine %q: %v''
                      [ArgS (mName machine), ArgE err]))
       (\<lambda>machineClient.
          askE (WriteFile machineClient ''/etc/kubernetes/admin.conf'' 384 kubeconfig)
            (onErr (state env)))"

text \<open>
  The loop over the public key files; the answer to \<open>PublicKeyFromFile\<close> is the key in
  the authorized-keys format (\<^verbatim>\<open>ssh.MarshalAuthorizedKey\<close>).
\<close>

fun publicKeysFromFiles :: "env \<Rightarrow> string list \<Rightarrow> string list \<Rightarrow> string list prog" where
  "publicKeysFromFiles env [] publicKeys = ret publicKeys"
| "publicKeysFromFiles env (file # files) publicKeys =
     bnd (orFatal (askV (PublicKeyFromFile file) (onBytes (state env)))
            (\<lambda>err. (''Unable to parse SSH public key from %q: %v'', [ArgS file, ArgE err])))
       (\<lambda>publicKey. publicKeysFromFiles env files (publicKeys @ [publicKey]))"

text \<open>
  \<^verbatim>\<open>machineCmdCreate\<close>, from the parsed flags: the address, the interface, the role as
  \<^verbatim>\<open>strings.Title\<close> returns it, the result of \<^verbatim>\<open>strconv.Atoi\<close> on the port and the list
  that \<^verbatim>\<open>strings.Split\<close> makes of the public key files.

  The error of \<^verbatim>\<open>newProvisionedMachineAndMachine\<close> is assigned and never tested: when the
  function fails both its pointers are nil (\<open>created = None\<close>), and the command goes on to
  the two \<^verbatim>\<open>Create\<close> calls with them. The master and its provisioned machine are likewise
  two pointers set together, nil unless the new machine is a node.
\<close>

definition machineCmdCreate ::
    "env \<Rightarrow> string \<Rightarrow> string \<Rightarrow> MachineRole \<Rightarrow> error + int \<Rightarrow> string list \<Rightarrow> unit prog" where
  "machineCmdCreate env ip iface role portFlag publicKeyFiles =
     (if role \<noteq> MasterRole \<and> role \<noteq> NodeRole
      then fatalf ''Machine role %q is not supported, must be %q or %q.''
             [ArgS role, ArgS MasterRole, ArgS NodeRole]
      else case portFlag of
        Inl err \<Rightarrow> fatalf ''Invalid port %v'' [ArgE err]
      | Inr port \<Rightarrow>
     bnd (publicKeysFromFiles env publicKeyFiles [])
       (\<lambda>publicKeys.
     bnd (orFatal (askV (GetCluster (DefaultNamespace (common env)) (DefaultClusterName (common env)))
                     (onCluster (state env)))
            (\<lambda>err. if IsNotFound err
                    then (''No cluster found. Create a cluster before creating a machine.'', [])
                    else (''Unable to get cluster: %v'', [ArgE err])))
       (\<lambda>cluster.
     bnd (orFatal (askV (GetSecret (DefaultNamespace (common env))
                           (DefaultSSHCredentialSecretName (common env)))
                     (onSecret (state env)))
            (\<lambda>err. if IsNotFound err
                    then (''No SSH credential found. Create a credential before creating a machine.'', [])
                    else (''Unable to get SSH credential secret: %v'', [ArgE err])))
       (\<lambda>sshCredentialSecret.
          let newSSHConfig = \<lparr>Host = ip, Port = port, PublicKeys = publicKeys,
                              CredentialSecret = sName sshCredentialSecret\<rparr>;
              created = (case newProvisionedMachineAndMachine env ip role iface newSSHConfig of
                           Inl err \<Rightarrow> None
                         | Inr pmm \<Rightarrow> Some pmm)
          in
     bnd (orFatal (askE (CreateProvisionedMachine (DefaultNamespace (common env))
                           (map_option fst created))
                     (onErr (state env)))
            (\<lambda>err. (''Unable to create provisioned machine: %v'', [ArgE err])))
       (\<lambda>_.
     bnd (orFatal (askE (CreateMachine (DefaultNamespace (common env)) (map_option snd created))
                     (onErr (state env)))
            (\<lambda>err. (''Unable to create machine: %v'', [ArgE err])))
       (\<lambda>_.
          case created of
            None \<Rightarrow> panic
          | Some (newProvisionedMachine, newMachine) \<Rightarrow>
     bnd (if RoleContains NodeRole (mRoles newMachine)
          then bnd (orFatal (masterMachineAndProvisionedMachine env)
                      (\<lambda>err. (''Unable to get a master machine and provisioned machine: %v'',
                                [ArgE err])))
                 (\<lambda>master. ret (Some master))
          else ret None)
       (\<lambda>master.
     bnd (if RoleContains NodeRole (mRoles newMachine)
          then
            bnd (logp ''Getting a bootstrap token from a master'' [])
              (\<lambda>_. case master of
                 None \<Rightarrow> panic
               | Some (masterMachine, masterProvisionedMachine) \<Rightarrow>
            bnd (orFatal (bootstrapTokenSecretFromMachine env masterMachine masterProvisionedMachine)
                   (\<lambda>err. (''Unable to read bootstrap token from master: %v'', [ArgE err])))
              (\<lambda>newBootstrapTokenSecret.
            bnd (ask (GetSecret (DefaultNamespace (common env))
                        (DefaultBootstrapTokenSecretName (common env)))
                   (onSecret (state env)))
              (\<lambda>r. case r of
                 Inl err \<Rightarrow>
                   if \<not> IsNotFound err
                   then fatalf ''Unable to get bootstrap token secret: %v'' [ArgE err]
                   else orFatal (askE (CreateSecret (DefaultNamespace (common env))
                                         newBootstrapTokenSecret)
                                   (onErr (state env)))
                          (\<lambda>err. (''Unable to create bootstrap token secret: %v'', [ArgE err]))
               | Inr _ \<Rightarrow>
                   orFatal (askE (UpdateSecret (DefaultNamespace (common env))
                                    newBootstrapTokenSecret)
                              (onErr (state env)))
                     (\<lambda>err. (''Unable to update bootstrap token secret: %v'', [ArgE err])))))
          else ret ())
       (\<lambda>_.
     bnd (if length publicKeys = 0
          then logp ''Not able to verify machine SSH identity: No public keys given. Continuing...'' []
          else ret ())
       (\<lambda>_.
     bnd (orFatal (askV (ActuatorCreate (length publicKeys = 0) cluster newMachine)
                     (onActuator (state env)))
            (\<lambda>err. (''Unable to create machine: %v'', [ArgE err])))
       (\<lambda>(cluster', newMachine').
     bnd (if RoleContains NodeRole (mRoles newMachine')
          then
            bnd (logp ''Writing admin kubeconfig to machine'' [])
              (\<lambda>_. case master of
                 None \<Rightarrow> panic
               | Some (masterMachine, masterProvisionedMachine) \<Rightarrow>
            bnd (orFatal (adminKubeconfigFromMachine env masterMachine masterProvisionedMachine)
                   (\<lambda>err. (''Unable to get admin kubeconfig from master: %v'', [ArgE err])))
              (\<lambda>kubeconfig.
                 orFatal (writeAdminKubeconfigToMachine env kubeconfig newMachine'
                            newProvisionedMachine)
                   (\<lambda>err. (''Unable to write admin kubeconfig to machine: %v'', [ArgE err]))))
          else ret ())
       (\<lambda>_.
     bnd (logp ''Updating cluster status'' [])
       (\<lambda>_.
     bnd (orFatal (liftE (GetMachineStatus (sputil env) newMachine'))
            (\<lambda>err. (''Unable to get machine %q status: %v'', [ArgS (mName newMachine'), ArgE err])))
       (\<lambda>machineStatus.
     bnd (updateClusterStatusIfMember env EtcdMemberSet_Insert machineStatus cluster')
       (\<lambda>_.
     bnd (orFatal (askE PullFromAPIs (onErr (state env)))
            (\<lambda>err. (''Unable to sync on-disk state: %v'', [ArgE err])))
       (\<lambda>_. logp ''Machine created successfully.'' [])))))))))))))))"

section \<open>Observing a run\<close>

text \<open>The calls of a run that the properties below speak about.\<close>

definition startsWith :: "string \<Rightarrow> string \<Rightarrow> bool" where
  "startsWith p s \<longleftrightarrow> take (length p) s = p"

definition isReset :: "call \<Rightarrow> bool" where
  "isReset c = (case c of RunCommand cl cmd \<Rightarrow> cmd = resetCmd | _ \<Rightarrow> False)"

definition isInit :: "call \<Rightarrow> bool" where
  "isInit c = (case c of RunCommand cl cmd \<Rightarrow> startsWith ''/opt/bin/etcdadm init '' cmd | _ \<Rightarrow> False)"

definition isJoin :: "call \<Rightarrow> bool" where
  "isJoin c = (case c of RunCommand cl cmd \<Rightarrow> startsWith ''/opt/bin/etcdadm join '' cmd | _ \<Rightarrow> False)"

definition isRestart :: "call \<Rightarrow> bool" where
  "isRestart c = (case c of RunCommand cl cmd \<Rightarrow> cmd = restartCmd | _ \<Rightarrow> False)"

definition isClusterUpdate :: "call \<Rightarrow> bool" where
  "isClusterUpdate c = (case c of UpdateClusterStatus ns cl \<Rightarrow> True | _ \<Rightarrow> False)"

text \<open>A call that changes the store, a machine or the local state; the rest read or log.\<close>

definition isMutation :: "call \<Rightarrow> bool" where
  "isMutation c =
     (case c of
        GetCluster _ _ \<Rightarrow> False
      | GetSecret _ _ \<Rightarrow> False
      | GetMachine _ _ \<Rightarrow> False
      | GetProvisionedMachine _ _ \<Rightarrow> False
      | ListMachines _ \<Rightarrow> False
      | NewClient _ \<Rightarrow> False
      | ReadFile _ _ \<Rightarrow> False
      | ReadLocalFile _ \<Rightarrow> False
      | PublicKeyFromFile _ \<Rightarrow> False
      | Log _ _ \<Rightarrow> False
      | _ \<Rightarrow> True)"

text \<open>
  \<open>emits P m\<close>: every call that \<open>m\<close> makes satisfies \<open>P\<close>, whatever was called before.
  \<open>whenEmits T R m\<close>: a run of \<open>m\<close> that makes a call satisfying \<open>T\<close> has a result
  satisfying \<open>R\<close>. \<open>halted r r'\<close>: \<open>r\<close> is an error, an exit or a panic, and \<open>r'\<close> is the same.
\<close>

definition emits :: "(call \<Rightarrow> bool) \<Rightarrow> 'a prog \<Rightarrow> bool" where
  "emits P m \<longleftrightarrow> (\<forall>h. \<forall>c \<in> set (snd (m h)). P c)"

definition whenEmits :: "(call \<Rightarrow> bool) \<Rightarrow> ('a res \<Rightarrow> bool) \<Rightarrow> 'a prog \<Rightarrow> bool" where
  "whenEmits T R m \<longleftrightarrow> (\<forall>h. (\<exists>c \<in> set (snd (m h)). T c) \<longrightarrow> R (fst (m h)))"

fun halted :: "'a res \<Rightarrow> 'b res \<Rightarrow> bool" where
  "halted (Done x) r = False"
| "halted (Failed e) r = (r = Failed e)"
| "halted (Fatal f args) r = (r = Fatal f args)"
| "halted Panic r = (r = Panic)"

section \<open>The calls of a recovery\<close>

text \<open>
  The calls and log lines that \<open>recoverEtcd\<close> makes, named so that a run can be
  compared with them: the two announcements, the error for a seed without client URLs,
  and, for a master with its session, the reset, initialization, information, join and
  restart commands.
\<close>

definition cleanupLog :: call where
  "cleanupLog = Log ''[recover etcd] Cleaning up degraded etcd cluster on all masters'' []"

definition caLog :: call where
  "caLog = Log ''[recover etcd] Writing etcd CA to all masters'' []"

definition noURLs :: "Machine \<Rightarrow> error" where
  "noURLs m = Errorf ''unable to proceed: etcd member for machine %q has no client URLs'' [ArgS (mName m)]"

definition resetCall :: "Machine \<times> Client \<Rightarrow> call" where
  "resetCall mwc = RunCommand (snd mwc) resetCmd"

definition seedCalls :: "string \<Rightarrow> string \<Rightarrow> Machine \<times> Client \<Rightarrow> bytes \<Rightarrow> call list" where
  "seedCalls lp rp mwc b =
     [ReadLocalFile lp, WriteFile (snd mwc) rp 384 b, RunCommand (snd mwc) (initCmd rp)]"

definition initLog :: "Machine \<times> Client \<Rightarrow> call" where
  "initLog mwc = Log ''[recover etcd] Initializing new etcd cluster from snapshot on master %q''
                   [ArgS (mName (fst mwc))]"

definition infoCall :: "Machine \<times> Client \<Rightarrow> call" where
  "infoCall mwc = RunCommand (snd mwc) infoCmd"

definition joinCall :: "string \<Rightarrow> Machine \<times> Client \<Rightarrow> call" where
  "joinCall ep mwc = RunCommand (snd mwc) (joinCmd ep)"

definition restartLog :: "Machine \<times> Client \<Rightarrow> call" where
  "restartLog mwc =
     Log ''[recover etcd] Restarting kubelet on master %q to trigger immediate API server restart''
       [ArgS (mName (fst mwc))]"

text \<open>The line that \<open>recoverEtcd\<close> logs when \<open>restartKubelet\<close> fails at history \<open>h\<close>, and any such line.\<close>

definition restartWarning :: "env \<Rightarrow> call list \<Rightarrow> Machine \<times> Client \<Rightarrow> call list" where
  "restartWarning env h mwc =
     (case onCommand (state env) h (RunCommand (snd mwc) restartCmd) of
        (stdOut, stdErr, None) \<Rightarrow> []
      | (stdOut, stdErr, Some e) \<Rightarrow>
          [Log ''Warning: Unable to restart kubelet on machine %q: %v''
             [ArgS (mName (fst mwc)),
              ArgE (Errorf ''error running %q: %v (stdout: %q, stderr: %q)''
                      [ArgS restartCmd, ArgE e, ArgS stdOut, ArgS stdErr])]])"

definition isWarning :: "call \<Rightarrow> bool" where
  "isWarning c =
     (case c of
        Log f args \<Rightarrow> f = ''Warning: Unable to restart kubelet on machine %q: %v''
      | _ \<Rightarrow> False)"

text \<open>
  The clusters that the reset loop persists, one per master: the cluster of the step before
  with the member recorded in the master's status removed. The list stops at the first
  master whose status or whose cluster status does not decode, or that records no member.
\<close>

fun clustersAfterReset :: "lib \<Rightarrow> Machine list \<Rightarrow> Cluster \<Rightarrow> Cluster list" where
  "clustersAfterReset l [] cluster = []"
| "clustersAfterReset l (machine # rest) cluster =
     (case GetMachineStatus l machine of
        Inl _ \<Rightarrow> []
      | Inr st \<Rightarrow>
          (case mstEtcdMember st of
             None \<Rightarrow> []
           | Some em \<Rightarrow>
               (case GetClusterStatus l cluster of
                  Inl _ \<Rightarrow> []
                | Inr cst \<Rightarrow>
                    (case PutClusterStatus l
                            (cst\<lparr>EtcdMembers := EtcdMemberSet_List
                                    (EtcdMemberSet_Delete em (NewEtcdMemberSet (EtcdMembers cst)))\<rparr>)
                            cluster of
                       Inl _ \<Rightarrow> []
                     | Inr cluster' \<Rightarrow> cluster' # clustersAfterReset l rest cluster'))))"

text \<open>The calls of a reset loop that completes: a reset and a cluster update for each master.\<close>

fun resetCalls :: "string \<Rightarrow> (Machine \<times> Client) list \<Rightarrow> Cluster list \<Rightarrow> call list" where
  "resetCalls ns (mwc # mwcs) (cluster # clusters) =
     resetCall mwc # UpdateClusterStatus ns cluster # resetCalls ns mwcs clusters"
| "resetCalls ns _ _ = []"

text \<open>
  What \<open>recoverFirst\<close> does once the seed has reported its member: record it in the
  machine's status and in the cluster's.
\<close>

definition afterSeed ::
    "env \<Rightarrow> EtcdMember \<Rightarrow> Machine \<times> Client \<Rightarrow> Cluster \<Rightarrow> (EtcdMember \<times> Machine \<times> Cluster) prog" where
  "afterSeed env firstEtcdMember firstMWC cluster =
     bnd (updateMachineEtcdMember env firstEtcdMember (fst firstMWC))
       (\<lambda>(firstMachine, err). case err of
          Some e \<Rightarrow> failWith (Errorf ''unable to update machine %q status with etcd member %q: %v''
                                [ArgS (mName firstMachine), ArgM firstEtcdMember, ArgE e])
        | None \<Rightarrow>
     bnd (wrapE (insertClusterEtcdMember env firstEtcdMember cluster)
            (\<lambda>err. Errorf ''unable to update cluster status with etcd member %q: %v''
                      [ArgM firstEtcdMember, ArgE err]))
       (\<lambda>cluster'. ret (firstEtcdMember, firstMachine, cluster')))"

text \<open>
  \<open>quiet P\<close>: \<open>P\<close> holds of every call that is neither a remote command nor a
  cluster status update.
\<close>

definition quiet :: "(call \<Rightarrow> bool) \<Rightarrow> bool" where
  "quiet P \<longleftrightarrow>
     (\<forall>c. (\<forall>cl cmd. c \<noteq> RunCommand cl cmd) \<and> (\<forall>ns cl. c \<noteq> UpdateClusterStatus ns cl) \<longrightarrow> P c)"

section \<open>A test environment\<close>

text \<open>
  A small concrete world for running the commands: a toy codec that keeps a member as its
  name and a cluster status as the names of its members, and collaborators that answer
  every call the same way, failing exactly the calls in \<open>failing\<close>.
\<close>

definition testCommon :: common where
  "testCommon =
     \<lparr>DefaultNamespace = ''default'', DefaultClusterName = ''cctl-cluster'',
      DefaultSSHCredentialSecretName = ''sshCredential'',
      DefaultBootstrapTokenSecretName = ''bootstrapToken'',
      drainTimeout = 0, drainGracePeriodSeconds = - 1\<rparr>"

definition testMeta :: TypeMeta where
  "testMeta = \<lparr>Kind = ''Test'', APIVersion = ''v1''\<rparr>"

definition testMember :: "string \<Rightarrow> EtcdMember" where
  "testMember name =
     \<lparr>ID = sum_list (map of_char name), MemberName = name, PeerURLs = [],
      ClientURLs = (if name = [] then [] else [''https://'' @ name @ '':2379''])\<rparr>"

definition testSSHConfig :: "string \<Rightarrow> SSHConfig" where
  "testSSHConfig host =
     \<lparr>Host = host, Port = 22, PublicKeys = [], CredentialSecret = ''sshCredential''\<rparr>"

definition testLib :: lib where
  "testLib =
     \<lparr>GetMachineSpec = (\<lambda>m. case mProviderSpec m of
          None \<Rightarrow> Inl (External ''no provider spec'')
        | Some raw \<Rightarrow> Inr \<lparr>msTypeMeta = testMeta, ProvisionedMachineName = raw,
                          msRoles = mRoles m\<rparr>),
      GetMachineStatus = (\<lambda>m.
          Inr \<lparr>mstTypeMeta = testMeta, mstSSHConfig = Some (testSSHConfig (mName m)),
               mstEtcdMember = map_option testMember (mProviderStatus m)\<rparr>),
      GetClusterStatus = (\<lambda>c.
          Inr \<lparr>cstTypeMeta = testMeta,
               EtcdMembers = map testMember
                 (Fields (case cProviderStatus c of None \<Rightarrow> [] | Some raw \<Rightarrow> raw))\<rparr>),
      PutMachineSpec = (\<lambda>sp m. Inr (m\<lparr>mProviderSpec := Some (ProvisionedMachineName sp)\<rparr>)),
      PutMachineStatus = (\<lambda>st m.
          Inr (m\<lparr>mProviderStatus := map_option MemberName (mstEtcdMember st)\<rparr>)),
      PutClusterStatus = (\<lambda>st c.
          Inr (c\<lparr>cProviderStatus :=
                   Some (concat (map (\<lambda>m. MemberName m @ '' '') (EtcdMembers st)))\<rparr>)),
      BindMachineAndProvisionedMachine = (\<lambda>m pm. Inr (m, pm\<lparr>pmMachineRef := Some (mName m)\<rparr>)),
      UsernameAndKeyFromSecret = (\<lambda>s. Inr (''root'', ''PRIVATE KEY'')),
      UnmarshalEtcdMember = (\<lambda>b. Inr (testMember b)),
      filepathDir = (\<lambda>p. ''/etc/etcd/pki''),
      TrimSpace = (\<lambda>s. s),
      showDuration = (\<lambda>d. ''0s''),
      showInt = (\<lambda>i. ''-1'')\<rparr>"

definition testSecret :: Secret where
  "testSecret =
     \<lparr>sTypeMeta = testMeta, sName = ''secret'', sNamespace = ''default'',
      sData = [(''tls.crt'', ''CERT''), (''tls.key'', ''KEY'')]\<rparr>"

definition testCluster :: "bytes option \<Rightarrow> Cluster" where
  "testCluster status =
     \<lparr>cName = ''cctl-cluster'', cNamespace = ''default'', cProviderSpec = None,
      cProviderStatus = status\<rparr>"

definition testMachine :: "string \<Rightarrow> MachineRole list \<Rightarrow> bytes option \<Rightarrow> Machine" where
  "testMachine name roles status =
     \<lparr>mTypeMeta = testMeta, mName = name, mNamespace = ''default'', mRoles = roles,
      mProviderSpec = Some name, mProviderStatus = status\<rparr>"

definition twoMachines :: "Machine list" where
  "twoMachines =
     [testMachine ''10.0.0.1'' [MasterRole] None, testMachine ''10.0.0.2'' [NodeRole] None]"

definition testProvisionedMachine :: "string \<Rightarrow> ProvisionedMachine" where
  "testProvisionedMachine name =
     \<lparr>pmTypeMeta = testMeta, pmName = name, pmNamespace = ''default'',
      pmSSHConfig = Some (testSSHConfig name), pmVIPNetworkInterface = ''eth0'',
      pmMachineRef = Some name\<rparr>"

text \<open>A remote command prints the host it runs on, so a member is named after its host.\<close>

definition testWorld :: "(call \<Rightarrow> bool) \<Rightarrow> Machine list \<Rightarrow> world" where
  "testWorld failing machines =
     \<lparr>onErr = (\<lambda>h c. if failing c then Some (External ''refused'') else None),
      onBytes = (\<lambda>h c. if failing c then Inl (External ''refused'') else Inr ''DATA''),
      onCommand = (\<lambda>h c. case c of
          RunCommand cl cmd \<Rightarrow>
            (clHost cl, [], if failing c then Some (External ''exit status 1'') else None)
        | _ \<Rightarrow> ([], [], None)),
      onCluster = (\<lambda>h c. if failing c then Inl (External ''refused'') else Inr (testCluster None)),
      onMachine = (\<lambda>h c. case c of
          GetMachine ns name \<Rightarrow>
            (case find (\<lambda>m. mName m = name) machines of
               None \<Rightarrow> Inl (NotFound name)
             | Some m \<Rightarrow> Inr m)
        | _ \<Rightarrow> Inl (External ''refused'')),
      onMachineList = (\<lambda>h c. if failing c then Inl (External ''refused'') else Inr machines),
      onProvisionedMachine = (\<lambda>h c. case c of
          GetProvisionedMachine ns name \<Rightarrow> Inr (testProvisionedMachine name)
        | _ \<Rightarrow> Inl (External ''refused'')),
      onSecret = (\<lambda>h c. if failing c then Inl (NotFound ''secret'') else Inr testSecret),
      onActuator = (\<lambda>h c. case c of
          ActuatorCreate insecure cl m \<Rightarrow> Inr (cl, m)
        | ActuatorDelete insecure cl m \<Rightarrow> Inr (cl, m)
        | _ \<Rightarrow> Inl (External ''refused''))\<rparr>"

definition testEnv :: "(call \<Rightarrow> bool) \<Rightarrow> Machine list \<Rightarrow> env" where
  "testEnv failing machines =
     \<lparr>common = testCommon, sputil = testLib, state = testWorld failing machines\<rparr>"

text \<open>The test environment with a binder that cannot encode.\<close>

definition testEnvBindFails :: env where
  "testEnvBindFails =
     (testEnv (\<lambda>c. False) [])\<lparr>sputil :=
        testLib\<lparr>BindMachineAndProvisionedMachine :=
                  (\<lambda>m pm. Inl (External ''cannot encode provider spec''))\<rparr>\<rparr>"

definition testClient :: "string \<Rightarrow> Client" where
  "testClient host =
     \<lparr>clHost = host, clPort = 22, clUsername = ''root'', clPrivateKey = ''PRIVATE KEY'',
      clPublicKeys = [], clInsecureIgnoreHostKey = True\<rparr>"

text \<open>Two masters that each record a member, and the cluster that lists both.\<close>

definition testMasters :: "Machine list" where
  "testMasters =
     [testMachine ''10.0.0.1'' [MasterRole] (Some ''10.0.0.1''),
      testMachine ''10.0.0.2'' [MasterRole] (Some ''10.0.0.2'')]"

definition testMembers :: Cluster where
  "testMembers = testCluster (Some ''10.0.0.1 10.0.0.2 '')"

text \<open>The same masters, the second without a recorded member.\<close>

definition bareMasters :: "Machine list" where
  "bareMasters =
     [testMachine ''10.0.0.1'' [MasterRole] (Some ''10.0.0.1''),
      testMachine ''10.0.0.2'' [MasterRole] None]"

text \<open>The masters paired with the sessions that the test world opens for them.\<close>

definition testSessions :: "Machine list \<Rightarrow> (Machine \<times> Client) list" where
  "testSessions machines = map (\<lambda>m. (m, testClient (mName m))) machines"

text \<open>The test environment with a seed that reports a member without client URLs.\<close>

definition testEnvNoEndpoints :: env where
  "testEnvNoEndpoints =
     (testEnv (\<lambda>c. False) [])\<lparr>sputil :=
        testLib\<lparr>UnmarshalEtcdMember := (\<lambda>b. Inr ((testMember b)\<lparr>ClientURLs := []\<rparr>))\<rparr>\<rparr>"

section \<open>Properties\<close>

subsection \<open>Running the combinators\<close>

lemma ret_run [simp]: "ret x h = (Done x, [])" by (simp add: ret_def)
lemma failWith_run [simp]: "failWith e h = (Failed e, [])" by (simp add: failWith_def)
lemma fatalf_run [simp]: "fatalf f a h = (Fatal f a, [])" by (simp add: fatalf_def)
lemma panic_run [simp]: "panic h = (Panic, [])" by (simp add: panic_def)
lemma ask_run [simp]: "ask c a h = (Done (a h c), [c])" by (simp add: ask_def)
lemma logp_run [simp]: "logp f a h = (Done (), [Log f a])" by (simp add: logp_def)

lemma bnd_Done: "m h = (Done x, out) \<Longrightarrow> bnd m f h = (fst (f x (h @ out)), out @ snd (f x (h @ out)))"
  by (simp add: bnd_def split: prod.splits)
lemma bnd_Failed: "m h = (Failed e, out) \<Longrightarrow> bnd m f h = (Failed e, out)"
  by (simp add: bnd_def)
lemma bnd_Fatal: "m h = (Fatal s a, out) \<Longrightarrow> bnd m f h = (Fatal s a, out)"
  by (simp add: bnd_def)
lemma bnd_Panic: "m h = (Panic, out) \<Longrightarrow> bnd m f h = (Panic, out)"
  by (simp add: bnd_def)

lemma liftE_run [simp]:
  "liftE (Inl e) h = (Failed e, [])" "liftE (Inr x) h = (Done x, [])"
  by (simp_all add: liftE_def)

lemma askV_run: "askV c a h = (case a h c of Inl e \<Rightarrow> Failed e | Inr x \<Rightarrow> Done x, [c])"
  by (simp add: askV_def bnd_def split: sum.splits)

lemma askE_run: "askE c a h = (case a h c of Some e \<Rightarrow> Failed e | None \<Rightarrow> Done (), [c])"
  by (simp add: askE_def bnd_def split: option.splits)

lemma orFatal_run:
  "orFatal m w h = (case fst (m h) of Failed e \<Rightarrow> Fatal (fst (w e)) (snd (w e)) | r \<Rightarrow> r, snd (m h))"
  by (simp add: orFatal_def split: prod.splits res.splits)

lemma wrapE_run:
  "wrapE m w h = (case fst (m h) of Failed e \<Rightarrow> Failed (w e) | r \<Rightarrow> r, snd (m h))"
  by (simp add: wrapE_def split: prod.splits res.splits)


subsection \<open>Recovery without masters\<close>

text \<open>
  C5. With an empty list of masters \<^verbatim>\<open>recoverEtcd\<close> returns nil and makes no call at all:
  no remote command and no write to the store.
\<close>

theorem recoverEtcd_no_masters:
  "recoverEtcd env localPath remotePath etcdCASecret cluster [] h = (Done (), [])"
  by (simp add: recoverEtcd_def)

subsection \<open>Deleting the last master\<close>

lemma countRoles_distinct:
  "distinct roles \<Longrightarrow>
   countRoles roles (a, b) =
     (a + (if MasterRole \<in> set roles then 1 else 0), b + (if NodeRole \<in> set roles then 1 else 0))"
  by (induction roles arbitrary: a b) (auto simp: MasterRole_def NodeRole_def)

lemma countMachines_distinct:
  "\<forall>m \<in> set items. distinct (mRoles m) \<Longrightarrow>
   countMachines items (a, b) =
     (a + int (length (filter (\<lambda>m. RoleContains MasterRole (mRoles m)) items)),
      b + int (length (filter (\<lambda>m. RoleContains NodeRole (mRoles m)) items)))"
  by (induction items arbitrary: a b) (auto simp: countRoles_distinct RoleContains_def)


text \<open>
  C1. Let the lookups of the delete command succeed, let the role lists of the machines in
  the store be sets (no role twice, as in the data model of the specification), let the
  target be the only machine with the master role and let some machine have the node role.
  Then the command exits with "Not deleting last master while N nodes are in the cluster",
  and the only calls it has made are the four reads: no drain, no actuator, no update of the
  cluster status and no deletion.
\<close>

theorem delete_last_master:
  assumes target: "onMachine (state env) h (GetMachine (DefaultNamespace (common env)) ip) = Inr targetMachine"
    and spec: "GetMachineSpec (sputil env) targetMachine = Inr targetMachineSpec"
    and pm: "onProvisionedMachine (state env)
               (h @ [GetMachine (DefaultNamespace (common env)) ip])
               (GetProvisionedMachine (DefaultNamespace (common env))
                  (ProvisionedMachineName targetMachineSpec)) = Inr targetProvisionedMachine"
    and cluster: "onCluster (state env)
               (h @ [GetMachine (DefaultNamespace (common env)) ip,
                     GetProvisionedMachine (DefaultNamespace (common env))
                       (ProvisionedMachineName targetMachineSpec)])
               (GetCluster (DefaultNamespace (common env)) (DefaultClusterName (common env)))
             = Inr cluster"
    and items: "onMachineList (state env)
               (h @ [GetMachine (DefaultNamespace (common env)) ip,
                     GetProvisionedMachine (DefaultNamespace (common env))
                       (ProvisionedMachineName targetMachineSpec),
                     GetCluster (DefaultNamespace (common env)) (DefaultClusterName (common env))])
               (ListMachines (DefaultNamespace (common env))) = Inr items"
    and roles: "\<forall>m \<in> set items. distinct (mRoles m)"
    and only: "filter (\<lambda>m. RoleContains MasterRole (mRoles m)) items = [targetMachine]"
    and nodes: "\<exists>m \<in> set items. RoleContains NodeRole (mRoles m)"
  shows "machineCmdDelete env ip h =
           (Fatal ''Not deleting last master while %v nodes are in the cluster. Delete the nodes first.''
              [ArgN (int (length (filter (\<lambda>m. RoleContains NodeRole (mRoles m)) items)))],
            [GetMachine (DefaultNamespace (common env)) ip,
             GetProvisionedMachine (DefaultNamespace (common env))
               (ProvisionedMachineName targetMachineSpec),
             GetCluster (DefaultNamespace (common env)) (DefaultClusterName (common env)),
             ListMachines (DefaultNamespace (common env))])
         \<and> (\<forall>c \<in> set (snd (machineCmdDelete env ip h)). \<not> isMutation c)"
proof -
  have master: "RoleContains MasterRole (mRoles targetMachine)"
  proof -
    have "targetMachine \<in> set (filter (\<lambda>m. RoleContains MasterRole (mRoles m)) items)"
      by (simp add: only)
    then show ?thesis by simp
  qed
  have pos: "0 < length (filter (\<lambda>m. RoleContains NodeRole (mRoles m)) items)"
    using nodes by (simp add: filter_empty_conv)
  have counts: "countMachines items (0, 0) =
      (1, int (length (filter (\<lambda>m. RoleContains NodeRole (mRoles m)) items)))"
    using countMachines_distinct [OF roles, of 0 0] by (simp add: only)
  have guard: "deleteMustNotOrphanNodes env targetMachine
      (h @ [GetMachine (DefaultNamespace (common env)) ip,
            GetProvisionedMachine (DefaultNamespace (common env))
              (ProvisionedMachineName targetMachineSpec),
            GetCluster (DefaultNamespace (common env)) (DefaultClusterName (common env))])
    = (Fatal ''Not deleting last master while %v nodes are in the cluster. Delete the nodes first.''
         [ArgN (int (length (filter (\<lambda>m. RoleContains NodeRole (mRoles m)) items)))],
       [ListMachines (DefaultNamespace (common env))])"
    using pos
    by (simp add: deleteMustNotOrphanNodes_def master bnd_def orFatal_run askV_run items counts)
  have run: "machineCmdDelete env ip h =
           (Fatal ''Not deleting last master while %v nodes are in the cluster. Delete the nodes first.''
              [ArgN (int (length (filter (\<lambda>m. RoleContains NodeRole (mRoles m)) items)))],
            [GetMachine (DefaultNamespace (common env)) ip,
             GetProvisionedMachine (DefaultNamespace (common env))
               (ProvisionedMachineName targetMachineSpec),
             GetCluster (DefaultNamespace (common env)) (DefaultClusterName (common env)),
             ListMachines (DefaultNamespace (common env))])"
    by (simp add: machineCmdDelete_def bnd_def orFatal_run askV_run target spec pm cluster guard)
  show ?thesis
    by (simp add: run isMutation_def)
qed


theorem delete_last_master_witness:
  "machineCmdDelete (testEnv (\<lambda>c. False) twoMachines) ''10.0.0.1'' []
   = (Fatal ''Not deleting last master while %v nodes are in the cluster. Delete the nodes first.''
        [ArgN 1],
      [GetMachine ''default'' ''10.0.0.1'', GetProvisionedMachine ''default'' ''10.0.0.1'',
       GetCluster ''default'' ''cctl-cluster'', ListMachines ''default''])"
proof -
  let ?env = "testEnv (\<lambda>c. False) twoMachines"
  have ns: "DefaultNamespace (common ?env) = ''default''" "DefaultClusterName (common ?env) = ''cctl-cluster''"
    by (simp_all add: testEnv_def testCommon_def)
  have target: "onMachine (state ?env) [] (GetMachine (DefaultNamespace (common ?env)) ''10.0.0.1'')
      = Inr (testMachine ''10.0.0.1'' [MasterRole] None)"
    by (simp add: testEnv_def testWorld_def testCommon_def twoMachines_def testMachine_def)
  have spec: "GetMachineSpec (sputil ?env) (testMachine ''10.0.0.1'' [MasterRole] None)
      = Inr \<lparr>msTypeMeta = testMeta, ProvisionedMachineName = ''10.0.0.1'', msRoles = [MasterRole]\<rparr>"
    by (simp add: testEnv_def testLib_def testMachine_def)
  have pm: "onProvisionedMachine (state ?env) ([] @ [GetMachine (DefaultNamespace (common ?env)) ''10.0.0.1''])
      (GetProvisionedMachine (DefaultNamespace (common ?env))
         (ProvisionedMachineName \<lparr>msTypeMeta = testMeta, ProvisionedMachineName = ''10.0.0.1'', msRoles = [MasterRole]\<rparr>))
      = Inr (testProvisionedMachine ''10.0.0.1'')"
    by (simp add: testEnv_def testWorld_def)
  have cluster: "onCluster (state ?env) ([] @ [GetMachine (DefaultNamespace (common ?env)) ''10.0.0.1'',
        GetProvisionedMachine (DefaultNamespace (common ?env))
         (ProvisionedMachineName \<lparr>msTypeMeta = testMeta, ProvisionedMachineName = ''10.0.0.1'', msRoles = [MasterRole]\<rparr>)])
      (GetCluster (DefaultNamespace (common ?env)) (DefaultClusterName (common ?env))) = Inr (testCluster None)"
    by (simp add: testEnv_def testWorld_def)
  have items: "onMachineList (state ?env) ([] @ [GetMachine (DefaultNamespace (common ?env)) ''10.0.0.1'',
        GetProvisionedMachine (DefaultNamespace (common ?env))
         (ProvisionedMachineName \<lparr>msTypeMeta = testMeta, ProvisionedMachineName = ''10.0.0.1'', msRoles = [MasterRole]\<rparr>),
        GetCluster (DefaultNamespace (common ?env)) (DefaultClusterName (common ?env))])
      (ListMachines (DefaultNamespace (common ?env))) = Inr twoMachines"
    by (simp add: testEnv_def testWorld_def)
  have roles: "\<forall>m \<in> set twoMachines. distinct (mRoles m)"
    by (simp add: twoMachines_def testMachine_def)
  have only: "filter (\<lambda>m. RoleContains MasterRole (mRoles m)) twoMachines = [testMachine ''10.0.0.1'' [MasterRole] None]"
    by (simp add: twoMachines_def testMachine_def RoleContains_def MasterRole_def NodeRole_def)
  have nodes: "\<exists>m \<in> set twoMachines. RoleContains NodeRole (mRoles m)"
    by (simp add: twoMachines_def testMachine_def RoleContains_def MasterRole_def NodeRole_def)
  have n: "filter (\<lambda>m. RoleContains NodeRole (mRoles m)) twoMachines = [testMachine ''10.0.0.2'' [NodeRole] None]"
    by (simp add: twoMachines_def testMachine_def RoleContains_def MasterRole_def NodeRole_def)
  show ?thesis
    using delete_last_master [OF target spec pm cluster items roles only nodes]
    by (simp add: ns n)
qed


subsection \<open>Creating a machine when the bind fails\<close>

text \<open>
  C2. The claim asks for an encoding error and no object in the store when the bind cannot
  be made. The command does otherwise: it drops the error of
  \<^verbatim>\<open>newProvisionedMachineAndMachine\<close> and calls \<^verbatim>\<open>Create\<close> for the provisioned
  machine with the nil pointer that the failed function returned. If the store refuses, the
  command exits with "Unable to create provisioned machine"; if not, it calls \<^verbatim>\<open>Create\<close>
  for the machine, again with nil, and exits with "Unable to create machine" or, when the
  store accepts that too, panics on the nil machine. The encoding error is never reported.
\<close>

theorem create_ignores_bind_error:
  assumes role: "role = MasterRole \<or> role = NodeRole"
    and keys: "publicKeysFromFiles env publicKeyFiles [] h = (Done publicKeys, reads)"
    and cluster: "onCluster (state env) (h @ reads)
          (GetCluster (DefaultNamespace (common env)) (DefaultClusterName (common env))) = Inr cluster"
    and secret: "onSecret (state env)
          (h @ reads @ [GetCluster (DefaultNamespace (common env)) (DefaultClusterName (common env))])
          (GetSecret (DefaultNamespace (common env)) (DefaultSSHCredentialSecretName (common env)))
        = Inr sshCredentialSecret"
    and bind: "newProvisionedMachineAndMachine env ip role iface
          \<lparr>Host = ip, Port = port, PublicKeys = publicKeys,
           CredentialSecret = sName sshCredentialSecret\<rparr> = Inl err"
    and lookups: "lookups = reads @
          [GetCluster (DefaultNamespace (common env)) (DefaultClusterName (common env)),
           GetSecret (DefaultNamespace (common env)) (DefaultSSHCredentialSecretName (common env))]"
  shows "machineCmdCreate env ip iface role (Inr port) publicKeyFiles h =
           (case onErr (state env) (h @ lookups)
                   (CreateProvisionedMachine (DefaultNamespace (common env)) None) of
              Some e \<Rightarrow>
                (Fatal ''Unable to create provisioned machine: %v'' [ArgE e],
                 lookups @ [CreateProvisionedMachine (DefaultNamespace (common env)) None])
            | None \<Rightarrow>
                (case onErr (state env)
                        (h @ lookups @ [CreateProvisionedMachine (DefaultNamespace (common env)) None])
                        (CreateMachine (DefaultNamespace (common env)) None) of
                   Some e \<Rightarrow>
                     (Fatal ''Unable to create machine: %v'' [ArgE e],
                      lookups @ [CreateProvisionedMachine (DefaultNamespace (common env)) None,
                                 CreateMachine (DefaultNamespace (common env)) None])
                 | None \<Rightarrow>
                     (Panic,
                      lookups @ [CreateProvisionedMachine (DefaultNamespace (common env)) None,
                                 CreateMachine (DefaultNamespace (common env)) None])))"
proof -
  have valid: "\<not> (role \<noteq> MasterRole \<and> role \<noteq> NodeRole)"
    using role by blast
  let ?ns = "DefaultNamespace (common env)"
  let ?l = "reads @ [GetCluster ?ns (DefaultClusterName (common env)),
                     GetSecret ?ns (DefaultSSHCredentialSecretName (common env))]"
  show ?thesis
  proof (cases "onErr (state env) (h @ ?l) (CreateProvisionedMachine ?ns None)")
    case (Some e)
    then show ?thesis
      unfolding machineCmdCreate_def lookups
      by (simp add: valid bnd_def keys orFatal_run askV_run askE_run cluster secret bind Let_def)
  next
    case None
    note pm = None
    show ?thesis
    proof (cases "onErr (state env) (h @ ?l @ [CreateProvisionedMachine ?ns None])
                    (CreateMachine ?ns None)")
      case (Some e)
      then show ?thesis
        unfolding machineCmdCreate_def lookups
        by (simp add: valid bnd_def keys orFatal_run askV_run askE_run cluster secret bind Let_def pm)
    next
      case None
      then show ?thesis
        unfolding machineCmdCreate_def lookups
        by (simp add: valid bnd_def keys orFatal_run askV_run askE_run cluster secret bind Let_def pm)
    qed
  qed
qed

theorem create_ignores_bind_error_witness:
  "machineCmdCreate testEnvBindFails ''10.0.0.3'' ''eth0'' MasterRole (Inr 22) [''host.pub''] []
   = (Panic,
      [PublicKeyFromFile ''host.pub'', GetCluster ''default'' ''cctl-cluster'',
       GetSecret ''default'' ''sshCredential'',
       CreateProvisionedMachine ''default'' None, CreateMachine ''default'' None])"
proof -
  let ?env = testEnvBindFails
  have env: "common ?env = testCommon" "state ?env = testWorld (\<lambda>c. False) []"
    by (simp_all add: testEnvBindFails_def testEnv_def)
  have keys: "publicKeysFromFiles ?env [''host.pub''] [] [] = (Done [''DATA''], [PublicKeyFromFile ''host.pub''])"
    by (simp add: env bnd_def orFatal_run askV_run testWorld_def)
  have cluster: "onCluster (state ?env) ([] @ [PublicKeyFromFile ''host.pub''])
      (GetCluster (DefaultNamespace (common ?env)) (DefaultClusterName (common ?env))) = Inr (testCluster None)"
    by (simp add: env testWorld_def)
  have secret: "onSecret (state ?env)
      ([] @ [PublicKeyFromFile ''host.pub''] @ [GetCluster (DefaultNamespace (common ?env)) (DefaultClusterName (common ?env))])
      (GetSecret (DefaultNamespace (common ?env)) (DefaultSSHCredentialSecretName (common ?env))) = Inr testSecret"
    by (simp add: env testWorld_def)
  have bind: "newProvisionedMachineAndMachine ?env ''10.0.0.3'' MasterRole ''eth0''
      \<lparr>Host = ''10.0.0.3'', Port = 22, PublicKeys = [''DATA''], CredentialSecret = sName testSecret\<rparr>
      = Inl (Errorf ''unable to create bi-directional bind between machine and provisioned machine: %v''
               [ArgE (External ''cannot encode provider spec'')])"
    by (simp add: newProvisionedMachineAndMachine_def testEnvBindFails_def testEnv_def testLib_def)
  show ?thesis
    using create_ignores_bind_error [OF _ keys cluster secret bind refl]
    by (simp add: env testWorld_def testCommon_def)
qed


subsection \<open>The membership set\<close>

lemma set_Insert_subset:
  "set (EtcdMemberSet_Insert m s) \<subseteq> insert m (set s)"
  by (induction s) auto

lemma byID_Insert: "byID s \<Longrightarrow> byID (EtcdMemberSet_Insert m s)"
proof (induction s)
  case Nil
  then show ?case by (simp add: byID_def)
next
  case (Cons x xs)
  have "\<forall>y \<in> set (EtcdMemberSet_Insert m xs). y = m \<or> y \<in> set xs"
    using set_Insert_subset [of m xs] by auto
  with Cons show ?case
    by (fastforce simp: byID_def)
qed

lemma set_Insert:
  "byID s \<Longrightarrow> set (EtcdMemberSet_Insert m s) = insert m {x \<in> set s. ID x \<noteq> ID m}"
  by (induction s) (auto simp: byID_def)

lemma byID_Delete: "byID s \<Longrightarrow> byID (EtcdMemberSet_Delete m s)"
  by (simp add: byID_def EtcdMemberSet_Delete_def sorted_wrt_filter)

lemma set_Delete: "set (EtcdMemberSet_Delete m s) = {x \<in> set s. ID x \<noteq> ID m}"
  by (auto simp: EtcdMemberSet_Delete_def)

lemma byID_distinct: "byID s \<Longrightarrow> distinct (map ID s)"
  by (induction s) (auto simp: byID_def)

lemma byID_applyOp: "byID s \<Longrightarrow> byID (applyOp s op)"
  by (cases op) (simp_all add: byID_Insert byID_Delete)

lemma byID_foldl: "byID s \<Longrightarrow> byID (foldl applyOp s ops)"
  by (induction ops arbitrary: s) (simp_all add: byID_applyOp)

lemma byID_applyOps: "byID (applyOps ops)"
  unfolding applyOps_def NewEtcdMemberSet_def
  by (rule byID_foldl) (simp add: byID_def)

lemma set_applyOp:
  "byID s \<Longrightarrow> set (applyOp s op) =
     (case op of Ins m \<Rightarrow> insert m {x \<in> set s. ID x \<noteq> ID m} | Del m \<Rightarrow> {x \<in> set s. ID x \<noteq> ID m})"
  by (cases op) (simp_all add: set_Insert set_Delete)

lemma applyOps_snoc: "applyOps (ops @ [op]) = applyOp (applyOps ops) op"
  by (simp add: applyOps_def)

lemma live_snoc:
  "(\<exists>pre post. ops @ [op] = pre @ Ins x # post \<and> (\<forall>q \<in> set post. opID q \<noteq> ID x))
   \<longleftrightarrow> op = Ins x \<or>
       (opID op \<noteq> ID x \<and> (\<exists>pre post. ops = pre @ Ins x # post \<and> (\<forall>q \<in> set post. opID q \<noteq> ID x)))"
  (is "?L \<longleftrightarrow> ?R")
proof
  assume ?L
  then obtain pre post where eq: "ops @ [op] = pre @ Ins x # post"
    and later: "\<forall>q \<in> set post. opID q \<noteq> ID x" by blast
  show ?R
  proof (cases post rule: rev_cases)
    case Nil
    with eq show ?thesis by simp
  next
    case (snoc post' o')
    with eq have "ops = pre @ Ins x # post'" "op = o'" by simp_all
    with later snoc show ?thesis by auto
  qed
next
  assume ?R
  then show ?L
  proof
    assume "op = Ins x"
    then have "ops @ [op] = ops @ Ins x # []" by simp
    then show ?L by (metis empty_iff empty_set)
  next
    assume "opID op \<noteq> ID x \<and> (\<exists>pre post. ops = pre @ Ins x # post \<and> (\<forall>q \<in> set post. opID q \<noteq> ID x))"
    then obtain pre post where "opID op \<noteq> ID x" "ops = pre @ Ins x # post"
      "\<forall>q \<in> set post. opID q \<noteq> ID x" by blast
    then have "ops @ [op] = pre @ Ins x # (post @ [op]) \<and> (\<forall>q \<in> set (post @ [op]). opID q \<noteq> ID x)"
      by simp
    then show ?L by blast
  qed
qed

lemma set_applyOps:
  "x \<in> set (applyOps ops) \<longleftrightarrow>
     (\<exists>pre post. ops = pre @ Ins x # post \<and> (\<forall>q \<in> set post. opID q \<noteq> ID x))"
proof (induction ops rule: rev_induct)
  case Nil
  then show ?case by (simp add: applyOps_def NewEtcdMemberSet_def)
next
  case (snoc op ops)
  define live where
    "live \<longleftrightarrow> (\<exists>pre post. ops = pre @ Ins x # post \<and> (\<forall>q \<in> set post. opID q \<noteq> ID x))"
  have IH: "x \<in> set (applyOps ops) \<longleftrightarrow> live"
    using snoc by (simp add: live_def)
  have step: "set (applyOps (ops @ [op])) =
      (case op of Ins m \<Rightarrow> insert m {y \<in> set (applyOps ops). ID y \<noteq> ID m}
       | Del m \<Rightarrow> {y \<in> set (applyOps ops). ID y \<noteq> ID m})"
    by (simp add: applyOps_snoc set_applyOp [OF byID_applyOps])
  have "(\<exists>pre post. ops @ [op] = pre @ Ins x # post \<and> (\<forall>q \<in> set post. opID q \<noteq> ID x))
      \<longleftrightarrow> op = Ins x \<or> (opID op \<noteq> ID x \<and> live)"
    by (simp only: live_snoc live_def)
  then show ?case
    using IH step by (cases op) auto
qed

lemma Insert_fresh_last:
  "\<forall>x \<in> set s. ID x < ID m \<Longrightarrow> EtcdMemberSet_Insert m s = s @ [m]"
  by (induction s) auto

lemma New_of_sorted: "byID s \<Longrightarrow> NewEtcdMemberSet s = s"
proof (induction s rule: rev_induct)
  case Nil
  then show ?case by (simp add: NewEtcdMemberSet_def)
next
  case (snoc x xs)
  then have "byID xs" and lt: "\<forall>y \<in> set xs. ID y < ID x"
    by (auto simp: byID_def sorted_wrt_append)
  with snoc.IH have "NewEtcdMemberSet xs = xs" by simp
  then show ?case
    using lt by (simp add: NewEtcdMemberSet_def Insert_fresh_last)
qed

text \<open>
  C7. After any sequence of inserts and deletes on an empty membership set, the listing holds
  no id twice, and it holds a record exactly when that record was inserted and no later
  operation, insert or delete, named its id: a later insert of the id replaces the record,
  a delete removes it whatever the other fields of its argument are. Building a set from a
  listing gives the set back, so the commands, which rebuild the set from the persisted
  list each time, see the same set.
\<close>

theorem membership_set_list:
  "distinct (map ID (EtcdMemberSet_List (applyOps ops)))
   \<and> (x \<in> set (EtcdMemberSet_List (applyOps ops)) \<longleftrightarrow>
        (\<exists>pre post. ops = pre @ Ins x # post \<and> (\<forall>q \<in> set post. opID q \<noteq> ID x)))
   \<and> NewEtcdMemberSet (EtcdMemberSet_List (applyOps ops)) = applyOps ops"
  by (simp add: EtcdMemberSet_List_def byID_distinct [OF byID_applyOps] set_applyOps
      New_of_sorted [OF byID_applyOps])


theorem membership_set_list_witness:
  "memberA' \<in> set (EtcdMemberSet_List (applyOps [Ins memberA, Ins memberB, Ins memberA', Del memberB']))
   \<and> EtcdMemberSet_List (applyOps [Ins memberA, Ins memberB, Ins memberA', Del memberB'])
       = [memberA']"
proof -
  have "[Ins memberA, Ins memberB, Ins memberA', Del memberB']
          = [Ins memberA, Ins memberB] @ Ins memberA' # [Del memberB']
        \<and> (\<forall>q \<in> set [Del memberB']. opID q \<noteq> ID memberA')"
    by (simp add: memberA'_def memberB'_def)
  then have "\<exists>pre post. [Ins memberA, Ins memberB, Ins memberA', Del memberB']
          = pre @ Ins memberA' # post \<and> (\<forall>q \<in> set post. opID q \<noteq> ID memberA')"
    by blast
  then have "memberA' \<in> set (EtcdMemberSet_List (applyOps [Ins memberA, Ins memberB, Ins memberA', Del memberB']))"
    using membership_set_list [of "[Ins memberA, Ins memberB, Ins memberA', Del memberB']" memberA']
    by blast
  moreover have "EtcdMemberSet_List (applyOps [Ins memberA, Ins memberB, Ins memberA', Del memberB'])
       = [memberA']"
    by (simp add: applyOps_def NewEtcdMemberSet_def EtcdMemberSet_List_def EtcdMemberSet_Delete_def
        memberA_def memberA'_def memberB_def memberB'_def)
  ultimately show ?thesis by simp
qed

subsection \<open>The join command\<close>

lemma Fields_kubeadm_join:
  "Fields ''kubeadm join 1.2.3.4:6443 --token abcdef.123456 --discovery-token-ca-cert-hash sha256:deadbeef''
     = [''kubeadm'', ''join'', ''1.2.3.4:6443'', ''--token'', ''abcdef.123456'',
        ''--discovery-token-ca-cert-hash'', ''sha256:deadbeef'']"
  by (simp add: Fields_def asciiSpace_def)

text \<open>
  C6. An output of exactly seven white-space separated fields parses to its fields 4 (the
  token) and 6 (the discovery hash), counted from 0; any other number of fields is the error
  "expected 7 fields". The join command of the specification parses to the token
  \<open>abcdef.123456\<close> and the hash \<open>sha256:deadbeef\<close>.
\<close>

theorem tokenAndCAHash_fields:
  "(length (Fields s) = 7 \<longrightarrow>
      tokenAndCAHashFromKubeadmJoinCommand s = Inr (Fields s ! 4, Fields s ! 6))
   \<and> (length (Fields s) \<noteq> 7 \<longrightarrow>
      tokenAndCAHashFromKubeadmJoinCommand s
        = Inl (Errorf ''expected 7 fields, found %v'' [ArgN (int (length (Fields s)))]))
   \<and> tokenAndCAHashFromKubeadmJoinCommand
        ''kubeadm join 1.2.3.4:6443 --token abcdef.123456 --discovery-token-ca-cert-hash sha256:deadbeef''
      = Inr (''abcdef.123456'', ''sha256:deadbeef'')"
  by (simp add: tokenAndCAHashFromKubeadmJoinCommand_def Let_def Fields_kubeadm_join)

theorem tokenAndCAHash_fields_witness:
  "length (Fields ''a b  c d e f g'') = 7
   \<and> tokenAndCAHashFromKubeadmJoinCommand ''a b  c d e f g'' = Inr (''e'', ''g'')
   \<and> length (Fields ''kubeadm join'') \<noteq> 7
   \<and> tokenAndCAHashFromKubeadmJoinCommand ''kubeadm join''
       = Inl (Errorf ''expected 7 fields, found %v'' [ArgN 2])"
proof -
  have a: "Fields ''a b  c d e f g'' = [''a'', ''b'', ''c'', ''d'', ''e'', ''f'', ''g'']"
    by (simp add: Fields_def asciiSpace_def)
  have b: "Fields ''kubeadm join'' = [''kubeadm'', ''join'']"
    by (simp add: Fields_def asciiSpace_def)
  show ?thesis
    using tokenAndCAHash_fields [of "''a b  c d e f g''"]
      tokenAndCAHash_fields [of "''kubeadm join''"]
    by (simp add: a b)
qed

subsection \<open>What a run emits\<close>

lemma emits_ret [intro!, simp]: "emits P (ret x)" by (simp add: emits_def)

lemma emits_failWith [intro!, simp]: "emits P (failWith e)" by (simp add: emits_def)

lemma emits_fatalf [intro!, simp]: "emits P (fatalf f a)" by (simp add: emits_def)

lemma emits_panic [intro!, simp]: "emits P panic" by (simp add: emits_def)

lemma emits_liftE [intro!, simp]: "emits P (liftE r)" by (cases r) (simp_all add: emits_def)

lemma emits_ask [intro!]: "P c \<Longrightarrow> emits P (ask c a)" by (simp add: emits_def)

lemma emits_logp [intro!]: "P (Log f a) \<Longrightarrow> emits P (logp f a)" by (simp add: emits_def)

lemma emits_bnd [intro!]: "emits P m \<Longrightarrow> (\<And>x. emits P (f x)) \<Longrightarrow> emits P (bnd m f)"
  unfolding emits_def bnd_def
  apply (intro allI)
  subgoal for h
    apply (cases "m h")
    subgoal for r out
      apply (cases r)
         apply (auto split: prod.splits)
       apply (metis snd_conv)+
      done
    done
  done

lemma emits_wrapE [intro!]: "emits P m \<Longrightarrow> emits P (wrapE m w)"
  by (auto simp: emits_def wrapE_run)

lemma emits_orFatal [intro!]: "emits P m \<Longrightarrow> emits P (orFatal m w)"
  by (auto simp: emits_def orFatal_run)

lemma emits_catchE [intro!]: "emits P m \<Longrightarrow> (\<And>e. emits P (handler e)) \<Longrightarrow> emits P (catchE m handler)"
  unfolding emits_def catchE_def
  apply (intro allI)
  subgoal for h
    apply (cases "m h")
    subgoal for r out
      apply (cases r)
         apply (auto split: prod.splits)
       apply (metis snd_conv)+
      done
    done
  done

lemma emits_askV [intro!]: "P c \<Longrightarrow> emits P (askV c a)"
  by (auto simp: askV_def)

lemma emits_askE [intro!]: "P c \<Longrightarrow> emits P (askE c a)"
  by (auto simp: askE_def split: option.splits)

lemma quietD:
  "quiet P \<Longrightarrow> P (GetSecret a b)" "quiet P \<Longrightarrow> P (NewClient c)"
  "quiet P \<Longrightarrow> P (Log f args)"
  "quiet P \<Longrightarrow> P (UpdateMachineStatus a m)" "quiet P \<Longrightarrow> P (ReadLocalFile p)"
  "quiet P \<Longrightarrow> P (WriteFile c p n b)" "quiet P \<Longrightarrow> P (MkdirAll c p n)"
  "quiet P \<Longrightarrow> P (MoveFile c p q)"
  by (simp_all add: quiet_def)

lemma emits_sshMachineClientFromSSHConfig:
  "quiet P \<Longrightarrow> emits P (sshMachineClientFromSSHConfig env cfg)"
  unfolding sshMachineClientFromSSHConfig_def
  by (auto simp: quietD Let_def split: option.splits sum.splits)

lemma emits_updateMachineEtcdMember:
  "quiet P \<Longrightarrow> emits P (updateMachineEtcdMember env m machine)"
  unfolding updateMachineEtcdMember_def
  by (auto simp: quietD split: option.splits sum.splits)

lemma emits_insertClusterEtcdMember:
  "\<forall>ns cl. P (UpdateClusterStatus ns cl) \<Longrightarrow> emits P (insertClusterEtcdMember env m cluster)"
  unfolding insertClusterEtcdMember_def
  by (auto simp: Let_def)

lemma emits_removeClusterEtcdMember:
  "\<forall>ns cl. P (UpdateClusterStatus ns cl) \<Longrightarrow> emits P (removeClusterEtcdMember env m cluster)"
  unfolding removeClusterEtcdMember_def
  by (auto simp: Let_def)

lemma emits_runCommandOrError:
  "P (RunCommand client cmd) \<Longrightarrow> emits P (runCommandOrError env client cmd)"
  unfolding runCommandOrError_def
  by (auto split: option.splits)

lemma emits_etcdMemberFromMachine:
  "P (RunCommand client infoCmd) \<Longrightarrow> emits P (etcdMemberFromMachine env client)"
  unfolding etcdMemberFromMachine_def
  by (auto intro: emits_runCommandOrError)

lemma emits_writeEtcdSnapshot:
  "quiet P \<Longrightarrow> emits P (writeEtcdSnapshot env lp rp client)"
  unfolding writeEtcdSnapshot_def
  by (auto simp: quietD)

lemma emits_writeSecretToMachine:
  "quiet P \<Longrightarrow> emits P (writeSecretToMachine env client secret ck kk cp kp)"
  unfolding writeSecretToMachine_def
  by (auto simp: quietD Let_def split: option.splits)

lemma emits_mastersWithClient:
  "quiet P \<Longrightarrow> emits P (mastersWithClient env masters)"
  by (induction masters) (auto intro: emits_sshMachineClientFromSSHConfig)

lemma emits_resetLoop:
  "\<forall>ns cl. P (UpdateClusterStatus ns cl) \<Longrightarrow> \<forall>cl. P (RunCommand cl resetCmd)
   \<Longrightarrow> emits P (resetLoop env mwcs cluster)"
  by (induction mwcs arbitrary: cluster)
    (auto simp: resetEtcdSkipRemoveMember_def
      intro: emits_runCommandOrError emits_removeClusterEtcdMember split: option.splits)

lemma emits_writeCALoop:
  "quiet P \<Longrightarrow> emits P (writeCALoop env secret mwcs)"
  by (induction mwcs) (auto intro: emits_writeSecretToMachine)

lemma emits_recoverFirst:
  "quiet P \<Longrightarrow> \<forall>ns cl. P (UpdateClusterStatus ns cl) \<Longrightarrow> \<forall>cl. P (RunCommand cl (initCmd rp))
   \<Longrightarrow> \<forall>cl. P (RunCommand cl infoCmd)
   \<Longrightarrow> emits P (recoverFirst env lp rp mwc cluster)"
  unfolding recoverFirst_def etcdadmInitFromSnapshot_def
  by (auto simp: quietD
      intro: emits_runCommandOrError emits_etcdMemberFromMachine emits_writeEtcdSnapshot
        emits_updateMachineEtcdMember emits_insertClusterEtcdMember split: option.splits)

lemma emits_joinLoop:
  "quiet P \<Longrightarrow> \<forall>ns cl. P (UpdateClusterStatus ns cl) \<Longrightarrow> \<forall>cl. P (RunCommand cl (joinCmd ep))
   \<Longrightarrow> \<forall>cl. P (RunCommand cl infoCmd)
   \<Longrightarrow> emits P (joinLoop env ep mwcs cluster)"
  by (induction mwcs arbitrary: cluster)
    (auto simp: quietD etcdadmJoin_def
      intro: emits_runCommandOrError emits_etcdMemberFromMachine
        emits_updateMachineEtcdMember emits_insertClusterEtcdMember split: option.splits)

lemma emits_restartLoop:
  "quiet P \<Longrightarrow> \<forall>cl. P (RunCommand cl restartCmd) \<Longrightarrow> emits P (restartLoop env mwcs)"
  by (induction mwcs)
    (auto simp: quietD restartKubelet_def intro: emits_runCommandOrError)

subsection \<open>The steps of a recovery\<close>

lemma bnd_cases [consumes 1, case_names halt step]:
  assumes "bnd m f h = (r, out)"
  obtains r' where "m h = (r', out)" "halted r' r"
  | x o1 o2 where "m h = (Done x, o1)" "f x (h @ o1) = (r, o2)" "out = o1 @ o2"
proof (cases "m h")
  case (Pair r' o1)
  show thesis
  proof (cases r')
    case (Done x)
    obtain r2 o2 where f: "f x (h @ o1) = (r2, o2)" by (cases "f x (h @ o1)")
    with assms Pair Done have "r = r2" "out = o1 @ o2" by (simp_all add: bnd_def)
    with that(2) Pair Done f show thesis by simp
  next
    case (Failed e)
    with assms Pair have "r = Failed e" "out = o1" by (simp_all add: bnd_def)
    with that(1) [of r'] Pair Failed show thesis by simp
  next
    case (Fatal s a)
    with assms Pair have "r = Fatal s a" "out = o1" by (simp_all add: bnd_def)
    with that(1) [of r'] Pair Fatal show thesis by simp
  next
    case Panic
    with assms Pair have "r = Panic" "out = o1" by (simp_all add: bnd_def)
    with that(1) [of r'] Pair Panic show thesis by simp
  qed
qed

lemma mastersWithClient_Done:
  "mastersWithClient env masters h = (Done mwcs, out) \<Longrightarrow> map fst mwcs = masters"
proof (induction masters arbitrary: h mwcs out)
  case Nil
  then show ?case by simp
next
  case (Cons master rest)
  from Cons.prems have
    "bnd (wrapE (liftE (GetMachineStatus (sputil env) master))
            (\<lambda>err. Errorf ''unable to decode machine %q spec: %v'' [ArgS (mName master), ArgE err]))
       (\<lambda>machineStatus.
     bnd (wrapE (sshMachineClientFromSSHConfig env (mstSSHConfig machineStatus))
            (\<lambda>err. Errorf ''unable to create machine client for machine %q: %v''
                      [ArgS (mName master), ArgE err]))
       (\<lambda>client.
     bnd (mastersWithClient env rest)
       (\<lambda>mwcs. ret ((master, client) # mwcs)))) h = (Done mwcs, out)"
    by simp
  then show ?case
  proof (cases rule: bnd_cases)
    case (halt r')
    then show ?thesis by (cases r') simp_all
  next
    case (step st o1 o2)
    from step(2) show ?thesis
    proof (cases rule: bnd_cases)
      case (halt r')
      then show ?thesis by (cases r') simp_all
    next
      case (step client o3 o4)
      from step(2) show ?thesis
      proof (cases rule: bnd_cases)
        case (halt r')
        then show ?thesis by (cases r') simp_all
      next
        case (step rest' o5 o6)
        with Cons.IH [OF step(1)] show ?thesis by auto
      qed
    qed
  qed
qed

lemma recoverEtcd_cases [consumes 2, case_names sessions reset ca first urls join restart]:
  assumes run: "recoverEtcd env lp rp sec cl masters h = (r, out)" and ne: "masters \<noteq> []"
  obtains
    r1 where "mastersWithClient env masters h = (r1, out)" "halted r1 r"
  | mwcs o1 r2 o2 where "mastersWithClient env masters h = (Done mwcs, o1)"
      "resetLoop env mwcs cl (h @ o1 @ [cleanupLog]) = (r2, o2)" "halted r2 r" "out = o1 @ cleanupLog # o2"
  | mwcs o1 cl1 o2 r3 o3 where "mastersWithClient env masters h = (Done mwcs, o1)"
      "resetLoop env mwcs cl (h @ o1 @ [cleanupLog]) = (Done cl1, o2)"
      "writeCALoop env sec mwcs (h @ o1 @ cleanupLog # o2 @ [caLog]) = (r3, o3)" "halted r3 r"
      "out = o1 @ cleanupLog # o2 @ caLog # o3"
  | mwcs o1 cl1 o2 o3 r4 o4 where "mastersWithClient env masters h = (Done mwcs, o1)"
      "resetLoop env mwcs cl (h @ o1 @ [cleanupLog]) = (Done cl1, o2)"
      "writeCALoop env sec mwcs (h @ o1 @ cleanupLog # o2 @ [caLog]) = (Done (), o3)"
      "recoverFirst env lp rp (hd mwcs) cl1 (h @ o1 @ cleanupLog # o2 @ caLog # o3) = (r4, o4)" "halted r4 r"
      "out = o1 @ cleanupLog # o2 @ caLog # o3 @ o4"
  | mwcs o1 cl1 o2 o3 seed m' cl2 o4 where "mastersWithClient env masters h = (Done mwcs, o1)"
      "resetLoop env mwcs cl (h @ o1 @ [cleanupLog]) = (Done cl1, o2)"
      "writeCALoop env sec mwcs (h @ o1 @ cleanupLog # o2 @ [caLog]) = (Done (), o3)"
      "recoverFirst env lp rp (hd mwcs) cl1 (h @ o1 @ cleanupLog # o2 @ caLog # o3) = (Done (seed, m', cl2), o4)"
      "ClientURLs seed = []" "r = Failed (noURLs m')"
      "out = o1 @ cleanupLog # o2 @ caLog # o3 @ o4"
  | mwcs o1 cl1 o2 o3 seed m' cl2 o4 r5 o5 where "mastersWithClient env masters h = (Done mwcs, o1)"
      "resetLoop env mwcs cl (h @ o1 @ [cleanupLog]) = (Done cl1, o2)"
      "writeCALoop env sec mwcs (h @ o1 @ cleanupLog # o2 @ [caLog]) = (Done (), o3)"
      "recoverFirst env lp rp (hd mwcs) cl1 (h @ o1 @ cleanupLog # o2 @ caLog # o3) = (Done (seed, m', cl2), o4)"
      "ClientURLs seed \<noteq> []"
      "joinLoop env (hd (ClientURLs seed)) (tl mwcs) cl2 (h @ o1 @ cleanupLog # o2 @ caLog # o3 @ o4) = (r5, o5)"
      "halted r5 r" "out = o1 @ cleanupLog # o2 @ caLog # o3 @ o4 @ o5"
  | mwcs o1 cl1 o2 o3 seed m' cl2 o4 cl3 others' o5 o6 where
      "mastersWithClient env masters h = (Done mwcs, o1)"
      "resetLoop env mwcs cl (h @ o1 @ [cleanupLog]) = (Done cl1, o2)"
      "writeCALoop env sec mwcs (h @ o1 @ cleanupLog # o2 @ [caLog]) = (Done (), o3)"
      "recoverFirst env lp rp (hd mwcs) cl1 (h @ o1 @ cleanupLog # o2 @ caLog # o3) = (Done (seed, m', cl2), o4)"
      "ClientURLs seed \<noteq> []"
      "joinLoop env (hd (ClientURLs seed)) (tl mwcs) cl2 (h @ o1 @ cleanupLog # o2 @ caLog # o3 @ o4)
         = (Done (cl3, others'), o5)"
      "restartLoop env ((m', snd (hd mwcs)) # others') (h @ o1 @ cleanupLog # o2 @ caLog # o3 @ o4 @ o5) = (r, o6)"
      "out = o1 @ cleanupLog # o2 @ caLog # o3 @ o4 @ o5 @ o6"
proof -
  from run ne have
    "bnd (mastersWithClient env masters)
       (\<lambda>mwcs. bnd (logp ''[recover etcd] Cleaning up degraded etcd cluster on all masters'' [])
          (\<lambda>_. bnd (resetLoop env mwcs cl)
             (\<lambda>cluster1. bnd (logp ''[recover etcd] Writing etcd CA to all masters'' [])
                (\<lambda>_. bnd (writeCALoop env sec mwcs)
                   (\<lambda>_. case mwcs of [] \<Rightarrow> panic
                      | firstMWC # otherMWCs \<Rightarrow>
                          bnd (recoverFirst env lp rp firstMWC cluster1)
                            (\<lambda>(firstEtcdMember, firstMachine, cluster2).
                               if length (ClientURLs firstEtcdMember) = 0
                               then failWith (Errorf ''unable to proceed: etcd member for machine %q has no client URLs''
                                                [ArgS (mName firstMachine)])
                               else bnd (joinLoop env (hd (ClientURLs firstEtcdMember)) otherMWCs cluster2)
                                      (\<lambda>(cluster3, otherMWCs').
                                         restartLoop env ((firstMachine, snd firstMWC) # otherMWCs')))))))) h
     = (r, out)"
    by (simp add: recoverEtcd_def)
  then show thesis
  proof (cases rule: bnd_cases)
    case (halt r1)
    then show ?thesis using that(1) by blast
  next
    case (step mwcs o1 oa)
    from mastersWithClient_Done [OF step(1)] ne obtain first others where mw: "mwcs = first # others"
      by (cases mwcs) auto
    from step(2) show ?thesis
    proof (cases rule: bnd_cases)
      case (halt r')
      then show ?thesis by auto
    next
      case (step u ob oc)
      then have ob: "ob = [cleanupLog]" by (simp add: cleanupLog_def)
      from step(2) show ?thesis
      proof (cases rule: bnd_cases)
        case (halt r2)
        with that(2) [of mwcs o1 r2 oc] \<open>mastersWithClient env masters h = (Done mwcs, o1)\<close>
          \<open>out = o1 @ oa\<close> \<open>oa = ob @ oc\<close> ob
        show ?thesis by simp
      next
        case (step cl1 o2 od)
        note reset = step(1)
        from step(2) show ?thesis
        proof (cases rule: bnd_cases)
          case (halt r')
          then show ?thesis by auto
        next
          case (step u oe og)
          then have oe: "oe = [caLog]" by (simp add: caLog_def)
          from step(2) show ?thesis
          proof (cases rule: bnd_cases)
            case (halt r3)
            with that(3) [of mwcs o1 cl1 o2 r3 og] \<open>mastersWithClient env masters h = (Done mwcs, o1)\<close>
              reset \<open>out = o1 @ oa\<close> \<open>oa = ob @ oc\<close> ob \<open>oc = o2 @ od\<close> \<open>od = oe @ og\<close> oe
            show ?thesis by (simp add: ob)
          next
            case (step u o3 oi)
            note ca = step(1)
            have outeq: "out = o1 @ cleanupLog # o2 @ caLog # o3 @ oi"
              using \<open>out = o1 @ oa\<close> \<open>oa = ob @ oc\<close> ob \<open>oc = o2 @ od\<close> \<open>od = oe @ og\<close> oe
                \<open>og = o3 @ oi\<close> by simp
            from step(2) mw have
              "bnd (recoverFirst env lp rp first cl1)
                  (\<lambda>(firstEtcdMember, firstMachine, cluster2).
                     if length (ClientURLs firstEtcdMember) = 0
                     then failWith (Errorf ''unable to proceed: etcd member for machine %q has no client URLs''
                                      [ArgS (mName firstMachine)])
                     else bnd (joinLoop env (hd (ClientURLs firstEtcdMember)) others cluster2)
                            (\<lambda>(cluster3, otherMWCs').
                               restartLoop env ((firstMachine, snd first) # otherMWCs')))
                 (h @ o1 @ cleanupLog # o2 @ caLog # o3) = (r, oi)"
              by (simp add: ob oe)
            then show ?thesis
            proof (cases rule: bnd_cases)
              case (halt r4)
              with that(4) [of mwcs o1 cl1 o2 o3 r4 oi]
                \<open>mastersWithClient env masters h = (Done mwcs, o1)\<close> reset ca outeq mw
              show ?thesis by (simp add: ob oe)
            next
              case (step x o4 oj)
              obtain seed m' cl2 where x: "x = (seed, m', cl2)" by (cases x)
              note first = step(1) [unfolded x]
              show ?thesis
              proof (cases "ClientURLs seed = []")
                case True
                with step(2) x have "r = Failed (noURLs m')" "oj = []" by (simp_all add: noURLs_def)
                with that(5) [of mwcs o1 cl1 o2 o3 seed m' cl2 o4]
                  \<open>mastersWithClient env masters h = (Done mwcs, o1)\<close> reset ca outeq mw first True
                  \<open>oi = o4 @ oj\<close>
                show ?thesis by (simp add: ob oe)
              next
                case False
                with step(2) x have
                  "bnd (joinLoop env (hd (ClientURLs seed)) others cl2)
                      (\<lambda>(cluster3, otherMWCs'). restartLoop env ((m', snd first) # otherMWCs'))
                     ((h @ o1 @ cleanupLog # o2 @ caLog # o3) @ o4) = (r, oj)"
                  by simp
                then show ?thesis
                proof (cases rule: bnd_cases)
                  case (halt r5)
                  with that(6) [of mwcs o1 cl1 o2 o3 seed m' cl2 o4 r5 oj]
                    \<open>mastersWithClient env masters h = (Done mwcs, o1)\<close> reset ca outeq mw first False
                    \<open>oi = o4 @ oj\<close>
                  show ?thesis by (simp add: ob oe)
                next
                  case (step y o5 o6)
                  obtain cl3 others' where y: "y = (cl3, others')" by (cases y)
                  with that(7) [of mwcs o1 cl1 o2 o3 seed m' cl2 o4 cl3 others' o5 o6] step
                    \<open>mastersWithClient env masters h = (Done mwcs, o1)\<close> reset ca outeq mw first False
                    \<open>oi = o4 @ oj\<close>
                  show ?thesis by (simp add: ob oe)
                qed
              qed
            qed
          qed
        qed
      qed
    qed
  qed
qed

subsection \<open>Restarting the kubelet\<close>

lemma emitsD: "emits P m \<Longrightarrow> m h = (r, out) \<Longrightarrow> \<forall>c \<in> set out. P c"
  by (metis emits_def snd_conv)

lemma cmd_neq [simp]:
  "resetCmd \<noteq> restartCmd" "initCmd rp \<noteq> restartCmd" "joinCmd ep \<noteq> restartCmd" "infoCmd \<noteq> restartCmd"
  "initCmd rp \<noteq> resetCmd" "joinCmd ep \<noteq> resetCmd" "infoCmd \<noteq> resetCmd" "restartCmd \<noteq> resetCmd"
  by (simp_all add: resetCmd_def restartCmd_def initCmd_def joinCmd_def infoCmd_def)

lemma isInit_simps [simp]:
  "isInit (RunCommand cl (initCmd rp))" "\<not> isInit (RunCommand cl resetCmd)"
  "\<not> isInit (RunCommand cl (joinCmd ep))" "\<not> isInit (RunCommand cl infoCmd)"
  "\<not> isInit (RunCommand cl restartCmd)"
  by (simp_all add: isInit_def startsWith_def resetCmd_def restartCmd_def initCmd_def joinCmd_def infoCmd_def)

lemma isJoin_simps [simp]:
  "isJoin (RunCommand cl (joinCmd ep))" "\<not> isJoin (RunCommand cl resetCmd)"
  "\<not> isJoin (RunCommand cl (initCmd rp))" "\<not> isJoin (RunCommand cl infoCmd)"
  "\<not> isJoin (RunCommand cl restartCmd)"
  by (simp_all add: isJoin_def startsWith_def resetCmd_def restartCmd_def initCmd_def joinCmd_def infoCmd_def)

lemma isRestart_simps [simp]:
  "isRestart (RunCommand cl cmd) \<longleftrightarrow> cmd = restartCmd"
  "\<not> isRestart (Log f a)"
  by (simp_all add: isRestart_def)

lemma isReset_simps [simp]:
  "isReset (RunCommand cl cmd) \<longleftrightarrow> cmd = resetCmd"
  "\<not> isReset (Log f a)" "\<not> isReset (UpdateClusterStatus ns c)"
  by (simp_all add: isReset_def)

lemma quiet_not [simp]:
  "quiet (\<lambda>c. \<not> isInit c)" "quiet (\<lambda>c. \<not> isJoin c)"
  "quiet (\<lambda>c. \<not> isRestart c)" "quiet (\<lambda>c. \<not> isReset c)"
  "quiet (\<lambda>c. \<not> isClusterUpdate c)"
  by (auto simp: quiet_def isInit_def isJoin_def isRestart_def isReset_def isClusterUpdate_def
      split: call.splits)

lemma update_not [simp]:
  "\<not> isInit (UpdateClusterStatus ns c)" "\<not> isJoin (UpdateClusterStatus ns c)"
  "\<not> isRestart (UpdateClusterStatus ns c)" "isClusterUpdate (UpdateClusterStatus ns c)"
  "\<not> isClusterUpdate (RunCommand cl cmd)" "\<not> isClusterUpdate (Log f a)"
  "\<not> isInit (Log f a)" "\<not> isJoin (Log f a)"
  by (simp_all add: isInit_def isJoin_def isRestart_def isClusterUpdate_def)

lemma restartLoop_Cons:
  "restartLoop env (mwc # rest) h =
     (fst (restartLoop env rest
             (h @ restartLog mwc # RunCommand (snd mwc) restartCmd
                # restartWarning env (h @ [restartLog mwc]) mwc)),
      restartLog mwc # RunCommand (snd mwc) restartCmd
        # restartWarning env (h @ [restartLog mwc]) mwc
        @ snd (restartLoop env rest
                 (h @ restartLog mwc # RunCommand (snd mwc) restartCmd
                    # restartWarning env (h @ [restartLog mwc]) mwc)))"
  by (simp add: bnd_def catchE_def restartKubelet_def runCommandOrError_def restartWarning_def
      restartLog_def split: prod.splits option.splits)

lemma restartLoop_Done: "fst (restartLoop env mwcs h) = Done ()"
  by (induction mwcs arbitrary: h) (simp_all add: restartLoop_Cons del: restartLoop.simps(2))

lemma split_first:
  assumes "\<forall>x \<in> set A. \<not> P x" and "P c" and "A @ B = pre @ c # post"
  shows "\<exists>pre'. pre = A @ pre' \<and> B = pre' @ c # post"
proof -
  from assms(3) obtain us where
    "(A = pre @ us \<and> us @ B = c # post) \<or> (A @ us = pre \<and> B = us @ c # post)"
    by (auto simp: append_eq_append_conv2)
  then show ?thesis
  proof
    assume a: "A = pre @ us \<and> us @ B = c # post"
    show ?thesis
    proof (cases us)
      case Nil
      with a show ?thesis by simp
    next
      case (Cons u us')
      with a have "c \<in> set A" by simp
      with assms(1,2) show ?thesis by blast
    qed
  next
    assume "A @ us = pre \<and> B = us @ c # post"
    then show ?thesis by blast
  qed
qed

lemma restartWarning_cases:
  "(restartWarning env h mwc = [] \<and> snd (snd (onCommand (state env) h (RunCommand (snd mwc) restartCmd))) = None)
   \<or> (\<exists>w. restartWarning env h mwc = [w] \<and> isWarning w \<and> \<not> isRestart w)"
  by (auto simp: restartWarning_def isWarning_def split: prod.splits option.splits)

lemma restartLoop_warns:
  assumes "restartLoop env mwcs h = (r, out)" and "out = pre @ c # post" and "isRestart c"
    and "snd (snd (onCommand (state env) (h @ pre) c)) \<noteq> None"
  shows "post \<noteq> [] \<and> isWarning (hd post)"
  using assms
proof (induction mwcs arbitrary: h r out pre)
  case Nil
  then show ?case by simp
next
  case (Cons mwc rest)
  let ?lg = "restartLog mwc"
  let ?rc = "RunCommand (snd mwc) restartCmd"
  let ?w = "restartWarning env (h @ [?lg]) mwc"
  let ?h' = "h @ ?lg # ?rc # ?w"
  obtain r' out' where rest: "restartLoop env rest ?h' = (r', out')"
    by (cases "restartLoop env rest ?h'")
  from Cons.prems(1) rest have out: "out = ?lg # ?rc # ?w @ out'"
    by (simp add: restartLoop_Cons del: restartLoop.simps(2))
  have lg: "\<not> isRestart ?lg" by (simp add: restartLog_def)
  from out Cons.prems(2) have eq: "[?lg] @ (?rc # ?w @ out') = pre @ c # post" by simp
  from split_first [of "[?lg]" isRestart c, OF _ Cons.prems(3) eq] lg
  obtain pre1 where pre1: "pre = [?lg] @ pre1" "?rc # ?w @ out' = pre1 @ c # post" by auto
  show ?case
  proof (cases pre1)
    case Nil
    with pre1 have c: "c = ?rc" and post: "post = ?w @ out'" by simp_all
    from Cons.prems(4) pre1 Nil c
    have "snd (snd (onCommand (state env) (h @ [?lg]) ?rc)) \<noteq> None" by simp
    with restartWarning_cases [of env "h @ [?lg]" mwc]
    obtain w where "?w = [w]" "isWarning w" by auto
    with post show ?thesis by simp
  next
    case (Cons x pre2)
    with pre1 have x: "x = ?rc" and eq2: "?w @ out' = pre2 @ c # post" by simp_all
    have "\<forall>y \<in> set ?w. \<not> isRestart y"
      using restartWarning_cases [of env "h @ [?lg]" mwc] by auto
    from split_first [of ?w isRestart c, OF this Cons.prems(3) eq2]
    obtain pre3 where pre3: "pre2 = ?w @ pre3" "out' = pre3 @ c # post" by auto
    have hist: "h @ pre = ?h' @ pre3"
      using pre1 Cons x pre3 by simp
    from Cons.IH [OF rest pre3(2) Cons.prems(3)] Cons.prems(4) hist
    show ?thesis by simp
  qed
qed

lemma no_restart_before:
  assumes "mastersWithClient env masters h = (r1, o1)"
  shows "\<forall>c \<in> set o1. \<not> isRestart c"
  using emitsD [OF emits_mastersWithClient assms, of "\<lambda>c. \<not> isRestart c"] by simp

lemma no_restart_reset:
  assumes "resetLoop env mwcs cl h = (r2, o2)"
  shows "\<forall>c \<in> set o2. \<not> isRestart c"
  using emitsD [OF emits_resetLoop assms, of "\<lambda>c. \<not> isRestart c"] by simp

lemma no_restart_ca:
  assumes "writeCALoop env sec mwcs h = (r3, o3)"
  shows "\<forall>c \<in> set o3. \<not> isRestart c"
  using emitsD [OF emits_writeCALoop assms, of "\<lambda>c. \<not> isRestart c"] by simp

lemma no_restart_first:
  assumes "recoverFirst env lp rp mwc cl h = (r4, o4)"
  shows "\<forall>c \<in> set o4. \<not> isRestart c"
  using emitsD [OF emits_recoverFirst assms, of "\<lambda>c. \<not> isRestart c"] by simp

lemma no_restart_join:
  assumes "joinLoop env ep mwcs cl h = (r5, o5)"
  shows "\<forall>c \<in> set o5. \<not> isRestart c"
  using emitsD [OF emits_joinLoop assms, of "\<lambda>c. \<not> isRestart c"] by simp

lemma no_restart_vacuous:
  assumes "\<forall>x \<in> set out. \<not> isRestart x"
  shows "((\<exists>c \<in> set out. isRestart c) \<longrightarrow> R)
       \<and> (\<forall>pre c post. out = pre @ c # post \<and> isRestart c \<and> Q pre c \<longrightarrow> S post)"
proof -
  have "\<not> isRestart c" if "out = pre @ c # post" for pre c post
    using assms that by simp
  with assms show ?thesis by blast
qed

text \<open>
  C9. A recovery that runs a restart command returns without an error, and a restart command
  that fails is followed at once by a warning in the log: in every run of
  \<open>recoverEtcd\<close>, if a kubelet restart is among the calls then the result is
  \<open>Done\<close>, and after every restart call that the machine answers with an error the next
  call is the log line \<open>Warning: Unable to restart kubelet on machine ...\<close>.
\<close>

theorem restart_failure_is_warning:
  assumes run: "recoverEtcd env lp rp sec cl masters h = (r, out)"
  shows "((\<exists>c \<in> set out. isRestart c) \<longrightarrow> r = Done ())
       \<and> (\<forall>pre c post. out = pre @ c # post \<and> isRestart c
              \<and> snd (snd (onCommand (state env) (h @ pre) c)) \<noteq> None
            \<longrightarrow> post \<noteq> [] \<and> isWarning (hd post))"
proof (cases "masters = []")
  case True
  with run show ?thesis by (simp add: recoverEtcd_def)
next
  case False
  from run False show ?thesis
  proof (cases rule: recoverEtcd_cases)
    case (sessions r1)
    have "\<forall>x \<in> set out. \<not> isRestart x"
      using no_restart_before [OF sessions(1)] by simp
    then show ?thesis by (rule no_restart_vacuous)
  next
    case (reset mwcs o1 r2 o2)
    have "\<forall>x \<in> set out. \<not> isRestart x"
      using no_restart_before [OF reset(1)] no_restart_reset [OF reset(2)] reset(4)
      by (auto simp: cleanupLog_def)
    then show ?thesis by (rule no_restart_vacuous)
  next
    case (ca mwcs o1 cl1 o2 r3 o3)
    have "\<forall>x \<in> set out. \<not> isRestart x"
      using no_restart_before [OF ca(1)] no_restart_reset [OF ca(2)] no_restart_ca [OF ca(3)] ca(5)
      by (auto simp: cleanupLog_def caLog_def)
    then show ?thesis by (rule no_restart_vacuous)
  next
    case (first mwcs o1 cl1 o2 o3 r4 o4)
    have "\<forall>x \<in> set out. \<not> isRestart x"
      using no_restart_before [OF first(1)] no_restart_reset [OF first(2)]
        no_restart_ca [OF first(3)] no_restart_first [OF first(4)] first(6)
      by (auto simp: cleanupLog_def caLog_def)
    then show ?thesis by (rule no_restart_vacuous)
  next
    case (urls mwcs o1 cl1 o2 o3 seed m' cl2 o4)
    have "\<forall>x \<in> set out. \<not> isRestart x"
      using no_restart_before [OF urls(1)] no_restart_reset [OF urls(2)]
        no_restart_ca [OF urls(3)] no_restart_first [OF urls(4)] urls(7)
      by (auto simp: cleanupLog_def caLog_def)
    then show ?thesis by (rule no_restart_vacuous)
  next
    case (join mwcs o1 cl1 o2 o3 seed m' cl2 o4 r5 o5)
    have "\<forall>x \<in> set out. \<not> isRestart x"
      using no_restart_before [OF join(1)] no_restart_reset [OF join(2)]
        no_restart_ca [OF join(3)] no_restart_first [OF join(4)] no_restart_join [OF join(6)] join(8)
      by (auto simp: cleanupLog_def caLog_def)
    then show ?thesis by (rule no_restart_vacuous)
  next
    case (restart mwcs o1 cl1 o2 o3 seed m' cl2 o4 cl3 others' o5 o6)
    let ?A = "o1 @ cleanupLog # o2 @ caLog # o3 @ o4 @ o5"
    have A: "\<forall>x \<in> set ?A. \<not> isRestart x"
      using no_restart_before [OF restart(1)] no_restart_reset [OF restart(2)]
        no_restart_ca [OF restart(3)] no_restart_first [OF restart(4)] no_restart_join [OF restart(6)]
      by (auto simp: cleanupLog_def caLog_def)
    have r: "r = Done ()"
      using restartLoop_Done [of env "(m', snd (hd mwcs)) # others'" "h @ ?A"] restart(7) by simp
    have "post \<noteq> [] \<and> isWarning (hd post)"
      if "out = pre @ c # post" "isRestart c"
        "snd (snd (onCommand (state env) (h @ pre) c)) \<noteq> None" for pre c post
    proof -
      from that(1) restart(8) have "?A @ o6 = pre @ c # post" by simp
      from split_first [OF A that(2) this]
      obtain pre' where pre': "pre = ?A @ pre'" "o6 = pre' @ c # post" by blast
      from restart(7) have loop: "restartLoop env ((m', snd (hd mwcs)) # others') (h @ ?A) = (r, o6)"
        by simp
      from restartLoop_warns [OF loop pre'(2) that(2)] that(3) pre'(1)
      show ?thesis by simp
    qed
    with r show ?thesis by blast
  qed
qed

theorem restart_failure_is_warning_witness:
  "fst (recoverEtcd (testEnv isRestart []) ''snapshot.db'' ''/tmp/snapshot.db'' (Some testSecret)
          testMembers testMasters []) = Done ()
   \<and> isWarning (hd (tl (dropWhile (\<lambda>c. \<not> isRestart c)
         (snd (recoverEtcd (testEnv isRestart []) ''snapshot.db'' ''/tmp/snapshot.db''
                 (Some testSecret) testMembers testMasters [])))))"
proof -
  let ?env = "testEnv isRestart []"
  let ?run = "recoverEtcd ?env ''snapshot.db'' ''/tmp/snapshot.db'' (Some testSecret)
                testMembers testMasters []"
  let ?pre = "takeWhile (\<lambda>c. \<not> isRestart c) (snd ?run)"
  let ?c = "RunCommand (testClient ''10.0.0.1'') restartCmd"
  let ?post = "tl (dropWhile (\<lambda>c. \<not> isRestart c) (snd ?run))"
  have run: "?run = (fst ?run, snd ?run)"
    by simp
  have restarts: "\<exists>c \<in> set (snd ?run). isRestart c"
    by code_simp
  have split: "snd ?run = ?pre @ ?c # ?post"
    by code_simp
  have c: "isRestart ?c"
    by simp
  have fails: "snd (snd (onCommand (state ?env) ([] @ ?pre) ?c)) \<noteq> None"
    by (simp add: testEnv_def testWorld_def)
  from restart_failure_is_warning [OF run] restarts split c fails show ?thesis
    by blast
qed

subsection \<open>The reset loop\<close>

lemma removeClusterEtcdMember_run:
  "removeClusterEtcdMember env em cl h =
     (case GetClusterStatus (sputil env) cl of
        Inl e \<Rightarrow> (Failed (Errorf ''unable to decode cluster status: %v'' [ArgE e]), [])
      | Inr cst \<Rightarrow>
          (case PutClusterStatus (sputil env)
                  (cst\<lparr>EtcdMembers := EtcdMemberSet_List
                          (EtcdMemberSet_Delete em (NewEtcdMemberSet (EtcdMembers cst)))\<rparr>) cl of
             Inl e \<Rightarrow> (Failed (Errorf ''unable to encode cluster status: %v'' [ArgE e]), [])
           | Inr cl' \<Rightarrow>
               (case onErr (state env) h (UpdateClusterStatus (DefaultNamespace (common env)) cl') of
                  Some e \<Rightarrow> Failed (Errorf ''unable to update cluster: %v'' [ArgE e])
                | None \<Rightarrow> Done cl',
                [UpdateClusterStatus (DefaultNamespace (common env)) cl'])))"
  by (simp add: removeClusterEtcdMember_def bnd_def wrapE_run askE_run Let_def
      split: sum.splits option.splits)

lemma resetLoop_Cons:
  "resetLoop env (mwc # rest) cl h =
     (case onCommand (state env) h (resetCall mwc) of
        (stdOut, stdErr, Some e) \<Rightarrow>
          (Failed (Errorf ''unable to reset etcd on machine %q: %v''
                     [ArgS (mName (fst mwc)),
                      ArgE (Errorf ''error running %q: %v (stdout: %q, stderr: %q)''
                              [ArgS resetCmd, ArgE e, ArgS stdOut, ArgS stdErr])]),
           [resetCall mwc])
      | (stdOut, stdErr, None) \<Rightarrow>
          (case GetMachineStatus (sputil env) (fst mwc) of
             Inl e \<Rightarrow> (Failed (Errorf ''unable to decode machine status: %v'' [ArgE e]), [resetCall mwc])
           | Inr st \<Rightarrow>
               (case mstEtcdMember st of
                  None \<Rightarrow> (Panic, [resetCall mwc])
                | Some em \<Rightarrow>
                    (case removeClusterEtcdMember env em cl (h @ [resetCall mwc]) of
                       (Done cl', out) \<Rightarrow>
                         (fst (resetLoop env rest cl' (h @ resetCall mwc # out)),
                          resetCall mwc # out @ snd (resetLoop env rest cl' (h @ resetCall mwc # out)))
                     | (Failed e, out) \<Rightarrow>
                         (Failed (Errorf ''unable to remove etcd member information for machine %q from cluster status: %v''
                                    [ArgS (mName (fst mwc)), ArgE e]),
                          resetCall mwc # out)
                     | (Fatal f a, out) \<Rightarrow> (Fatal f a, resetCall mwc # out)
                     | (Panic, out) \<Rightarrow> (Panic, resetCall mwc # out)))))"
  by (simp add: bnd_def wrapE_run resetEtcdSkipRemoveMember_def runCommandOrError_def resetCall_def
      split: prod.splits option.splits sum.splits res.splits)

lemma resetLoop_append:
  "resetLoop env before cl h = (Done cl', o2) \<Longrightarrow>
   resetLoop env (before @ rest) cl h =
     (fst (resetLoop env rest cl' (h @ o2)), o2 @ snd (resetLoop env rest cl' (h @ o2)))"
proof (induction before arbitrary: cl h o2)
  case Nil
  then show ?case by simp
next
  case (Cons mwc before)
  from Cons.prems obtain so se st em cl1 oa where
    cmd: "onCommand (state env) h (resetCall mwc) = (so, se, None)"
    and st: "GetMachineStatus (sputil env) (fst mwc) = Inr st" "mstEtcdMember st = Some em"
    and rm: "removeClusterEtcdMember env em cl (h @ [resetCall mwc]) = (Done cl1, oa)"
    and rest1: "fst (resetLoop env before cl1 (h @ resetCall mwc # oa)) = Done cl'"
    and o2: "o2 = resetCall mwc # oa @ snd (resetLoop env before cl1 (h @ resetCall mwc # oa))"
    by (simp only: resetLoop_Cons)
      (auto split: prod.splits option.splits sum.splits res.splits)
  from rest1 have rest: "resetLoop env before cl1 (h @ resetCall mwc # oa)
      = (Done cl', snd (resetLoop env before cl1 (h @ resetCall mwc # oa)))"
    by (metis prod.collapse)
  from Cons.IH [OF rest] cmd st rm o2 show ?case
    by (simp add: resetLoop_Cons del: resetLoop.simps(2))
qed

text \<open>
  C10. The reset loop of \<open>recoverEtcd\<close> reads the member recorded in a master's status
  without testing that there is one: when the sessions open, the masters before \<open>mwc\<close>
  are reset, the reset of \<open>mwc\<close> succeeds and its decoded status records no member,
  the recovery panics right after that reset command, with no error returned. The create
  and delete commands test the same field first: \<open>updateClusterStatusIfMember\<close> on
  such a status leaves the cluster as it is and makes no call.
\<close>

theorem recover_panics_without_member:
  assumes sessions: "mastersWithClient env masters h = (Done mwcs, o1)"
    and pos: "mwcs = before @ mwc # after"
    and before: "resetLoop env before cl (h @ o1 @ [cleanupLog]) = (Done cl', o2)"
    and reset: "snd (snd (onCommand (state env) (h @ o1 @ cleanupLog # o2) (resetCall mwc))) = None"
    and status: "GetMachineStatus (sputil env) (fst mwc) = Inr st"
    and none: "mstEtcdMember st = None"
  shows "recoverEtcd env lp rp sec cl masters h = (Panic, o1 @ cleanupLog # o2 @ [resetCall mwc])
       \<and> updateClusterStatusIfMember env change st cluster h' = (Done cluster, [])"
proof -
  have ne: "masters \<noteq> []"
    using mastersWithClient_Done [OF sessions] pos by auto
  obtain so se where cmd: "onCommand (state env) (h @ o1 @ cleanupLog # o2) (resetCall mwc) = (so, se, None)"
    using reset by (cases "onCommand (state env) (h @ o1 @ cleanupLog # o2) (resetCall mwc)") auto
  have here: "resetLoop env (mwc # after) cl' (h @ o1 @ cleanupLog # o2) = (Panic, [resetCall mwc])"
    by (simp add: resetLoop_Cons cmd status none del: resetLoop.simps(2))
  have loop: "resetLoop env mwcs cl (h @ o1 @ [cleanupLog]) = (Panic, o2 @ [resetCall mwc])"
    using resetLoop_append [OF before, of "mwc # after"] here pos by simp
  have "recoverEtcd env lp rp sec cl masters h = (Panic, o1 @ cleanupLog # o2 @ [resetCall mwc])"
    using ne loop by (simp add: recoverEtcd_def bnd_def sessions cleanupLog_def)
  moreover have "updateClusterStatusIfMember env change st cluster h' = (Done cluster, [])"
    by (simp add: updateClusterStatusIfMember_def none)
  ultimately show ?thesis by simp
qed

theorem recover_panics_without_member_witness:
  "recoverEtcd (testEnv (\<lambda>c. False) []) ''snapshot.db'' ''/tmp/snapshot.db'' (Some testSecret)
     testMembers bareMasters []
   = (Panic,
      snd (mastersWithClient (testEnv (\<lambda>c. False) []) bareMasters []) @
      [cleanupLog,
       RunCommand (testClient ''10.0.0.1'') resetCmd,
       UpdateClusterStatus ''default'' (testCluster (Some ''10.0.0.2 '')),
       RunCommand (testClient ''10.0.0.2'') resetCmd])
   \<and> updateClusterStatusIfMember (testEnv (\<lambda>c. False) []) EtcdMemberSet_Delete
         \<lparr>mstTypeMeta = testMeta, mstSSHConfig = Some (testSSHConfig ''10.0.0.2''),
          mstEtcdMember = None\<rparr> testMembers []
       = (Done testMembers, [])"
proof -
  let ?env = "testEnv (\<lambda>c. False) []"
  let ?s1 = "(testMachine ''10.0.0.1'' [MasterRole] (Some ''10.0.0.1''), testClient ''10.0.0.1'')"
  let ?s2 = "(testMachine ''10.0.0.2'' [MasterRole] None, testClient ''10.0.0.2'')"
  let ?o1 = "snd (mastersWithClient ?env bareMasters [])"
  let ?o2 = "[RunCommand (testClient ''10.0.0.1'') resetCmd,
              UpdateClusterStatus ''default'' (testCluster (Some ''10.0.0.2 ''))]"
  let ?st = "\<lparr>mstTypeMeta = testMeta, mstSSHConfig = Some (testSSHConfig ''10.0.0.2''),
              mstEtcdMember = None\<rparr>"
  have sessions: "mastersWithClient ?env bareMasters [] = (Done ([?s1] @ ?s2 # []), ?o1)"
    by code_simp
  have before: "resetLoop ?env [?s1] testMembers ([] @ ?o1 @ [cleanupLog])
                  = (Done (testCluster (Some ''10.0.0.2 '')), ?o2)"
    by code_simp
  have reset: "snd (snd (onCommand (state ?env) ([] @ ?o1 @ cleanupLog # ?o2) (resetCall ?s2))) = None"
    by code_simp
  have status: "GetMachineStatus (sputil ?env) (fst ?s2) = Inr ?st"
    by code_simp
  have none: "mstEtcdMember ?st = None"
    by simp
  show ?thesis
    using recover_panics_without_member
      [where lp = "''snapshot.db''" and rp = "''/tmp/snapshot.db''" and sec = "Some testSecret"
         and change = EtcdMemberSet_Delete and cluster = testMembers and h' = "[]",
       OF sessions refl before reset status none]
    by (simp add: resetCall_def)
qed

lemma resetLoop_Done_calls:
  "resetLoop env mwcs cl h = (Done cl1, out) \<Longrightarrow>
   length (clustersAfterReset (sputil env) (map fst mwcs) cl) = length mwcs
   \<and> out = resetCalls (DefaultNamespace (common env)) mwcs
             (clustersAfterReset (sputil env) (map fst mwcs) cl)"
proof (induction mwcs arbitrary: cl h out)
  case Nil
  then show ?case by simp
next
  case (Cons mwc rest)
  from Cons.prems obtain so se st em cl' oa where
    cmd: "onCommand (state env) h (resetCall mwc) = (so, se, None)"
    and st: "GetMachineStatus (sputil env) (fst mwc) = Inr st" "mstEtcdMember st = Some em"
    and rm: "removeClusterEtcdMember env em cl (h @ [resetCall mwc]) = (Done cl', oa)"
    and rest1: "fst (resetLoop env rest cl' (h @ resetCall mwc # oa)) = Done cl1"
    and out: "out = resetCall mwc # oa @ snd (resetLoop env rest cl' (h @ resetCall mwc # oa))"
    by (simp only: resetLoop_Cons)
      (auto split: prod.splits option.splits sum.splits res.splits)
  from rest1 have rest: "resetLoop env rest cl' (h @ resetCall mwc # oa)
      = (Done cl1, snd (resetLoop env rest cl' (h @ resetCall mwc # oa)))"
    by (metis prod.collapse)
  from rm obtain cst where
    cst: "GetClusterStatus (sputil env) cl = Inr cst"
    and put: "PutClusterStatus (sputil env)
                (cst\<lparr>EtcdMembers := EtcdMemberSet_List
                        (EtcdMemberSet_Delete em (NewEtcdMemberSet (EtcdMembers cst)))\<rparr>) cl = Inr cl'"
    and oa: "oa = [UpdateClusterStatus (DefaultNamespace (common env)) cl']"
    by (simp only: removeClusterEtcdMember_run) (auto split: sum.splits option.splits)
  from Cons.IH [OF rest] st cst put oa out show ?case
    by simp
qed

lemma resetLoop_fail:
  assumes "resetLoop env mwcs cl h = (r, out)" and "out = pre @ c # post"
    and "(isReset c \<and> snd (snd (onCommand (state env) (h @ pre) c)) \<noteq> None)
       \<or> (isClusterUpdate c \<and> onErr (state env) (h @ pre) c \<noteq> None)"
  shows "post = [] \<and> (\<exists>e. r = Failed e)"
  using assms
proof (induction mwcs arbitrary: cl h r out pre)
  case Nil
  then show ?case by simp
next
  case (Cons mwc rest)
  show ?case
  proof (cases pre)
    case Nil
    with Cons.prems show ?thesis
      by (simp only: resetLoop_Cons)
        (auto simp: resetCall_def isClusterUpdate_def split: prod.splits option.splits sum.splits res.splits)
  next
    case (Cons x pre1)
    note pre = Cons
    show ?thesis
    proof (cases pre1)
      case Nil
      with pre Cons.prems show ?thesis
        by (simp only: resetLoop_Cons removeClusterEtcdMember_run)
          (auto simp: resetCall_def isReset_def split: prod.splits option.splits sum.splits res.splits)
    next
      case (Cons y pre2)
      with pre Cons.prems obtain cl' where
        r1: "fst (resetLoop env rest cl' (h @ [x, y])) = r"
        and r2: "snd (resetLoop env rest cl' (h @ [x, y])) = pre2 @ c # post"
        by (simp only: resetLoop_Cons removeClusterEtcdMember_run)
          (auto split: prod.splits option.splits sum.splits res.splits)
      have rest: "resetLoop env rest cl' (h @ [x, y]) = (r, pre2 @ c # post)"
        using r1 r2 by (metis prod.collapse)
      from Cons.IH [OF rest refl] Cons.prems(3) pre Cons show ?thesis by simp
    qed
  qed
qed

lemma quiet_both [simp]: "quiet (\<lambda>c. \<not> isInit c \<and> \<not> isJoin c)"
  by (auto simp: quiet_def isInit_def isJoin_def split: call.splits)

lemma no_boot_sessions:
  assumes "mastersWithClient env masters h = (r1, o1)"
  shows "\<forall>c \<in> set o1. \<not> isInit c \<and> \<not> isJoin c"
  using emitsD [OF emits_mastersWithClient assms, of "\<lambda>c. \<not> isInit c \<and> \<not> isJoin c"] by simp

lemma no_boot_reset:
  assumes "resetLoop env mwcs cl h = (r2, o2)"
  shows "\<forall>c \<in> set o2. \<not> isInit c \<and> \<not> isJoin c"
  using emitsD [OF emits_resetLoop assms, of "\<lambda>c. \<not> isInit c \<and> \<not> isJoin c"] by simp

lemma no_boot_ca:
  assumes "writeCALoop env sec mwcs h = (r3, o3)"
  shows "\<forall>c \<in> set o3. \<not> isInit c \<and> \<not> isJoin c"
  using emitsD [OF emits_writeCALoop assms, of "\<lambda>c. \<not> isInit c \<and> \<not> isJoin c"] by simp

lemma L_not [simp]: "\<not> isInit cleanupLog" "\<not> isJoin cleanupLog" "\<not> isInit caLog" "\<not> isJoin caLog"
  by (simp_all add: cleanupLog_def caLog_def)

text \<open>
  C4. Every master is reset and removed from the cluster's members, the cluster persisted,
  before any master is initialized. In every run of \<open>recoverEtcd\<close>: if an
  initialization command is among the calls, then the calls start with the sessions, the
  announcement and, for each master in input order, its reset (peer removal skipped) and
  the update of the cluster without its member, and no initialization is among these; if
  the reset loop does not complete, the recovery ends as the loop did, right after the
  loop's calls, with no initialization or join among them; and a reset or a cluster update
  that fails is the last call of the reset loop, which returns an error.
\<close>

theorem resets_before_init:
  assumes run: "recoverEtcd env lp rp sec cl masters h = (r, out)"
  shows "((\<exists>c \<in> set out. isInit c) \<longrightarrow>
            (\<exists>mwcs o1 rest.
                mastersWithClient env masters h = (Done mwcs, o1) \<and> map fst mwcs = masters
              \<and> length (clustersAfterReset (sputil env) masters cl) = length masters
              \<and> out = o1 @ cleanupLog # resetCalls (DefaultNamespace (common env)) mwcs
                                  (clustersAfterReset (sputil env) masters cl) @ rest
              \<and> (\<forall>x \<in> set (o1 @ cleanupLog # resetCalls (DefaultNamespace (common env)) mwcs
                                       (clustersAfterReset (sputil env) masters cl)). \<not> isInit x)))
       \<and> (\<forall>mwcs o1 r2 o2.
              mastersWithClient env masters h = (Done mwcs, o1)
            \<and> resetLoop env mwcs cl (h @ o1 @ [cleanupLog]) = (r2, o2) \<and> (\<forall>cl1. r2 \<noteq> Done cl1)
            \<longrightarrow> halted r2 r \<and> out = o1 @ cleanupLog # o2 \<and> (\<forall>x \<in> set out. \<not> isInit x \<and> \<not> isJoin x))
       \<and> (\<forall>mwcs cl0 h' r2 o2 pre c post.
              resetLoop env mwcs cl0 h' = (r2, o2) \<and> o2 = pre @ c # post
            \<and> ((isReset c \<and> snd (snd (onCommand (state env) (h' @ pre) c)) \<noteq> None)
               \<or> (isClusterUpdate c \<and> onErr (state env) (h' @ pre) c \<noteq> None))
            \<longrightarrow> post = [] \<and> (\<exists>e. r2 = Failed e))"
    (is "?order \<and> ?abort \<and> ?last")
proof -
  have last: ?last
    using resetLoop_fail by blast
  have "?order \<and> ?abort"
  proof (cases "masters = []")
    case True
    with run show ?thesis by (simp add: recoverEtcd_def)
  next
    case False
    have ordered: "\<exists>mwcs o1 rest.
                mastersWithClient env masters h = (Done mwcs, o1) \<and> map fst mwcs = masters
              \<and> length (clustersAfterReset (sputil env) masters cl) = length masters
              \<and> out = o1 @ cleanupLog # resetCalls (DefaultNamespace (common env)) mwcs
                                  (clustersAfterReset (sputil env) masters cl) @ rest
              \<and> (\<forall>x \<in> set (o1 @ cleanupLog # resetCalls (DefaultNamespace (common env)) mwcs
                                       (clustersAfterReset (sputil env) masters cl)). \<not> isInit x)"
      if mw: "mastersWithClient env masters h = (Done mwcs, o1)"
        and rs: "resetLoop env mwcs cl (h @ o1 @ [cleanupLog]) = (Done cl1, o2)"
        and out: "out = o1 @ cleanupLog # o2 @ rest" for mwcs o1 cl1 o2 rest
    proof -
      note m = mastersWithClient_Done [OF mw]
      from resetLoop_Done_calls [OF rs] m
      have len: "length (clustersAfterReset (sputil env) masters cl) = length masters"
        and o2: "o2 = resetCalls (DefaultNamespace (common env)) mwcs
                        (clustersAfterReset (sputil env) masters cl)"
        by auto
      have "\<forall>x \<in> set (o1 @ cleanupLog # o2). \<not> isInit x"
        using no_boot_sessions [OF mw] no_boot_reset [OF rs] by auto
      with mw m len o2 out show ?thesis by blast
    qed
    from run False show ?thesis
    proof (cases rule: recoverEtcd_cases)
      case (sessions r1)
      with no_boot_sessions [OF sessions(1)] show ?thesis by auto
    next
      case (reset mwcs o1 r2 o2)
      have "\<forall>x \<in> set out. \<not> isInit x \<and> \<not> isJoin x"
        using no_boot_sessions [OF reset(1)] no_boot_reset [OF reset(2)] reset(4) by auto
      with reset show ?thesis by auto
    next
      case (ca mwcs o1 cl1 o2 r3 o3)
      have "\<forall>x \<in> set out. \<not> isInit x \<and> \<not> isJoin x"
        using no_boot_sessions [OF ca(1)] no_boot_reset [OF ca(2)] no_boot_ca [OF ca(3)] ca(5)
        by auto
      with ca show ?thesis by auto
    next
      case (first mwcs o1 cl1 o2 o3 r4 o4)
      from ordered [OF first(1,2), of "caLog # o3 @ o4"] first show ?thesis by auto
    next
      case (urls mwcs o1 cl1 o2 o3 seed m' cl2 o4)
      from ordered [OF urls(1,2), of "caLog # o3 @ o4"] urls show ?thesis by auto
    next
      case (join mwcs o1 cl1 o2 o3 seed m' cl2 o4 r5 o5)
      from ordered [OF join(1,2), of "caLog # o3 @ o4 @ o5"] join show ?thesis by auto
    next
      case (restart mwcs o1 cl1 o2 o3 seed m' cl2 o4 cl3 others' o5 o6)
      from ordered [OF restart(1,2), of "caLog # o3 @ o4 @ o5 @ o6"] restart show ?thesis by auto
    qed
  qed
  with last show ?thesis by blast
qed

theorem resets_before_init_witness:
  "(\<exists>rest. snd (recoverEtcd (testEnv (\<lambda>c. False) []) ''snapshot.db'' ''/tmp/snapshot.db''
                  (Some testSecret) testMembers testMasters [])
            = snd (mastersWithClient (testEnv (\<lambda>c. False) []) testMasters []) @
              [cleanupLog,
               RunCommand (testClient ''10.0.0.1'') resetCmd,
               UpdateClusterStatus ''default'' (testCluster (Some ''10.0.0.2 '')),
               RunCommand (testClient ''10.0.0.2'') resetCmd,
               UpdateClusterStatus ''default'' (testCluster (Some []))] @ rest)
   \<and> recoverEtcd (testEnv isReset []) ''snapshot.db'' ''/tmp/snapshot.db'' (Some testSecret)
         testMembers testMasters []
       = (Failed (Errorf ''unable to reset etcd on machine %q: %v''
                    [ArgS ''10.0.0.1'',
                     ArgE (Errorf ''error running %q: %v (stdout: %q, stderr: %q)''
                             [ArgS resetCmd, ArgE (External ''exit status 1''),
                              ArgS ''10.0.0.1'', ArgS []])]),
          snd (mastersWithClient (testEnv isReset []) testMasters []) @
          [cleanupLog, RunCommand (testClient ''10.0.0.1'') resetCmd])
   \<and> snd (resetLoop (testEnv isClusterUpdate []) (testSessions testMasters) testMembers [])
       = [RunCommand (testClient ''10.0.0.1'') resetCmd,
          UpdateClusterStatus ''default'' (testCluster (Some ''10.0.0.2 ''))]
   \<and> (\<exists>e. fst (resetLoop (testEnv isClusterUpdate []) (testSessions testMasters) testMembers [])
             = Failed e)"
proof -
  let ?ok = "testEnv (\<lambda>c. False) []"
  let ?run = "recoverEtcd ?ok ''snapshot.db'' ''/tmp/snapshot.db'' (Some testSecret)
                testMembers testMasters []"
  let ?reset1 = "RunCommand (testClient ''10.0.0.1'') resetCmd"
  let ?update1 = "UpdateClusterStatus ''default'' (testCluster (Some ''10.0.0.2 ''))"
  let ?resets = "[?reset1, ?update1, RunCommand (testClient ''10.0.0.2'') resetCmd,
                  UpdateClusterStatus ''default'' (testCluster (Some []))]"
  have run: "?run = (fst ?run, snd ?run)"
    by simp
  have inits: "\<exists>c \<in> set (snd ?run). isInit c"
    by code_simp
  have sessions: "mastersWithClient ?ok testMasters []
                    = (Done (testSessions testMasters), snd (mastersWithClient ?ok testMasters []))"
    by code_simp
  have calls: "resetCalls (DefaultNamespace (common ?ok)) (testSessions testMasters)
                 (clustersAfterReset (sputil ?ok) testMasters testMembers) = ?resets"
    by code_simp
  have order: "\<exists>rest. snd ?run = snd (mastersWithClient ?ok testMasters []) @ (cleanupLog # ?resets) @ rest"
    using resets_before_init [OF run] inits sessions calls by auto

  let ?bad = "testEnv isReset []"
  let ?run' = "recoverEtcd ?bad ''snapshot.db'' ''/tmp/snapshot.db'' (Some testSecret)
                 testMembers testMasters []"
  let ?o1 = "snd (mastersWithClient ?bad testMasters [])"
  let ?err = "Errorf ''unable to reset etcd on machine %q: %v''
                [ArgS ''10.0.0.1'',
                 ArgE (Errorf ''error running %q: %v (stdout: %q, stderr: %q)''
                         [ArgS resetCmd, ArgE (External ''exit status 1''),
                          ArgS ''10.0.0.1'', ArgS []])]"
  have run': "?run' = (fst ?run', snd ?run')"
    by simp
  have sessions': "mastersWithClient ?bad testMasters [] = (Done (testSessions testMasters), ?o1)"
    by code_simp
  have loop: "resetLoop ?bad (testSessions testMasters) testMembers ([] @ ?o1 @ [cleanupLog])
                = (Failed ?err, [?reset1])"
    by code_simp
  have "halted (Failed ?err :: Cluster res) (fst ?run') \<and> snd ?run' = ?o1 @ cleanupLog # [?reset1]"
    using resets_before_init [OF run'] sessions' loop by blast
  then have abort: "?run' = (Failed ?err, ?o1 @ [cleanupLog, ?reset1])"
    by (simp add: prod_eq_iff)

  let ?worse = "testEnv isClusterUpdate []"
  let ?loop = "resetLoop ?worse (testSessions testMasters) testMembers []"
  let ?run'' = "recoverEtcd ?worse ''snapshot.db'' ''/tmp/snapshot.db'' (Some testSecret)
                  testMembers testMasters []"
  have run'': "?run'' = (fst ?run'', snd ?run'')"
    by simp
  have loop': "?loop = (fst ?loop, snd ?loop)"
    by simp
  have split: "snd ?loop = [?reset1] @ ?update1 # drop 2 (snd ?loop)"
    by code_simp
  have refused: "isClusterUpdate ?update1 \<and> onErr (state ?worse) ([] @ [?reset1]) ?update1 \<noteq> None"
    by (simp add: testEnv_def testWorld_def)
  have "drop 2 (snd ?loop) = [] \<and> (\<exists>e. fst ?loop = Failed e)"
    using resets_before_init [OF run''] loop' split refused by blast
  with split have last: "snd ?loop = [?reset1, ?update1] \<and> (\<exists>e. fst ?loop = Failed e)"
    by simp
  from order abort last show ?thesis
    by simp
qed

subsection \<open>The seed and the joins\<close>

lemma runCommandOrError_run:
  "runCommandOrError env client cmd h =
     (case onCommand (state env) h (RunCommand client cmd) of
        (stdOut, stdErr, Some e) \<Rightarrow>
          Failed (Errorf ''error running %q: %v (stdout: %q, stderr: %q)''
                    [ArgS cmd, ArgE e, ArgS stdOut, ArgS stdErr])
      | (stdOut, stdErr, None) \<Rightarrow> Done stdOut,
      [RunCommand client cmd])"
  by (simp add: runCommandOrError_def bnd_def split: prod.splits option.splits)

lemma recoverFirst_afterSeed:
  "recoverFirst env lp rp mwc cl =
     bnd (logp ''[recover etcd] Initializing new etcd cluster from snapshot on master %q''
            [ArgS (mName (fst mwc))])
       (\<lambda>_.
     bnd (wrapE (writeEtcdSnapshot env lp rp (snd mwc))
            (\<lambda>err. Errorf ''unable to write etcd snapshot to machine %q: %v''
                      [ArgS (mName (fst mwc)), ArgE err]))
       (\<lambda>_.
     bnd (wrapE (etcdadmInitFromSnapshot env rp (snd mwc))
            (\<lambda>err. Errorf ''error running etcdadm init on machine %q: %v''
                      [ArgS (mName (fst mwc)), ArgE err]))
       (\<lambda>_.
     bnd (wrapE (etcdMemberFromMachine env (snd mwc))
            (\<lambda>err. Errorf ''error reading etcd member data from machine %q: %v''
                      [ArgS (mName (fst mwc)), ArgE err]))
       (\<lambda>firstEtcdMember. afterSeed env firstEtcdMember mwc cl))))"
  by (simp add: recoverFirst_def afterSeed_def)

lemma recoverFirst_cases [consumes 1, case_names early init info parse reported]:
  assumes run: "recoverFirst env lp rp mwc cl h = (r4, o4)"
  obtains e where "r4 = Failed e" "\<forall>c \<in> set o4. \<not> isInit c \<and> \<not> isJoin c"
  | b e where "r4 = Failed e" "o4 = initLog mwc # seedCalls lp rp mwc b"
      "onBytes (state env) (h @ [initLog mwc]) (ReadLocalFile lp) = Inr b"
  | b e so se err where "r4 = Failed e"
      "o4 = initLog mwc # seedCalls lp rp mwc b @ [RunCommand (snd mwc) infoCmd]"
      "onBytes (state env) (h @ [initLog mwc]) (ReadLocalFile lp) = Inr b"
      "onCommand (state env) (h @ initLog mwc # seedCalls lp rp mwc b) (RunCommand (snd mwc) infoCmd)
         = (so, se, Some err)"
  | b e so se err where "r4 = Failed e"
      "o4 = initLog mwc # seedCalls lp rp mwc b @ [RunCommand (snd mwc) infoCmd]"
      "onBytes (state env) (h @ [initLog mwc]) (ReadLocalFile lp) = Inr b"
      "onCommand (state env) (h @ initLog mwc # seedCalls lp rp mwc b) (RunCommand (snd mwc) infoCmd)
         = (so, se, None)"
      "UnmarshalEtcdMember (sputil env) so = Inl err"
  | b so se seed rest where
      "o4 = initLog mwc # seedCalls lp rp mwc b @ RunCommand (snd mwc) infoCmd # rest"
      "onBytes (state env) (h @ [initLog mwc]) (ReadLocalFile lp) = Inr b"
      "onCommand (state env) (h @ initLog mwc # seedCalls lp rp mwc b) (RunCommand (snd mwc) infoCmd)
         = (so, se, None)"
      "UnmarshalEtcdMember (sputil env) so = Inr seed"
      "afterSeed env seed mwc cl (h @ initLog mwc # seedCalls lp rp mwc b @ [RunCommand (snd mwc) infoCmd])
         = (r4, rest)"
proof -
  let ?lg = "initLog mwc"
  let ?rd = "ReadLocalFile lp"
  note defs = recoverFirst_afterSeed bnd_def wrapE_run writeEtcdSnapshot_def askV_run askE_run
    etcdadmInitFromSnapshot_def runCommandOrError_run etcdMemberFromMachine_def seedCalls_def initLog_def
  show thesis
  proof (cases "onBytes (state env) (h @ [?lg]) ?rd")
    case (Inl e)
    with run have "r4 = Failed (Errorf ''unable to write etcd snapshot to machine %q: %v''
                     [ArgS (mName (fst mwc)),
                      ArgE (Errorf ''unable to read etcd snapshot %q: %v'' [ArgS lp, ArgE e])])"
      "o4 = [?lg, ?rd]"
      by (simp_all add: defs)
    then show ?thesis using that(1) by (simp add: initLog_def isInit_def isJoin_def)
  next
    case (Inr b)
    note rd = Inr
    let ?wr = "WriteFile (snd mwc) rp 384 b"
    show ?thesis
    proof (cases "onErr (state env) (h @ [?lg, ?rd]) ?wr")
      case (Some e)
      with run rd have "r4 = Failed (Errorf ''unable to write etcd snapshot to machine %q: %v''
                          [ArgS (mName (fst mwc)), ArgE e])"
        "o4 = [?lg, ?rd, ?wr]"
        by (simp_all add: defs)
      then show ?thesis using that(1) by (simp add: initLog_def isInit_def isJoin_def)
    next
      case None
      note wr = None
      let ?ini = "RunCommand (snd mwc) (initCmd rp)"
      obtain so' se' err' where ini: "onCommand (state env) (h @ [?lg, ?rd, ?wr]) ?ini = (so', se', err')"
        by (cases "onCommand (state env) (h @ [?lg, ?rd, ?wr]) ?ini")
      show ?thesis
      proof (cases err')
        case (Some e)
        with run rd wr ini have "\<exists>e. r4 = Failed e" "o4 = ?lg # seedCalls lp rp mwc b"
          by (auto simp: defs)
        then show ?thesis using that(2) rd by blast
      next
        case None
        note ini = ini [unfolded None]
        let ?inf = "RunCommand (snd mwc) infoCmd"
        obtain so se err where inf: "onCommand (state env) (h @ [?lg, ?rd, ?wr, ?ini]) ?inf = (so, se, err)"
          by (cases "onCommand (state env) (h @ [?lg, ?rd, ?wr, ?ini]) ?inf")
        have hist: "h @ ?lg # seedCalls lp rp mwc b = h @ [?lg, ?rd, ?wr, ?ini]"
          by (simp add: seedCalls_def)
        show ?thesis
        proof (cases err)
          case (Some e)
          with run rd wr ini inf have "\<exists>e. r4 = Failed e" "o4 = ?lg # seedCalls lp rp mwc b @ [?inf]"
            by (auto simp: defs)
          then show ?thesis using that(3) rd inf Some hist by auto
        next
          case None
          note inf = inf [unfolded None]
          show ?thesis
          proof (cases "UnmarshalEtcdMember (sputil env) so")
            case (Inl e)
            with run rd wr ini inf have "\<exists>e. r4 = Failed e" "o4 = ?lg # seedCalls lp rp mwc b @ [?inf]"
              by (auto simp: defs)
            then show ?thesis using that(4) rd inf Inl hist by auto
          next
            case (Inr seed)
            obtain ra oa where after:
              "afterSeed env seed mwc cl (h @ [?lg, ?rd, ?wr, ?ini, ?inf]) = (ra, oa)"
              by (cases "afterSeed env seed mwc cl (h @ [?lg, ?rd, ?wr, ?ini, ?inf])")
            have "recoverFirst env lp rp mwc cl h = (ra, [?lg, ?rd, ?wr, ?ini, ?inf] @ oa)"
              using after rd wr ini inf Inr
              by (simp add: defs)
            with run have "r4 = ra" "o4 = ?lg # seedCalls lp rp mwc b @ ?inf # oa"
              by (simp_all add: seedCalls_def)
            with that(5) [of b oa so se seed] rd inf Inr after hist show ?thesis
              by (simp add: seedCalls_def)
          qed
        qed
      qed
    qed
  qed
qed

lemma emits_afterSeed:
  "quiet P \<Longrightarrow> \<forall>ns cl. P (UpdateClusterStatus ns cl) \<Longrightarrow> emits P (afterSeed env seed mwc cluster)"
  unfolding afterSeed_def
  by (auto intro: emits_updateMachineEtcdMember emits_insertClusterEtcdMember split: option.splits)

lemma updateMachineEtcdMember_res:
  "\<exists>x. fst (updateMachineEtcdMember env m machine h) = Done x"
  by (simp add: updateMachineEtcdMember_def bnd_def split: sum.splits option.splits)

lemma insertClusterEtcdMember_run:
  "insertClusterEtcdMember env em cl h =
     (case GetClusterStatus (sputil env) cl of
        Inl e \<Rightarrow> (Failed (Errorf ''unable to decode cluster status: %v'' [ArgE e]), [])
      | Inr cst \<Rightarrow>
          (case PutClusterStatus (sputil env)
                  (cst\<lparr>EtcdMembers := EtcdMemberSet_List
                          (EtcdMemberSet_Insert em (NewEtcdMemberSet (EtcdMembers cst)))\<rparr>) cl of
             Inl e \<Rightarrow> (Failed (Errorf ''unable to encode cluster status: %v'' [ArgE e]), [])
           | Inr cl' \<Rightarrow>
               (case onErr (state env) h (UpdateClusterStatus (DefaultNamespace (common env)) cl') of
                  Some e \<Rightarrow> Failed (Errorf ''unable to update cluster: %v'' [ArgE e])
                | None \<Rightarrow> Done cl',
                [UpdateClusterStatus (DefaultNamespace (common env)) cl'])))"
  by (simp add: insertClusterEtcdMember_def bnd_def wrapE_run askE_run Let_def
      split: sum.splits option.splits)

lemma insertClusterEtcdMember_res:
  "(\<exists>x. fst (insertClusterEtcdMember env m cl h) = Done x)
   \<or> (\<exists>e. fst (insertClusterEtcdMember env m cl h) = Failed e)"
  by (simp add: insertClusterEtcdMember_run split: sum.splits option.splits)

lemma afterSeed_res:
  assumes "afterSeed env seed mwc cl h = (r, out)"
  shows "(\<exists>m' cl'. r = Done (seed, m', cl')) \<or> (\<exists>e. r = Failed e)"
  using assms unfolding afterSeed_def
proof (cases rule: bnd_cases)
  case (halt r')
  with updateMachineEtcdMember_res [of env seed "fst mwc" h] show ?thesis by auto
next
  case (step x o1 o2)
  obtain m' err where x: "x = (m', err)" by (cases x)
  show ?thesis
  proof (cases err)
    case (Some e)
    with step x show ?thesis by auto
  next
    case None
    with step(2) x have
      "bnd (wrapE (insertClusterEtcdMember env seed cl)
              (\<lambda>err. Errorf ''unable to update cluster status with etcd member %q: %v''
                        [ArgM seed, ArgE err]))
         (\<lambda>cluster'. ret (seed, m', cluster')) (h @ o1) = (r, o2)"
      by simp
    then show ?thesis
    proof (cases rule: bnd_cases)
      case (halt r')
      with insertClusterEtcdMember_res [of env seed cl "h @ o1"] show ?thesis
        by (auto simp: wrapE_run split: res.splits)
    next
      case (step cl' o3 o4)
      then show ?thesis by auto
    qed
  qed
qed

lemma etcdadmJoin_out:
  "wrapE (etcdadmJoin env ep c) w h = (r, out) \<Longrightarrow> out = [RunCommand c (joinCmd ep)]"
  by (auto simp: wrapE_run etcdadmJoin_def bnd_def runCommandOrError_run split: prod.splits option.splits)

lemma filter_none: "\<forall>c \<in> set out. \<not> P c \<Longrightarrow> filter P out = []"
  by (simp add: filter_empty_conv)

lemma no_join_info:
  assumes "wrapE (etcdMemberFromMachine env c) w h = (r, out)"
  shows "\<forall>x \<in> set out. \<not> isJoin x"
  using emitsD [OF emits_wrapE [OF emits_etcdMemberFromMachine] assms, of "\<lambda>c. \<not> isJoin c"] by simp

lemma no_join_update:
  assumes "updateMachineEtcdMember env m machine h = (r, out)"
  shows "\<forall>x \<in> set out. \<not> isJoin x"
  using emitsD [OF emits_updateMachineEtcdMember assms, of "\<lambda>c. \<not> isJoin c"] by simp

lemma no_join_insert:
  assumes "wrapE (insertClusterEtcdMember env m cl) w h = (r, out)"
  shows "\<forall>x \<in> set out. \<not> isJoin x"
  using emitsD [OF emits_wrapE [OF emits_insertClusterEtcdMember] assms, of "\<lambda>c. \<not> isJoin c"] by simp

lemma joinLoop_joins:
  "joinLoop env ep mwcs cl h = (r, out) \<Longrightarrow>
   \<exists>n \<le> length mwcs. filter isJoin out = map (joinCall ep) (take n mwcs)
      \<and> ((\<exists>x. r = Done x) \<longrightarrow> n = length mwcs)"
proof (induction mwcs arbitrary: cl h r out)
  case Nil
  then show ?case by simp
next
  case (Cons mwc rest)
  let ?jn = "joinCall ep mwc"
  have one: "\<exists>n \<le> length (mwc # rest). filter isJoin out' = map (joinCall ep) (take n (mwc # rest))
      \<and> ((\<exists>x. r' = Done x) \<longrightarrow> n = length (mwc # rest))"
    if "filter isJoin out' = [?jn]" "\<forall>x. r' \<noteq> Done x" for out' and r' :: "(Cluster \<times> (Machine \<times> Client) list) res"
    using that by (intro exI [of _ 1]) simp
  from Cons.prems have
    "bnd (logp ''[recover etcd] Joining master %q to new etcd cluster'' [ArgS (mName (fst mwc))])
       (\<lambda>_.
     bnd (wrapE (etcdadmJoin env ep (snd mwc))
            (\<lambda>err. Errorf ''error running etcdadm join on machine %q: %v''
                      [ArgS (mName (fst mwc)), ArgE err]))
       (\<lambda>_.
     bnd (wrapE (etcdMemberFromMachine env (snd mwc))
            (\<lambda>err. Errorf ''error reading etcd member data from machine %q: %v''
                      [ArgS (mName (fst mwc)), ArgE err]))
       (\<lambda>etcdMember.
     bnd (updateMachineEtcdMember env etcdMember (fst mwc))
       (\<lambda>(machine', err). case err of
          Some e \<Rightarrow> failWith (Errorf ''unable to update machine %q status with etcd member %q: %v''
                                [ArgS (mName machine'), ArgM etcdMember, ArgE e])
        | None \<Rightarrow>
     bnd (wrapE (insertClusterEtcdMember env etcdMember cl)
            (\<lambda>err. Errorf ''unable to update cluster status with etcd member %q: %v''
                      [ArgM etcdMember, ArgE err]))
       (\<lambda>cluster'.
     bnd (joinLoop env ep rest cluster')
       (\<lambda>(cluster'', rest'). ret (cluster'', (machine', snd mwc) # rest'))))))) h = (r, out)"
    by simp
  then show ?case
  proof (cases rule: bnd_cases)
    case (halt r')
    then show ?thesis by auto
  next
    case (step u oa ob)
    then have oa: "oa = [Log ''[recover etcd] Joining master %q to new etcd cluster'' [ArgS (mName (fst mwc))]]"
      by simp
    from step(2) show ?thesis
    proof (cases rule: bnd_cases)
      case (halt r')
      have "ob = [?jn]"
        using etcdadmJoin_out [OF halt(1)] by (simp add: joinCall_def)
      with halt \<open>out = oa @ ob\<close> oa have "filter isJoin out = [?jn]" "\<forall>x. r \<noteq> Done x"
        by (cases r'; simp add: joinCall_def)+
      then show ?thesis by (rule one)
    next
      case (step u oc od)
      have oc: "oc = [?jn]"
        using etcdadmJoin_out [OF step(1)] by (simp add: joinCall_def)
      from step(2) show ?thesis
      proof (cases rule: bnd_cases)
        case (halt r')
        with no_join_info [OF halt(1)] \<open>out = oa @ ob\<close> \<open>ob = oc @ od\<close> oa oc
        have "filter isJoin out = [?jn]" "\<forall>x. r \<noteq> Done x"
          by (cases r'; simp add: joinCall_def filter_none)+
        then show ?thesis by (rule one)
      next
        case (step etcdMember oe og)
        note info = no_join_info [OF step(1)]
        from step(2) show ?thesis
        proof (cases rule: bnd_cases)
          case (halt r')
          with updateMachineEtcdMember_res [of env etcdMember "fst mwc" "(h @ oa @ oc) @ oe"]
          show ?thesis by auto
        next
          case (step x oi oj)
          note upd = no_join_update [OF step(1)]
          obtain machine' err where x: "x = (machine', err)" by (cases x)
          have pre: "filter isJoin (oa @ oc @ oe @ oi) = [?jn]"
            using oa oc info upd by (simp add: joinCall_def filter_none)
          have out: "out = (oa @ oc @ oe @ oi) @ oj"
            using \<open>out = oa @ ob\<close> \<open>ob = oc @ od\<close> \<open>od = oe @ og\<close> \<open>og = oi @ oj\<close> by simp
          show ?thesis
          proof (cases err)
            case (Some e)
            with step(2) x have "oj = []" "\<forall>y. r \<noteq> Done y" by auto
            with pre out have "filter isJoin out = [?jn]" "\<forall>x. r \<noteq> Done x" by simp_all
            then show ?thesis by (rule one)
          next
            case None
            with step(2) x have
              "bnd (wrapE (insertClusterEtcdMember env etcdMember cl)
                      (\<lambda>err. Errorf ''unable to update cluster status with etcd member %q: %v''
                                [ArgM etcdMember, ArgE err]))
                 (\<lambda>cluster'.
               bnd (joinLoop env ep rest cluster')
                 (\<lambda>(cluster'', rest'). ret (cluster'', (machine', snd mwc) # rest')))
                 (((h @ oa @ oc) @ oe) @ oi) = (r, oj)"
              by simp
            then show ?thesis
            proof (cases rule: bnd_cases)
              case (halt r')
              with no_join_insert [OF halt(1)] pre out
              have "filter isJoin out = [?jn]" "\<forall>x. r \<noteq> Done x"
                by (cases r'; simp add: filter_none)+
              then show ?thesis by (rule one)
            next
              case (step cluster' ok ol)
              note ins = no_join_insert [OF step(1)]
              from step(2) show ?thesis
              proof (cases rule: bnd_cases)
                case (halt r')
                from Cons.IH [OF halt(1)] obtain n where
                  n: "n \<le> length rest" "filter isJoin ol = map (joinCall ep) (take n rest)"
                  by blast
                have "filter isJoin out = map (joinCall ep) (take (Suc n) (mwc # rest))"
                  using pre out \<open>oj = ok @ ol\<close> ins n by (simp add: filter_none)
                moreover have "\<forall>x. r \<noteq> Done x" using halt(2) by (cases r') auto
                ultimately show ?thesis using n(1) by (intro exI [of _ "Suc n"]) simp
              next
                case (step y om on)
                from Cons.IH [OF step(1)] have
                  n: "filter isJoin om = map (joinCall ep) rest"
                  by auto
                have "on = []" using step(2) by (cases y) simp
                then have "filter isJoin out = map (joinCall ep) (take (length (mwc # rest)) (mwc # rest))"
                  using pre out \<open>oj = ok @ ol\<close> \<open>ol = om @ on\<close> ins n by (simp add: filter_none)
                then show ?thesis by (intro exI [of _ "length (mwc # rest)"]) simp
              qed
            qed
          qed
        qed
      qed
    qed
  qed
qed

lemma unique_split:
  assumes A: "\<forall>x \<in> set A. \<not> P x" and R: "\<forall>x \<in> set R. \<not> P x" and c: "P c"
    and eq: "A @ c # R = pre @ c # post"
  shows "pre = A \<and> post = R"
proof -
  from split_first [OF A c eq] obtain pre' where pre': "pre = A @ pre'" "c # R = pre' @ c # post"
    by blast
  show ?thesis
  proof (cases pre')
    case Nil
    with pre' show ?thesis by simp
  next
    case (Cons x xs)
    with pre' have "c \<in> set R" by auto
    with R c show ?thesis by blast
  qed
qed

lemma no_boot_afterSeed:
  assumes "afterSeed env seed mwc cl h = (r, out)"
  shows "\<forall>c \<in> set out. \<not> isInit c \<and> \<not> isJoin c"
  using emitsD [OF emits_afterSeed assms, of "\<lambda>c. \<not> isInit c \<and> \<not> isJoin c"] by simp

lemma no_init_join:
  assumes "joinLoop env ep mwcs cl h = (r, out)"
  shows "\<forall>c \<in> set out. \<not> isInit c"
  using emitsD [OF emits_joinLoop assms, of "\<lambda>c. \<not> isInit c"] by simp

lemma no_boot_restart:
  assumes "restartLoop env mwcs h = (r, out)"
  shows "\<forall>c \<in> set out. \<not> isInit c \<and> \<not> isJoin c"
  using emitsD [OF emits_restartLoop assms, of "\<lambda>c. \<not> isInit c \<and> \<not> isJoin c"] by simp

lemma boot_cases [consumes 2, case_names quiet init info parse reported]:
  assumes run: "recoverEtcd env lp rp sec cl masters h = (r, out)" and ne: "masters \<noteq> []"
  obtains "\<forall>x \<in> set out. \<not> isInit x \<and> \<not> isJoin x" "r \<noteq> Done ()"
  | mwcs o1 A b e where "mastersWithClient env masters h = (Done mwcs, o1)"
      "out = A @ seedCalls lp rp (hd mwcs) b"
      "onBytes (state env) (h @ A) (ReadLocalFile lp) = Inr b"
      "\<forall>x \<in> set A. \<not> isInit x \<and> \<not> isJoin x" "r = Failed e"
  | mwcs o1 A b e so se err where "mastersWithClient env masters h = (Done mwcs, o1)"
      "out = A @ seedCalls lp rp (hd mwcs) b @ [infoCall (hd mwcs)]"
      "onBytes (state env) (h @ A) (ReadLocalFile lp) = Inr b"
      "\<forall>x \<in> set A. \<not> isInit x \<and> \<not> isJoin x" "r = Failed e"
      "onCommand (state env) (h @ A @ seedCalls lp rp (hd mwcs) b) (infoCall (hd mwcs)) = (so, se, Some err)"
  | mwcs o1 A b e so se err where "mastersWithClient env masters h = (Done mwcs, o1)"
      "out = A @ seedCalls lp rp (hd mwcs) b @ [infoCall (hd mwcs)]"
      "onBytes (state env) (h @ A) (ReadLocalFile lp) = Inr b"
      "\<forall>x \<in> set A. \<not> isInit x \<and> \<not> isJoin x" "r = Failed e"
      "onCommand (state env) (h @ A @ seedCalls lp rp (hd mwcs) b) (infoCall (hd mwcs)) = (so, se, None)"
      "UnmarshalEtcdMember (sputil env) so = Inl err"
  | mwcs o1 A b so se seed R n where "mastersWithClient env masters h = (Done mwcs, o1)"
      "out = A @ seedCalls lp rp (hd mwcs) b @ infoCall (hd mwcs) # R"
      "onBytes (state env) (h @ A) (ReadLocalFile lp) = Inr b"
      "\<forall>x \<in> set A. \<not> isInit x \<and> \<not> isJoin x"
      "onCommand (state env) (h @ A @ seedCalls lp rp (hd mwcs) b) (infoCall (hd mwcs)) = (so, se, None)"
      "UnmarshalEtcdMember (sputil env) so = Inr seed"
      "\<forall>x \<in> set R. \<not> isInit x"
      "ClientURLs seed = [] \<longrightarrow> (\<exists>e. r = Failed e) \<and> (\<forall>x \<in> set R. \<not> isJoin x)"
      "ClientURLs seed \<noteq> [] \<longrightarrow> n \<le> length (tl mwcs)
         \<and> filter isJoin R = map (joinCall (hd (ClientURLs seed))) (take n (tl mwcs))
         \<and> (r = Done () \<longrightarrow> n = length (tl mwcs))"
proof -
  have halted_not_Done: "r \<noteq> Done ()" if "halted r' r" for r' :: "'x res"
    using that by (cases r') auto
  have halted_Failed: "\<exists>e. r = Failed e" if "halted r' r" "\<exists>e. r' = Failed e" for r' :: "'x res"
    using that by auto
  from run ne show thesis
  proof (cases rule: recoverEtcd_cases)
    case (sessions r1)
    from no_boot_sessions [OF sessions(1)] halted_not_Done [OF sessions(2)]
    show ?thesis by (rule that(1))
  next
    case (reset mwcs o1 r2 o2)
    have "\<forall>x \<in> set out. \<not> isInit x \<and> \<not> isJoin x"
      using no_boot_sessions [OF reset(1)] no_boot_reset [OF reset(2)] reset(4) by auto
    from this halted_not_Done [OF reset(3)] show ?thesis by (rule that(1))
  next
    case (ca mwcs o1 cl1 o2 r3 o3)
    have "\<forall>x \<in> set out. \<not> isInit x \<and> \<not> isJoin x"
      using no_boot_sessions [OF ca(1)] no_boot_reset [OF ca(2)] no_boot_ca [OF ca(3)] ca(5)
      by auto
    from this halted_not_Done [OF ca(4)] show ?thesis by (rule that(1))
  next
    case (first mwcs o1 cl1 o2 o3 r4 o4)
    let ?B = "o1 @ cleanupLog # o2 @ caLog # o3"
    let ?A = "?B @ [initLog (hd mwcs)]"
    have B: "\<forall>x \<in> set ?B. \<not> isInit x \<and> \<not> isJoin x"
      using no_boot_sessions [OF first(1)] no_boot_reset [OF first(2)] no_boot_ca [OF first(3)]
      by auto
    then have A: "\<forall>x \<in> set ?A. \<not> isInit x \<and> \<not> isJoin x"
      by (auto simp: initLog_def)
    from first(4) show ?thesis
    proof (cases rule: recoverFirst_cases)
      case (early e)
      have "\<forall>x \<in> set out. \<not> isInit x \<and> \<not> isJoin x"
        using B early(2) first(6) by auto
      from this halted_not_Done [OF first(5)] show ?thesis by (rule that(1))
    next
      case (init b e)
      from first(5) init(1) have "r = Failed e" by simp
      with that(2) [of mwcs o1 ?A b e] first(1) first(6) init A show ?thesis by simp
    next
      case (info b e so se err)
      from first(5) info(1) have "r = Failed e" by simp
      with that(3) [of mwcs o1 ?A b e so se err] first(1) first(6) info A show ?thesis
        by (simp add: infoCall_def)
    next
      case (parse b e so se err)
      from first(5) parse(1) have "r = Failed e" by simp
      with that(4) [of mwcs o1 ?A b e so se err] first(1) first(6) parse A show ?thesis
        by (simp add: infoCall_def)
    next
      case (reported b so se seed rest)
      from afterSeed_res [OF reported(5)] first(5) obtain e where r: "r = Failed e" by auto
      note q = no_boot_afterSeed [OF reported(5)]
      have "filter isJoin rest = map (joinCall (hd (ClientURLs seed))) (take 0 (tl mwcs))"
        using q by (simp add: filter_none)
      with that(5) [of mwcs o1 ?A b rest so se seed 0] first(1) first(6) reported A r q
      show ?thesis by (simp add: infoCall_def)
    qed
  next
    case (urls mwcs o1 cl1 o2 o3 seed m' cl2 o4)
    let ?B = "o1 @ cleanupLog # o2 @ caLog # o3"
    let ?A = "?B @ [initLog (hd mwcs)]"
    have B: "\<forall>x \<in> set ?B. \<not> isInit x \<and> \<not> isJoin x"
      using no_boot_sessions [OF urls(1)] no_boot_reset [OF urls(2)] no_boot_ca [OF urls(3)]
      by auto
    then have A: "\<forall>x \<in> set ?A. \<not> isInit x \<and> \<not> isJoin x"
      by (auto simp: initLog_def)
    from urls(4) show ?thesis
    proof (cases rule: recoverFirst_cases)
      case (reported b so se seed' rest)
      from afterSeed_res [OF reported(5)] have seed: "seed' = seed" by auto
      note q = no_boot_afterSeed [OF reported(5)]
      from that(5) [of mwcs o1 ?A b rest so se seed 0] urls(1) urls(5,6,7) reported A q seed
      show ?thesis by (simp add: infoCall_def)
    qed simp_all
  next
    case (join mwcs o1 cl1 o2 o3 seed m' cl2 o4 r5 o5)
    let ?B = "o1 @ cleanupLog # o2 @ caLog # o3"
    let ?A = "?B @ [initLog (hd mwcs)]"
    have B: "\<forall>x \<in> set ?B. \<not> isInit x \<and> \<not> isJoin x"
      using no_boot_sessions [OF join(1)] no_boot_reset [OF join(2)] no_boot_ca [OF join(3)]
      by auto
    then have A: "\<forall>x \<in> set ?A. \<not> isInit x \<and> \<not> isJoin x"
      by (auto simp: initLog_def)
    from joinLoop_joins [OF join(6)] obtain n where
      n: "n \<le> length (tl mwcs)" "filter isJoin o5 = map (joinCall (hd (ClientURLs seed))) (take n (tl mwcs))"
      by blast
    note nd = halted_not_Done [OF join(7)]
    from join(4) show ?thesis
    proof (cases rule: recoverFirst_cases)
      case (reported b so se seed' rest)
      from afterSeed_res [OF reported(5)] have seed: "seed' = seed" by auto
      note q = no_boot_afterSeed [OF reported(5)]
      have R: "\<forall>x \<in> set (rest @ o5). \<not> isInit x"
        using q no_init_join [OF join(6)] by auto
      have "filter isJoin (rest @ o5) = map (joinCall (hd (ClientURLs seed))) (take n (tl mwcs))"
        using q n by (simp add: filter_none)
      with that(5) [of mwcs o1 ?A b "rest @ o5" so se seed n] join(1) join(5) join(8) reported A R seed n nd
      show ?thesis by (simp add: infoCall_def)
    qed simp_all
  next
    case (restart mwcs o1 cl1 o2 o3 seed m' cl2 o4 cl3 others' o5 o6)
    let ?B = "o1 @ cleanupLog # o2 @ caLog # o3"
    let ?A = "?B @ [initLog (hd mwcs)]"
    have B: "\<forall>x \<in> set ?B. \<not> isInit x \<and> \<not> isJoin x"
      using no_boot_sessions [OF restart(1)] no_boot_reset [OF restart(2)] no_boot_ca [OF restart(3)]
      by auto
    then have A: "\<forall>x \<in> set ?A. \<not> isInit x \<and> \<not> isJoin x"
      by (auto simp: initLog_def)
    from joinLoop_joins [OF restart(6)] have
      n: "filter isJoin o5 = map (joinCall (hd (ClientURLs seed))) (take (length (tl mwcs)) (tl mwcs))"
      by auto
    note q6 = no_boot_restart [OF restart(7)]
    from restart(4) show ?thesis
    proof (cases rule: recoverFirst_cases)
      case (reported b so se seed' rest)
      from afterSeed_res [OF reported(5)] have seed: "seed' = seed" by auto
      note q = no_boot_afterSeed [OF reported(5)]
      have R: "\<forall>x \<in> set (rest @ o5 @ o6). \<not> isInit x"
        using q q6 no_init_join [OF restart(6)] by auto
      have "filter isJoin (rest @ o5 @ o6)
          = map (joinCall (hd (ClientURLs seed))) (take (length (tl mwcs)) (tl mwcs))"
        using q q6 n by (simp add: filter_none)
      with that(5) [of mwcs o1 ?A b "rest @ o5 @ o6" so se seed "length (tl mwcs)"]
        restart(1) restart(5) restart(8) reported A R seed
      show ?thesis by (simp add: infoCall_def)
    qed simp_all
  qed
qed

lemma file_calls [simp]:
  "\<not> isInit (ReadLocalFile p)" "\<not> isJoin (ReadLocalFile p)"
  "\<not> isInit (WriteFile c p n b)" "\<not> isJoin (WriteFile c p n b)"
  by (simp_all add: isInit_def isJoin_def)

lemma infoCall_simps [simp]: "\<not> isInit (infoCall mwc)" "\<not> isJoin (infoCall mwc)"
  by (simp_all add: infoCall_def)

text \<open>
  C3. The first master is the seed and the others join it in input order at its first client
  endpoint. In every run of \<open>recoverEtcd\<close> over a non-empty list of masters: if an
  initialization command is among the calls, it is the only one, it runs on the first
  master on the snapshot just read and written to it, and no join comes before it; if a
  join is among the calls or the recovery succeeds, the seed has reported a member with a
  client URL, and the joins of the run are the joins of a prefix of the remaining masters,
  in input order, at the first of these URLs, all of them when the recovery succeeds; and
  if the seed reports a member without client URLs, the recovery returns an error and no
  join is among the calls.
\<close>

theorem seed_then_joins:
  assumes run: "recoverEtcd env lp rp sec cl masters h = (r, out)" and ne: "masters \<noteq> []"
  shows "((\<exists>c \<in> set out. isInit c) \<longrightarrow>
            (\<exists>mwcs o1 A b R.
                mastersWithClient env masters h = (Done mwcs, o1) \<and> map fst mwcs = masters
              \<and> out = A @ seedCalls lp rp (hd mwcs) b @ R
              \<and> onBytes (state env) (h @ A) (ReadLocalFile lp) = Inr b
              \<and> (\<forall>x \<in> set A. \<not> isInit x \<and> \<not> isJoin x) \<and> (\<forall>x \<in> set R. \<not> isInit x)))
       \<and> ((\<exists>c \<in> set out. isJoin c) \<or> r = Done () \<longrightarrow>
            (\<exists>mwcs o1 A b so se seed R n.
                mastersWithClient env masters h = (Done mwcs, o1)
              \<and> out = A @ seedCalls lp rp (hd mwcs) b @ infoCall (hd mwcs) # R
              \<and> onCommand (state env) (h @ A @ seedCalls lp rp (hd mwcs) b) (infoCall (hd mwcs))
                  = (so, se, None)
              \<and> UnmarshalEtcdMember (sputil env) so = Inr seed \<and> ClientURLs seed \<noteq> []
              \<and> filter isJoin out = map (joinCall (hd (ClientURLs seed))) (take n (tl mwcs))
              \<and> (r = Done () \<longrightarrow> n = length (tl mwcs))))
       \<and> (\<forall>mwcs o1 pre post so se seed.
              mastersWithClient env masters h = (Done mwcs, o1)
            \<and> out = pre @ RunCommand (snd (hd mwcs)) (initCmd rp) # infoCall (hd mwcs) # post
            \<and> onCommand (state env) (h @ pre @ [RunCommand (snd (hd mwcs)) (initCmd rp)])
                  (infoCall (hd mwcs)) = (so, se, None)
            \<and> UnmarshalEtcdMember (sputil env) so = Inr seed \<and> ClientURLs seed = []
            \<longrightarrow> (\<exists>e. r = Failed e) \<and> (\<forall>x \<in> set out. \<not> isJoin x))"
    (is "?seed \<and> ?joins \<and> ?zero")
  using run ne
proof (cases rule: boot_cases)
  case quiet
  then have "\<not> isInit (RunCommand c (initCmd rp))" if "RunCommand c (initCmd rp) \<in> set out" for c
    using that by blast
  with quiet show ?thesis by auto
next
  case (init mwcs o1 A b e)
  note m = mastersWithClient_Done [OF init(1)]
  let ?ini = "RunCommand (snd (hd mwcs)) (initCmd rp)"
  let ?A' = "A @ [ReadLocalFile lp, WriteFile (snd (hd mwcs)) rp 384 b]"
  have out: "out = ?A' @ ?ini # []" using init(2) by (simp add: seedCalls_def)
  have A': "\<forall>x \<in> set ?A'. \<not> isInit x" using init(4) by simp
  have nj: "\<forall>x \<in> set out. \<not> isJoin x"
    using init(2,4) by (auto simp: seedCalls_def)
  have seed: ?seed
    using init(1,2,3,4) m by (intro impI exI [of _ mwcs] exI [of _ o1] exI [of _ A] exI [of _ b] exI [of _ "[]"]) simp
  have joins: ?joins using nj init(5) by auto
  have zero: ?zero
  proof (intro allI impI)
    fix mwcs' o1' pre post so se seed
    assume a: "mastersWithClient env masters h = (Done mwcs', o1')
            \<and> out = pre @ RunCommand (snd (hd mwcs')) (initCmd rp) # infoCall (hd mwcs') # post
            \<and> onCommand (state env) (h @ pre @ [RunCommand (snd (hd mwcs')) (initCmd rp)])
                  (infoCall (hd mwcs')) = (so, se, None)
            \<and> UnmarshalEtcdMember (sputil env) so = Inr seed \<and> ClientURLs seed = []"
    with init(1) have same: "mwcs' = mwcs" by simp
    from a same out have "?A' @ ?ini # [] = pre @ ?ini # (infoCall (hd mwcs) # post)" by simp
    from unique_split [of ?A' isInit "[]" ?ini pre, OF A' _ _ this]
    show "(\<exists>e. r = Failed e) \<and> (\<forall>x \<in> set out. \<not> isJoin x)" by simp
  qed
  from seed joins zero show ?thesis by blast
next
  case (info mwcs o1 A b e so se err)
  note m = mastersWithClient_Done [OF info(1)]
  let ?ini = "RunCommand (snd (hd mwcs)) (initCmd rp)"
  let ?A' = "A @ [ReadLocalFile lp, WriteFile (snd (hd mwcs)) rp 384 b]"
  have out: "out = ?A' @ ?ini # [infoCall (hd mwcs)]" using info(2) by (simp add: seedCalls_def)
  have A': "\<forall>x \<in> set ?A'. \<not> isInit x" using info(4) by simp
  have hist: "h @ ?A' @ [?ini] = h @ A @ seedCalls lp rp (hd mwcs) b" by (simp add: seedCalls_def)
  have nj: "\<forall>x \<in> set out. \<not> isJoin x"
    using info(2,4) by (auto simp: seedCalls_def)
  have seed: ?seed
    using info(1,2,3,4) m
    by (intro impI exI [of _ mwcs] exI [of _ o1] exI [of _ A] exI [of _ b] exI [of _ "[infoCall (hd mwcs)]"])
      simp
  have joins: ?joins using nj info(5) by auto
  have zero: ?zero
  proof (intro allI impI)
    fix mwcs' o1' pre post so' se' seed
    assume a: "mastersWithClient env masters h = (Done mwcs', o1')
            \<and> out = pre @ RunCommand (snd (hd mwcs')) (initCmd rp) # infoCall (hd mwcs') # post
            \<and> onCommand (state env) (h @ pre @ [RunCommand (snd (hd mwcs')) (initCmd rp)])
                  (infoCall (hd mwcs')) = (so', se', None)
            \<and> UnmarshalEtcdMember (sputil env) so' = Inr seed \<and> ClientURLs seed = []"
    with info(1) have same: "mwcs' = mwcs" by simp
    from a same out have "?A' @ ?ini # [infoCall (hd mwcs)] = pre @ ?ini # (infoCall (hd mwcs) # post)"
      by simp
    from unique_split [of ?A' isInit "[infoCall (hd mwcs)]" ?ini pre, OF A' _ _ this]
    have "pre = ?A'" by simp
    with a same info(6) hist show "(\<exists>e. r = Failed e) \<and> (\<forall>x \<in> set out. \<not> isJoin x)" by simp
  qed
  from seed joins zero show ?thesis by blast
next
  case (parse mwcs o1 A b e so se err)
  note m = mastersWithClient_Done [OF parse(1)]
  let ?ini = "RunCommand (snd (hd mwcs)) (initCmd rp)"
  let ?A' = "A @ [ReadLocalFile lp, WriteFile (snd (hd mwcs)) rp 384 b]"
  have out: "out = ?A' @ ?ini # [infoCall (hd mwcs)]" using parse(2) by (simp add: seedCalls_def)
  have A': "\<forall>x \<in> set ?A'. \<not> isInit x" using parse(4) by simp
  have hist: "h @ ?A' @ [?ini] = h @ A @ seedCalls lp rp (hd mwcs) b" by (simp add: seedCalls_def)
  have nj: "\<forall>x \<in> set out. \<not> isJoin x"
    using parse(2,4) by (auto simp: seedCalls_def)
  have seed: ?seed
    using parse(1,2,3,4) m
    by (intro impI exI [of _ mwcs] exI [of _ o1] exI [of _ A] exI [of _ b] exI [of _ "[infoCall (hd mwcs)]"])
      simp
  have joins: ?joins using nj parse(5) by auto
  have zero: ?zero
  proof (intro allI impI)
    fix mwcs' o1' pre post so' se' seed
    assume a: "mastersWithClient env masters h = (Done mwcs', o1')
            \<and> out = pre @ RunCommand (snd (hd mwcs')) (initCmd rp) # infoCall (hd mwcs') # post
            \<and> onCommand (state env) (h @ pre @ [RunCommand (snd (hd mwcs')) (initCmd rp)])
                  (infoCall (hd mwcs')) = (so', se', None)
            \<and> UnmarshalEtcdMember (sputil env) so' = Inr seed \<and> ClientURLs seed = []"
    with parse(1) have same: "mwcs' = mwcs" by simp
    from a same out have "?A' @ ?ini # [infoCall (hd mwcs)] = pre @ ?ini # (infoCall (hd mwcs) # post)"
      by simp
    from unique_split [of ?A' isInit "[infoCall (hd mwcs)]" ?ini pre, OF A' _ _ this]
    have "pre = ?A'" by simp
    with a same parse(6,7) hist show "(\<exists>e. r = Failed e) \<and> (\<forall>x \<in> set out. \<not> isJoin x)" by simp
  qed
  from seed joins zero show ?thesis by blast
next
  case (reported mwcs o1 A b so se seed R n)
  note m = mastersWithClient_Done [OF reported(1)]
  let ?ini = "RunCommand (snd (hd mwcs)) (initCmd rp)"
  let ?A' = "A @ [ReadLocalFile lp, WriteFile (snd (hd mwcs)) rp 384 b]"
  have out: "out = ?A' @ ?ini # (infoCall (hd mwcs) # R)" using reported(2) by (simp add: seedCalls_def)
  have A': "\<forall>x \<in> set ?A'. \<not> isInit x" using reported(4) by simp
  have R': "\<forall>x \<in> set (infoCall (hd mwcs) # R). \<not> isInit x" using reported(7) by simp
  have hist: "h @ ?A' @ [?ini] = h @ A @ seedCalls lp rp (hd mwcs) b" by (simp add: seedCalls_def)
  have fj: "filter isJoin out = filter isJoin R"
    using reported(2,4) by (simp add: filter_none seedCalls_def)
  have seed: ?seed
    using reported(1,2,3,4,7) m
    by (intro impI exI [of _ mwcs] exI [of _ o1] exI [of _ A] exI [of _ b] exI [of _ "infoCall (hd mwcs) # R"])
      simp
  have joins: ?joins
  proof (cases "ClientURLs seed = []")
    case True
    with reported(8) fj have "filter isJoin out = []" "r \<noteq> Done ()" by (auto simp: filter_none)
    then show ?thesis by (auto simp: filter_empty_conv)
  next
    case False
    with reported(9) fj have
      "filter isJoin out = map (joinCall (hd (ClientURLs seed))) (take n (tl mwcs))"
      "r = Done () \<longrightarrow> n = length (tl mwcs)" by simp_all
    with reported(1,2,5,6) False show ?thesis by blast
  qed
  have zero: ?zero
  proof (intro allI impI)
    fix mwcs' o1' pre post so' se' seed'
    assume a: "mastersWithClient env masters h = (Done mwcs', o1')
            \<and> out = pre @ RunCommand (snd (hd mwcs')) (initCmd rp) # infoCall (hd mwcs') # post
            \<and> onCommand (state env) (h @ pre @ [RunCommand (snd (hd mwcs')) (initCmd rp)])
                  (infoCall (hd mwcs')) = (so', se', None)
            \<and> UnmarshalEtcdMember (sputil env) so' = Inr seed' \<and> ClientURLs seed' = []"
    with reported(1) have same: "mwcs' = mwcs" by simp
    from a same out have "?A' @ ?ini # (infoCall (hd mwcs) # R) = pre @ ?ini # (infoCall (hd mwcs) # post)"
      by simp
    from unique_split [of ?A' isInit "infoCall (hd mwcs) # R" ?ini pre, OF A' R' _ this]
    have "pre = ?A'" by simp
    with a same reported(5,6) hist have "seed' = seed" by simp
    with a reported(8) fj show "(\<exists>e. r = Failed e) \<and> (\<forall>x \<in> set out. \<not> isJoin x)"
      by (auto simp: filter_empty_conv)
  qed
  from seed joins zero show ?thesis by blast
qed

theorem seed_then_joins_witness:
  "filter isInit (snd (recoverEtcd (testEnv (\<lambda>c. False) []) ''snapshot.db'' ''/tmp/snapshot.db''
                         (Some testSecret) testMembers testMasters []))
     = [RunCommand (testClient ''10.0.0.1'') (initCmd ''/tmp/snapshot.db'')]
   \<and> filter isJoin (snd (recoverEtcd (testEnv (\<lambda>c. False) []) ''snapshot.db'' ''/tmp/snapshot.db''
                           (Some testSecret) testMembers testMasters []))
     = [RunCommand (testClient ''10.0.0.2'') (joinCmd ''https://10.0.0.1:2379'')]
   \<and> (\<exists>e. fst (recoverEtcd testEnvNoEndpoints ''snapshot.db'' ''/tmp/snapshot.db''
                  (Some testSecret) testMembers testMasters []) = Failed e)
   \<and> filter isJoin (snd (recoverEtcd testEnvNoEndpoints ''snapshot.db'' ''/tmp/snapshot.db''
                           (Some testSecret) testMembers testMasters [])) = []"
proof -
  let ?ok = "testEnv (\<lambda>c. False) []"
  let ?run = "recoverEtcd ?ok ''snapshot.db'' ''/tmp/snapshot.db'' (Some testSecret)
                testMembers testMasters []"
  let ?s1 = "(testMachine ''10.0.0.1'' [MasterRole] (Some ''10.0.0.1''), testClient ''10.0.0.1'')"
  let ?s2 = "(testMachine ''10.0.0.2'' [MasterRole] (Some ''10.0.0.2''), testClient ''10.0.0.2'')"
  have ne: "testMasters \<noteq> []"
    by (simp add: testMasters_def)
  have both: "testSessions testMasters = [?s1, ?s2]"
    by (simp add: testSessions_def testMasters_def testMachine_def)
  have run: "?run = (fst ?run, snd ?run)"
    by simp
  have inits: "\<exists>c \<in> set (snd ?run). isInit c"
    by code_simp
  have completes: "fst ?run = Done ()"
    by code_simp
  have sessions: "mastersWithClient ?ok testMasters []
                    = (Done (testSessions testMasters), snd (mastersWithClient ?ok testMasters []))"
    by code_simp
  note ok = seed_then_joins [OF run ne]
  from ok inits obtain mwcs o1 A b R where
      "mastersWithClient ?ok testMasters [] = (Done mwcs, o1)"
      and "snd ?run = A @ seedCalls ''snapshot.db'' ''/tmp/snapshot.db'' (hd mwcs) b @ R"
      and "\<forall>x \<in> set A. \<not> isInit x \<and> \<not> isJoin x" and "\<forall>x \<in> set R. \<not> isInit x"
    by blast
  then have seed: "filter isInit (snd ?run)
                     = [RunCommand (testClient ''10.0.0.1'') (initCmd ''/tmp/snapshot.db'')]"
    using sessions by (simp add: both seedCalls_def filter_empty_conv)
  from ok completes obtain mwcs o1 A b so se seed R n where
      "mastersWithClient ?ok testMasters [] = (Done mwcs, o1)"
      and "onCommand (state ?ok) ([] @ A @ seedCalls ''snapshot.db'' ''/tmp/snapshot.db'' (hd mwcs) b)
             (infoCall (hd mwcs)) = (so, se, None)"
      and "UnmarshalEtcdMember (sputil ?ok) so = Inr seed"
      and "filter isJoin (snd ?run) = map (joinCall (hd (ClientURLs seed))) (take n (tl mwcs))"
      and "n = length (tl mwcs)"
    by blast
  then have joins: "filter isJoin (snd ?run)
                      = [RunCommand (testClient ''10.0.0.2'') (joinCmd ''https://10.0.0.1:2379'')]"
    using sessions
    by (auto simp: both infoCall_def joinCall_def testEnv_def testWorld_def testLib_def
          testMember_def testClient_def)

  let ?none = "testEnvNoEndpoints"
  let ?run' = "recoverEtcd ?none ''snapshot.db'' ''/tmp/snapshot.db'' (Some testSecret)
                 testMembers testMasters []"
  let ?pre = "takeWhile (\<lambda>c. \<not> isInit c) (snd ?run')"
  let ?post = "drop 2 (dropWhile (\<lambda>c. \<not> isInit c) (snd ?run'))"
  let ?first = "hd (testSessions testMasters)"
  have run': "?run' = (fst ?run', snd ?run')"
    by simp
  have sessions': "mastersWithClient ?none testMasters []
                     = (Done (testSessions testMasters), snd (mastersWithClient ?none testMasters []))"
    by code_simp
  have split: "snd ?run' = ?pre @ RunCommand (snd ?first) (initCmd ''/tmp/snapshot.db'')
                             # infoCall ?first # ?post"
    by code_simp
  have info: "onCommand (state ?none) ([] @ ?pre @ [RunCommand (snd ?first) (initCmd ''/tmp/snapshot.db'')])
                (infoCall ?first) = (''10.0.0.1'', [], None)"
    by code_simp
  have reported: "UnmarshalEtcdMember (sputil ?none) ''10.0.0.1''
                    = Inr ((testMember ''10.0.0.1'')\<lparr>ClientURLs := []\<rparr>)"
    by (simp add: testEnvNoEndpoints_def)
  have urls: "ClientURLs ((testMember ''10.0.0.1'')\<lparr>ClientURLs := []\<rparr>) = []"
    by simp
  have "(\<exists>e. fst ?run' = Failed e) \<and> (\<forall>x \<in> set (snd ?run'). \<not> isJoin x)"
    using seed_then_joins [OF run' ne] sessions' split info reported urls by blast
  then have zero: "(\<exists>e. fst ?run' = Failed e) \<and> filter isJoin (snd ?run') = []"
    by (simp add: filter_empty_conv)
  from seed joins zero show ?thesis
    by simp
qed

end
